theory Spec2Isabelle
  imports Complex_Main
begin

section \<open>Scalars, vectors and loops of ShapeMeshes.cpp\<close>

text \<open>
  \<open>GLfloat\<close> values are idealised as real numbers (rounding is not modelled) wherever they
  only become vertex attributes; the \<open>float\<close> results that decide what \<open>DrawSpiralMesh\<close>
  does next are computed by operations that are a parameter of the model. \<open>int\<close> values are
  unbounded integers and \<open>GLuint\<close>/\<open>size_t\<close> values natural numbers. An \<open>int\<close> expression
  that is evaluated before the vertices are generated (the arguments of \<open>reserve\<close>, the
  product of the segment counts of the spring) is checked against \<open>INT_MAX\<close>, signed
  overflow being undefined behaviour. Inside the loops every \<open>int\<close> value is bounded by
  the number of vertices pushed so far, so it overflows only after \<open>2^31\<close> vertices
  (64 GiB of floats) have been stored.
\<close>

type_synonym GLfloat = real
type_synonym GLuint = nat

text \<open>Constants that approximate \<open>\<pi>\<close> are given the value the program holds, because the
  seam of a wrap-around shape depends on their distance from \<open>\<pi>\<close>:
  \<open>constexpr float Pi = 3.141592653589793\<close> is narrowed to single precision, whose nearest
  value is \<open>13176795 / 2^22 = 3.1415927410125732421875\<close>. The local constants
  \<open>3.14159265f\<close> and \<open>3.14159265359f\<close> of the custom shapes are the same \<open>float\<close>. Other
  literals stand for their decimal value.\<close>

definition pi_f :: real where
  "pi_f = 13176795 / 4194304"

definition Pi :: real where
  "Pi = pi_f"

definition FloatsPerVertex :: nat where "FloatsPerVertex = 3"
definition FloatsPerNormal :: nat where "FloatsPerNormal = 3"
definition FloatsPerUV :: nat where "FloatsPerUV = 2"

text \<open>\<open>for (int i = lo; i < hi; ++i) body\<close> and \<open>for (int i = lo; i <= hi; ++i) body\<close>
  over the loop-carried variables.\<close>

definition for_lt :: "int \<Rightarrow> int \<Rightarrow> (int \<Rightarrow> 's \<Rightarrow> 's) \<Rightarrow> 's \<Rightarrow> 's" where
  "for_lt lo hi body s = fold body [lo..hi - 1] s"

definition for_le :: "int \<Rightarrow> int \<Rightarrow> (int \<Rightarrow> 's \<Rightarrow> 's) \<Rightarrow> 's \<Rightarrow> 's" where
  "for_le lo hi body s = fold body [lo..hi] s"

text \<open>C++ \<open>/\<close> and \<open>%\<close> on \<open>int\<close> truncate towards zero. Every divisor in the generators
  is positive where the operation is reached.\<close>

definition c_div :: "int \<Rightarrow> int \<Rightarrow> int" where
  "c_div a b = sgn a * sgn b * (\<bar>a\<bar> div \<bar>b\<bar>)"

definition c_mod :: "int \<Rightarrow> int \<Rightarrow> int" where
  "c_mod a b = a - b * c_div a b"

subsection \<open>glm vectors\<close>

datatype vec3 = Vec3 (vx: real) (vy: real) (vz: real)

instantiation vec3 :: "{zero, plus, minus, uminus}"
begin

definition zero_vec3 :: vec3 where
  "zero_vec3 = Vec3 0 0 0"

definition plus_vec3 :: "vec3 \<Rightarrow> vec3 \<Rightarrow> vec3" where
  "plus_vec3 a b = Vec3 (vx a + vx b) (vy a + vy b) (vz a + vz b)"

definition minus_vec3 :: "vec3 \<Rightarrow> vec3 \<Rightarrow> vec3" where
  "minus_vec3 a b = Vec3 (vx a - vx b) (vy a - vy b) (vz a - vz b)"

definition uminus_vec3 :: "vec3 \<Rightarrow> vec3" where
  "uminus_vec3 a = Vec3 (- vx a) (- vy a) (- vz a)"

instance ..

end

text \<open>\<open>v * s\<close> and \<open>s * v\<close> of a vector and a scalar.\<close>

definition vscale :: "vec3 \<Rightarrow> real \<Rightarrow> vec3" where
  "vscale v k = Vec3 (vx v * k) (vy v * k) (vz v * k)"

definition dot :: "vec3 \<Rightarrow> vec3 \<Rightarrow> real" where
  "dot a b = vx a * vx b + vy a * vy b + vz a * vz b"

text \<open>\<open>glm::cross(x, y)\<close>.\<close>

definition cross :: "vec3 \<Rightarrow> vec3 \<Rightarrow> vec3" where
  "cross a b = Vec3 (vy a * vz b - vy b * vz a) (vz a * vx b - vz b * vx a)
                    (vx a * vy b - vx b * vy a)"

definition vlength :: "vec3 \<Rightarrow> real" where
  "vlength v = sqrt (dot v v)"

text \<open>\<open>glm::normalize(v) = v * inversesqrt(dot(v, v))\<close>. For the zero vector the C++ code
  computes \<open>0 * inf = NaN\<close> in every component; here \<open>1 / 0 = 0\<close> and the result is the
  zero vector. In neither reading is the result of unit length.\<close>

definition normalize :: "vec3 \<Rightarrow> vec3" where
  "normalize v = vscale v (1 / sqrt (dot v v))"

text \<open>\<open>glm::clamp\<close>, \<open>glm::radians\<close> and \<open>glm::mix\<close> on scalars.\<close>

definition clamp :: "real \<Rightarrow> real \<Rightarrow> real \<Rightarrow> real" where
  "clamp x minVal maxVal = min (max x minVal) maxVal"

definition radians :: "real \<Rightarrow> real" where
  "radians degrees = degrees * 0.01745329251994329576923690768489"

definition mix :: "real \<Rightarrow> real \<Rightarrow> real \<Rightarrow> real" where
  "mix x y a = x * (1 - a) + y * a"

section \<open>The ShapeMeshes object\<close>

text \<open>The fields of \<open>GLMesh\<close> that the generators write. The buffer object names
  (\<open>vao\<close>, \<open>vbo\<close>, \<open>ebo\<close>) belong to the render backend and are left out.\<close>

record GLMesh =
  nVertices :: GLuint
  nIndices :: GLuint
  numSlices :: int
  curveSteps :: int

text \<open>The members of \<open>ShapeMeshes\<close> that mesh construction reads or writes.
  \<open>layoutCalls\<close> counts the executions of \<open>SetShaderMemoryLayout\<close>, the three
  \<open>glVertexAttribPointer\<close>/\<open>glEnableVertexAttribArray\<close> pairs sent to the backend.\<close>

record ShapeMeshes =
  m_bMemoryLayoutDone :: bool
  layoutCalls :: nat
  m_BoxMesh :: GLMesh
  m_ConeMesh :: GLMesh
  m_CylinderMesh :: GLMesh
  m_PlaneMesh :: GLMesh
  m_PrismMesh :: GLMesh
  m_Pyramid3Mesh :: GLMesh
  m_Pyramid4Mesh :: GLMesh
  m_SphereMesh :: GLMesh
  m_HemisphereMesh :: GLMesh
  m_TaperedCylinderMesh :: GLMesh
  m_TorusMesh :: GLMesh
  m_ExtraTorusMesh1 :: GLMesh
  m_ExtraTorusMesh2 :: GLMesh
  m_SpringMesh :: GLMesh
  m_TubeMesh :: GLMesh
  m_FinMesh :: GLMesh
  m_CurvedConeMesh :: GLMesh
  m_TaperedTorusMesh :: GLMesh
  m_SpiralMesh :: GLMesh
  m_SineConeMesh :: GLMesh
  m_SuperellipsoidMesh :: GLMesh

text \<open>\<open>GLMesh\<close> default member initialisers and the \<open>ShapeMeshes\<close> constructor.\<close>

definition GLMesh_init :: GLMesh where
  "GLMesh_init = \<lparr>nVertices = 0, nIndices = 0, numSlices = 0, curveSteps = 0\<rparr>"

definition ShapeMeshes_init :: ShapeMeshes where
  "ShapeMeshes_init =
     \<lparr>m_bMemoryLayoutDone = False, layoutCalls = 0,
      m_BoxMesh = GLMesh_init, m_ConeMesh = GLMesh_init, m_CylinderMesh = GLMesh_init,
      m_PlaneMesh = GLMesh_init, m_PrismMesh = GLMesh_init, m_Pyramid3Mesh = GLMesh_init,
      m_Pyramid4Mesh = GLMesh_init, m_SphereMesh = GLMesh_init,
      m_HemisphereMesh = GLMesh_init, m_TaperedCylinderMesh = GLMesh_init,
      m_TorusMesh = GLMesh_init, m_ExtraTorusMesh1 = GLMesh_init,
      m_ExtraTorusMesh2 = GLMesh_init, m_SpringMesh = GLMesh_init, m_TubeMesh = GLMesh_init,
      m_FinMesh = GLMesh_init, m_CurvedConeMesh = GLMesh_init,
      m_TaperedTorusMesh = GLMesh_init, m_SpiralMesh = GLMesh_init,
      m_SineConeMesh = GLMesh_init, m_SuperellipsoidMesh = GLMesh_init\<rparr>"

text \<open>\<open>SetShaderMemoryLayout\<close> issues the attribute-pointer calls and assigns no member.\<close>

definition SetShaderMemoryLayout :: "ShapeMeshes \<Rightarrow> ShapeMeshes" where
  "SetShaderMemoryLayout s = s\<lparr>layoutCalls := layoutCalls s + 1\<rparr>"

text \<open>\<open>InitializeMesh(mesh, verts, indices)\<close>: \<open>mesh\<close> is the member passed by reference; the
  caller stores the returned mesh back into that member.\<close>

definition InitializeMesh ::
  "GLMesh \<Rightarrow> GLfloat list \<Rightarrow> GLuint list \<Rightarrow> ShapeMeshes \<Rightarrow> GLMesh \<times> ShapeMeshes" where
  "InitializeMesh mesh verts indices s =
     (let mesh = mesh\<lparr>nVertices := length verts div (FloatsPerVertex + FloatsPerNormal + FloatsPerUV)\<rparr>;
          mesh = mesh\<lparr>nIndices := length indices\<rparr>;
          s = (if \<not> m_bMemoryLayoutDone s then SetShaderMemoryLayout s else s)
      in (mesh, s))"

text \<open>The host buffers a generator hands to \<open>glBufferData\<close>: the interleaved vertex
  array and the index array (empty when no index buffer is uploaded).\<close>

type_synonym buffers = "GLfloat list \<times> GLuint list"

text \<open>Signed \<open>int\<close> overflow, reading a \<open>std::vector\<close> out of range and converting a
  \<open>float\<close> that does not fit to \<open>int\<close> are undefined behaviour. A generator that can reach
  one of them returns \<open>Inl UndefinedBehaviour\<close> there.\<close>

datatype error = UndefinedBehaviour

definition INT_MAX :: int where
  "INT_MAX = 2147483647"

section \<open>Generators\<close>

subsection \<open>LoadBoxMesh\<close>

definition LoadBoxMesh :: "ShapeMeshes \<Rightarrow> buffers \<times> ShapeMeshes" where
  "LoadBoxMesh s =
     (let verts = [
            0.5, 0.5, -0.5, 0, 0, -1, 0, 1,
            0.5, -0.5, -0.5, 0, 0, -1, 0, 0,
            -0.5, -0.5, -0.5, 0, 0, -1, 1, 0,
            -0.5, 0.5, -0.5, 0, 0, -1, 1, 1,
            -0.5, -0.5, 0.5, 0, -1, 0, 0, 1,
            -0.5, -0.5, -0.5, 0, -1, 0, 0, 0,
            0.5, -0.5, -0.5, 0, -1, 0, 1, 0,
            0.5, -0.5, 0.5, 0, -1, 0, 1, 1,
            -0.5, 0.5, -0.5, -1, 0, 0, 0, 1,
            -0.5, -0.5, -0.5, -1, 0, 0, 0, 0,
            -0.5, -0.5, 0.5, -1, 0, 0, 1, 0,
            -0.5, 0.5, 0.5, -1, 0, 0, 1, 1,
            0.5, 0.5, 0.5, 1, 0, 0, 0, 1,
            0.5, -0.5, 0.5, 1, 0, 0, 0, 0,
            0.5, -0.5, -0.5, 1, 0, 0, 1, 0,
            0.5, 0.5, -0.5, 1, 0, 0, 1, 1,
            -0.5, 0.5, -0.5, 0, 1, 0, 0, 1,
            -0.5, 0.5, 0.5, 0, 1, 0, 0, 0,
            0.5, 0.5, 0.5, 0, 1, 0, 1, 0,
            0.5, 0.5, -0.5, 0, 1, 0, 1, 1,
            -0.5, 0.5, 0.5, 0, 0, 1, 0, 1,
            -0.5, -0.5, 0.5, 0, 0, 1, 0, 0,
            0.5, -0.5, 0.5, 0, 0, 1, 1, 0,
            0.5, 0.5, 0.5, 0, 0, 1, 1, 1];
          indices = [
            0, 1, 2, 2, 3, 0,
            4, 5, 6, 6, 7, 4,
            8, 9, 10, 10, 11, 8,
            12, 13, 14, 14, 15, 12,
            16, 17, 18, 18, 19, 16,
            20, 21, 22, 22, 23, 20];
          s = s\<lparr>m_BoxMesh := (m_BoxMesh s)\<lparr>nVertices :=
                 length verts div (FloatsPerVertex + FloatsPerNormal + FloatsPerUV)\<rparr>\<rparr>;
          s = s\<lparr>m_BoxMesh := (m_BoxMesh s)\<lparr>nIndices := length indices\<rparr>\<rparr>;
          (mesh, s) = InitializeMesh (m_BoxMesh s) verts indices s;
          s = s\<lparr>m_BoxMesh := mesh\<rparr>
      in ((verts, indices), s))"

subsection \<open>LoadConeMesh\<close>

definition LoadConeMesh :: "real \<Rightarrow> real \<Rightarrow> int \<Rightarrow> ShapeMeshes \<Rightarrow> buffers \<times> ShapeMeshes" where
  "LoadConeMesh radius height numSlices0 s =
     (let numSlices = (if numSlices0 < 3 then 3 else numSlices0);
          s = s\<lparr>m_ConeMesh := (m_ConeMesh s)\<lparr>numSlices := numSlices\<rparr>\<rparr>;
          vertices = [];
          indices = [];
          angleStep = 2 * Pi / real_of_int numSlices;
          bottomCenterIndex = int (length vertices div 8);
          vertices = vertices @ [0, 0, 0, 0, -1, 0, 0.5, 0.5];
          (vertices, indices) = for_lt 0 numSlices (\<lambda>i (vertices, indices).
             let a = real_of_int i * angleStep;
                 x = radius * cos a;
                 z = radius * sin a
             in (vertices @ [x, 0, z, 0, -1, 0, 0.5 + 0.5 * cos a, 0.5 + 0.5 * sin a],
                 indices @ [nat bottomCenterIndex,
                            nat (bottomCenterIndex + c_mod (i + 1) numSlices + 1),
                            nat (bottomCenterIndex + i + 1)]))
             (vertices, indices);
          apexIndex = int (length vertices div 8);
          vertices = vertices @ [0, height, 0, 0, 1, 0, 0.5, 0.5];
          sideStart = apexIndex + 1;
          (vertices, indices) = for_lt 0 numSlices (\<lambda>i (vertices, indices).
             let a0 = real_of_int i * angleStep;
                 a1 = real_of_int (i + 1) * angleStep;
                 p0 = Vec3 (radius * cos a0) 0 (radius * sin a0);
                 p1 = Vec3 (radius * cos a1) 0 (radius * sin a1);
                 normal = normalize (Vec3 ((vx p0 + vx p1) * 0.5) (height * 0.5)
                                          ((vz p0 + vz p1) * 0.5));
                 v0 = sideStart + 2 * i;
                 v1 = sideStart + 2 * i + 1
             in (vertices
                   @ [vx p0, vy p0, vz p0, vx normal, vy normal, vz normal,
                      real_of_int i / real_of_int numSlices, 1]
                   @ [vx p1, vy p1, vz p1, vx normal, vy normal, vz normal,
                      real_of_int (i + 1) / real_of_int numSlices, 1],
                 indices @ [nat apexIndex, nat v0, nat v1]))
             (vertices, indices);
          (mesh, s) = InitializeMesh (m_ConeMesh s) vertices indices s;
          s = s\<lparr>m_ConeMesh := mesh\<rparr>
      in ((vertices, indices), s))"

subsection \<open>LoadCylinderMesh\<close>

definition LoadCylinderMesh :: "real \<Rightarrow> real \<Rightarrow> int \<Rightarrow> ShapeMeshes \<Rightarrow> buffers \<times> ShapeMeshes" where
  "LoadCylinderMesh radius height numSlices0 s =
     (let numSlices = (if numSlices0 < 3 then 3 else numSlices0);
          s = s\<lparr>m_CylinderMesh := (m_CylinderMesh s)\<lparr>numSlices := numSlices\<rparr>\<rparr>;
          vertices = [];
          indices = [];
          angleStep = 2 * Pi / real_of_int numSlices;
          bottomCenterIndex = int (length vertices div 8);
          vertices = vertices @ [0, 0, 0, 0, -1, 0, 0.5, 0.5];
          (vertices, indices) = for_le 0 numSlices (\<lambda>i (vertices, indices).
             let angle = real_of_int i * angleStep;
                 x = radius * cos angle;
                 z = radius * sin angle
             in (vertices @ [x, 0, z, 0, -1, 0, 0.5 + 0.5 * cos angle, 0.5 + 0.5 * sin angle],
                 if i < numSlices
                 then indices @ [nat bottomCenterIndex,
                                 nat (bottomCenterIndex + i + 1),
                                 nat (bottomCenterIndex + c_mod (i + 1) numSlices + 1)]
                 else indices))
             (vertices, indices);
          topCenterIndex = int (length vertices div 8);
          vertices = vertices @ [0, height, 0, 0, 1, 0, 0.5, 0.5];
          (vertices, indices) = for_le 0 numSlices (\<lambda>i (vertices, indices).
             let angle = real_of_int i * angleStep;
                 x = radius * cos angle;
                 z = radius * sin angle
             in (vertices @ [x, height, z, 0, 1, 0, 0.5 + 0.5 * cos angle, 0.5 + 0.5 * sin angle],
                 if i < numSlices
                 then indices @ [nat topCenterIndex,
                                 nat (topCenterIndex + i + 1),
                                 nat (topCenterIndex + c_mod (i + 1) numSlices + 1)]
                 else indices))
             (vertices, indices);
          sideStartIndex = int (length vertices div 8);
          (vertices, indices) = for_le 0 numSlices (\<lambda>i (vertices, indices).
             let angle = real_of_int i * angleStep;
                 x = radius * cos angle;
                 z = radius * sin angle;
                 nx = cos angle;
                 nz = sin angle
             in (vertices
                   @ [x, 0, z, nx, 0, nz, real_of_int i / real_of_int numSlices, 1]
                   @ [x, height, z, nx, 0, nz, real_of_int i / real_of_int numSlices, 0],
                 if i < numSlices
                 then indices @ [nat (sideStartIndex + (i * 2)),
                                 nat (sideStartIndex + (i * 2) + 1),
                                 nat (sideStartIndex + ((i + 1) * 2)),
                                 nat (sideStartIndex + (i * 2) + 1),
                                 nat (sideStartIndex + ((i + 1) * 2)),
                                 nat (sideStartIndex + ((i + 1) * 2) + 1)]
                 else indices))
             (vertices, indices);
          (mesh, s) = InitializeMesh (m_CylinderMesh s) vertices indices s;
          s = s\<lparr>m_CylinderMesh := mesh\<rparr>
      in ((vertices, indices), s))"

subsection \<open>LoadPlaneMesh\<close>

definition LoadPlaneMesh :: "real \<Rightarrow> real \<Rightarrow> ShapeMeshes \<Rightarrow> buffers \<times> ShapeMeshes" where
  "LoadPlaneMesh width height s =
     (let halfWidth = width / 2;
          halfHeight = height / 2;
          verts = [
            - halfWidth, 0, halfHeight,    0, 1, 0,   0, 0,
            halfWidth, 0, halfHeight,      0, 1, 0,   1, 0,
            halfWidth, 0, - halfHeight,    0, 1, 0,   1, 1,
            - halfWidth, 0, - halfHeight,  0, 1, 0,   0, 1];
          indices = [0, 1, 2, 0, 2, 3];
          s = s\<lparr>m_PlaneMesh := (m_PlaneMesh s)\<lparr>nVertices :=
                 length verts div (FloatsPerVertex + FloatsPerNormal + FloatsPerUV)\<rparr>\<rparr>;
          s = s\<lparr>m_PlaneMesh := (m_PlaneMesh s)\<lparr>nIndices := length indices\<rparr>\<rparr>;
          (mesh, s) = InitializeMesh (m_PlaneMesh s) verts indices s;
          s = s\<lparr>m_PlaneMesh := mesh\<rparr>
      in ((verts, indices), s))"

subsection \<open>LoadPrismMesh\<close>

definition LoadPrismMesh :: "ShapeMeshes \<Rightarrow> buffers \<times> ShapeMeshes" where
  "LoadPrismMesh s =
     (let verts = [
            0.5, 0.5, -0.5, 0, 0, -1, 0, 1,
            0.5, -0.5, -0.5, 0, 0, -1, 0, 0,
            -0.5, -0.5, -0.5, 0, 0, -1, 1, 0,
            0.5, 0.5, -0.5, 0, 0, -1, 0, 1,
            0.5, 0.5, -0.5, 0, 0, -1, 0, 1,
            -0.5, 0.5, -0.5, 0, 0, -1, 1, 1,
            -0.5, -0.5, -0.5, 0, 0, -1, 1, 0,
            0.5, 0.5, -0.5, 0, 0, -1, 0, 1,
            0.5, -0.5, -0.5, 0, -1, 0, 0, 0,
            -0.5, -0.5, -0.5, 0, -1, 0, 1, 0,
            0, -0.5, 0.5, 0, -1, 0, 0.5, 1,
            -0.5, -0.5, -0.5, 0, -1, 0, 0, 0,
            -0.5, -0.5, -0.5, 0.89442718, 0, -0.44721359, 0, 0,
            -0.5, 0.5, -0.5, 0.89442718, 0, -0.44721359, 0, 1,
            0, 0.5, 0.5, 0.89442718, 0, -0.44721359, 1, 1,
            -0.5, -0.5, -0.5, 0.89442718, 0, -0.44721359, 0, 0,
            -0.5, -0.5, -0.5, 0.89442718, 0, -0.44721359, 0, 0,
            0, -0.5, 0.5, 0.89442718, 0, -0.44721359, 1, 0,
            0, 0.5, 0.5, 0.89442718, 0, -0.44721359, 1, 1,
            -0.5, -0.5, -0.5, 0.89442718, 0, -0.44721359, 0, 0,
            0, 0.5, 0.5, -0.89442718, 0, -0.44721359, 0, 1,
            0.5, 0.5, -0.5, -0.89442718, 0, -0.44721359, 1, 1,
            0.5, -0.5, -0.5, -0.89442718, 0, -0.44721359, 1, 0,
            0, 0.5, 0.5, -0.89442718, 0, -0.44721359, 0, 1,
            0, 0.5, 0.5, -0.89442718, 0, -0.44721359, 0, 1,
            0, -0.5, 0.5, -0.89442718, 0, -0.44721359, 0, 0,
            0.5, -0.5, -0.5, -0.89442718, 0, -0.44721359, 1, 0,
            0, 0.5, 0.5, -0.89442718, 0, -0.44721359, 0, 1,
            0.5, 0.5, -0.5, 0, 1, 0, 0, 0,
            0, 0.5, 0.5, 0, 1, 0, 0.5, 1,
            -0.5, 0.5, -0.5, 0, 1, 0, 1, 0,
            0.5, 0.5, -0.5, 0, 1, 0, 0, 0];
          indices = [0, 1, 2];
          vertexCount = length verts;
          s = s\<lparr>m_PrismMesh := (m_PrismMesh s)\<lparr>nVertices :=
                 vertexCount div (FloatsPerVertex + FloatsPerNormal + FloatsPerUV)\<rparr>\<rparr>;
          vertsVector = verts;
          indicesVector = indices;
          (mesh, s) = InitializeMesh (m_PrismMesh s) vertsVector indicesVector s;
          s = s\<lparr>m_PrismMesh := mesh\<rparr>
      in ((vertsVector, indicesVector), s))"

subsection \<open>LoadPyramid3Mesh\<close>

text \<open>The lambda \<open>calculateNormal\<close>: the normalised cross product of two edge vectors,
  returned as a \<open>std::array<float, 3>\<close>.\<close>

definition calculateNormal :: "real \<Rightarrow> real \<Rightarrow> real \<Rightarrow> real \<Rightarrow> real \<Rightarrow> real \<Rightarrow> real list" where
  "calculateNormal x1 y1 z1 x2 y2 z2 =
     (let nx = y1 * z2 - z1 * y2;
          ny = z1 * x2 - x1 * z2;
          nz = x1 * y2 - y1 * x2;
          len = sqrt (nx * nx + ny * ny + nz * nz)
      in [nx / len, ny / len, nz / len])"

text \<open>A \<open>Face\<close> of the three-sided pyramid is \<open>(top, bottom1, bottom2, normal)\<close>.\<close>

definition LoadPyramid3Mesh :: "ShapeMeshes \<Rightarrow> buffers \<times> ShapeMeshes" where
  "LoadPyramid3Mesh s =
     (let halfBase = 0.5;
          height = 0.5;
          verts = [];
          faces = [
            ([0, height, 0], [- halfBase, - height, halfBase], [0, - height, - halfBase],
             calculateNormal (- halfBase) (- height - height) (halfBase - 0)
                             0 (- height - height) (- halfBase - halfBase)),
            ([0, height, 0], [0, - height, - halfBase], [halfBase, - height, halfBase],
             calculateNormal 0 (- height - height) (- halfBase - 0)
                             halfBase (- height - height) (halfBase - - halfBase)),
            ([0, height, 0], [halfBase, - height, halfBase], [- halfBase, - height, halfBase],
             calculateNormal halfBase (- height - height) (halfBase - 0)
                             (- halfBase) (- height - height) (halfBase - halfBase))];
          verts = fold (\<lambda>(top, bottom1, bottom2, normal) verts.
             verts
               @ [top ! 0, top ! 1, top ! 2, normal ! 0, normal ! 1, normal ! 2, 0.5, 1]
               @ [bottom1 ! 0, bottom1 ! 1, bottom1 ! 2, normal ! 0, normal ! 1, normal ! 2, 0, 0]
               @ [bottom2 ! 0, bottom2 ! 1, bottom2 ! 2, normal ! 0, normal ! 1, normal ! 2, 1, 0])
             faces verts;
          verts = verts @ [
            - halfBase, - height, halfBase,  0, -1, 0,  0, 1,
            halfBase, - height, halfBase,    0, -1, 0,  1, 1,
            0, - height, - halfBase,         0, -1, 0,  0.5, 0];
          s = s\<lparr>m_Pyramid3Mesh := (m_Pyramid3Mesh s)\<lparr>nVertices :=
                 length verts div (FloatsPerVertex + FloatsPerNormal + FloatsPerUV)\<rparr>\<rparr>;
          s = s\<lparr>m_Pyramid3Mesh := (m_Pyramid3Mesh s)\<lparr>nIndices := 0\<rparr>\<rparr>;
          (mesh, s) = InitializeMesh (m_Pyramid3Mesh s) verts [] s;
          s = s\<lparr>m_Pyramid3Mesh := mesh\<rparr>
      in ((verts, []), s))"

subsection \<open>LoadPyramid4Mesh\<close>

text \<open>The lambda \<open>addVertex\<close> appends one interleaved vertex. A \<open>Face\<close> of the
  four-sided pyramid is \<open>(top, bottomLeft, bottomRight)\<close>.\<close>

definition addVertex ::
  "GLfloat list \<Rightarrow> real \<Rightarrow> real \<Rightarrow> real \<Rightarrow> real \<Rightarrow> real \<Rightarrow> real \<Rightarrow> real \<Rightarrow> real \<Rightarrow> GLfloat list" where
  "addVertex verts px py pz nx ny nz u v = verts @ [px, py, pz, nx, ny, nz, u, v]"

definition LoadPyramid4Mesh :: "real \<Rightarrow> real \<Rightarrow> ShapeMeshes \<Rightarrow> buffers \<times> ShapeMeshes" where
  "LoadPyramid4Mesh baseSize height s =
     (let halfBase = baseSize / 2;
          verts = [];
          bottomNormal = Vec3 0 (-1) 0;
          verts = addVertex verts (- halfBase) (- halfBase) halfBase
                    (vx bottomNormal) (vy bottomNormal) (vz bottomNormal) 0 1;
          verts = addVertex verts (- halfBase) (- halfBase) (- halfBase)
                    (vx bottomNormal) (vy bottomNormal) (vz bottomNormal) 0 0;
          verts = addVertex verts halfBase (- halfBase) (- halfBase)
                    (vx bottomNormal) (vy bottomNormal) (vz bottomNormal) 1 0;
          verts = addVertex verts (- halfBase) (- halfBase) halfBase
                    (vx bottomNormal) (vy bottomNormal) (vz bottomNormal) 0 1;
          verts = addVertex verts halfBase (- halfBase) (- halfBase)
                    (vx bottomNormal) (vy bottomNormal) (vz bottomNormal) 1 0;
          verts = addVertex verts halfBase (- halfBase) halfBase
                    (vx bottomNormal) (vy bottomNormal) (vz bottomNormal) 1 1;
          faces = [
            (Vec3 0 (height / 2) 0, Vec3 (- halfBase) (- halfBase) (- halfBase),
             Vec3 (- halfBase) (- halfBase) halfBase),
            (Vec3 0 (height / 2) 0, Vec3 halfBase (- halfBase) (- halfBase),
             Vec3 (- halfBase) (- halfBase) (- halfBase)),
            (Vec3 0 (height / 2) 0, Vec3 halfBase (- halfBase) halfBase,
             Vec3 halfBase (- halfBase) (- halfBase)),
            (Vec3 0 (height / 2) 0, Vec3 (- halfBase) (- halfBase) halfBase,
             Vec3 halfBase (- halfBase) halfBase)];
          verts = fold (\<lambda>(top, bottomLeft, bottomRight) verts.
             let u = bottomRight - bottomLeft;
                 v = top - bottomLeft;
                 normal = normalize (cross u v);
                 verts = addVertex verts (vx top) (vy top) (vz top)
                           (vx normal) (vy normal) (vz normal) 0.5 1;
                 verts = addVertex verts (vx bottomLeft) (vy bottomLeft) (vz bottomLeft)
                           (vx normal) (vy normal) (vz normal) 0 0;
                 verts = addVertex verts (vx bottomRight) (vy bottomRight) (vz bottomRight)
                           (vx normal) (vy normal) (vz normal) 1 0
             in verts)
             faces verts;
          indices = ([] :: GLuint list);
          s = s\<lparr>m_Pyramid4Mesh := (m_Pyramid4Mesh s)\<lparr>nVertices :=
                 length verts div (FloatsPerVertex + FloatsPerNormal + FloatsPerUV)\<rparr>\<rparr>;
          s = s\<lparr>m_Pyramid4Mesh := (m_Pyramid4Mesh s)\<lparr>nIndices := 0\<rparr>\<rparr>;
          (mesh, s) = InitializeMesh (m_Pyramid4Mesh s) verts [] s;
          s = s\<lparr>m_Pyramid4Mesh := mesh\<rparr>
      in ((verts, []), s))"

subsection \<open>LoadSphereMesh and LoadHemisphereMesh\<close>

text \<open>Neither function adjusts its arguments. A division by a zero segment count gives
  \<open>inf\<close> or \<open>NaN\<close> in C++ and \<open>0\<close> here; the buffer sizes and the indices do not depend
  on it.\<close>

definition LoadSphereMesh :: "int \<Rightarrow> int \<Rightarrow> real \<Rightarrow> ShapeMeshes \<Rightarrow> buffers \<times> ShapeMeshes" where
  "LoadSphereMesh latitudeSegments longitudeSegments radius s =
     (let vertices = [];
          indices = [];
          vertices = for_le 0 latitudeSegments (\<lambda>lat vertices.
             let theta = real_of_int lat * Pi / real_of_int latitudeSegments;
                 sinTheta = sin theta;
                 cosTheta = cos theta
             in for_le 0 longitudeSegments (\<lambda>lon vertices.
                  let phi = real_of_int (lon * 2) * Pi / real_of_int longitudeSegments;
                      sinPhi = sin phi;
                      cosPhi = cos phi;
                      x = radius * sinTheta * cosPhi;
                      y = radius * cosTheta;
                      z = radius * sinTheta * sinPhi;
                      nx = sinTheta * cosPhi;
                      ny = cosTheta;
                      nz = sinTheta * sinPhi;
                      u = 1 - real_of_int lon / real_of_int longitudeSegments;
                      v = 1 - real_of_int lat / real_of_int latitudeSegments
                  in vertices @ [x] @ [y] @ [z] @ [nx] @ [ny] @ [nz] @ [u] @ [v])
                  vertices)
             vertices;
          indices = for_lt 0 latitudeSegments (\<lambda>lat indices.
             for_lt 0 longitudeSegments (\<lambda>lon indices.
               let first = lat * (longitudeSegments + 1) + lon;
                   second = first + longitudeSegments + 1
               in indices @ [nat first] @ [nat second] @ [nat (first + 1)]
                          @ [nat second] @ [nat (second + 1)] @ [nat (first + 1)])
               indices)
             indices;
          s = s\<lparr>m_SphereMesh := (m_SphereMesh s)\<lparr>nVertices :=
                 length vertices div (FloatsPerVertex + FloatsPerNormal + FloatsPerUV)\<rparr>\<rparr>;
          s = s\<lparr>m_SphereMesh := (m_SphereMesh s)\<lparr>nIndices := length indices\<rparr>\<rparr>;
          (mesh, s) = InitializeMesh (m_SphereMesh s) vertices indices s;
          s = s\<lparr>m_SphereMesh := mesh\<rparr>
      in ((vertices, indices), s))"

definition LoadHemisphereMesh :: "int \<Rightarrow> int \<Rightarrow> real \<Rightarrow> ShapeMeshes \<Rightarrow> buffers \<times> ShapeMeshes" where
  "LoadHemisphereMesh latitudeSegments longitudeSegments radius s =
     (let vertices = [];
          indices = [];
          hemiLatSegments = c_div latitudeSegments 2;
          vertices = for_le 0 hemiLatSegments (\<lambda>lat vertices.
             let theta = real_of_int lat * Pi / real_of_int latitudeSegments;
                 sinTheta = sin theta;
                 cosTheta = cos theta
             in for_le 0 longitudeSegments (\<lambda>lon vertices.
                  let phi = real_of_int (lon * 2) * Pi / real_of_int longitudeSegments;
                      sinPhi = sin phi;
                      cosPhi = cos phi;
                      x = radius * sinTheta * cosPhi;
                      y = radius * cosTheta;
                      z = radius * sinTheta * sinPhi;
                      nx = sinTheta * cosPhi;
                      ny = cosTheta;
                      nz = sinTheta * sinPhi;
                      u = 1 - real_of_int lon / real_of_int longitudeSegments;
                      v = 1 - real_of_int lat / real_of_int hemiLatSegments
                  in vertices @ [x] @ [y] @ [z] @ [nx] @ [ny] @ [nz] @ [u] @ [v])
                  vertices)
             vertices;
          indices = for_lt 0 hemiLatSegments (\<lambda>lat indices.
             for_lt 0 longitudeSegments (\<lambda>lon indices.
               let first = lat * (longitudeSegments + 1) + lon;
                   second = first + longitudeSegments + 1
               in indices @ [nat first] @ [nat second] @ [nat (first + 1)]
                          @ [nat second] @ [nat (second + 1)] @ [nat (first + 1)])
               indices)
             indices;
          s = s\<lparr>m_HemisphereMesh := (m_HemisphereMesh s)\<lparr>nVertices :=
                 length vertices div (FloatsPerVertex + FloatsPerNormal + FloatsPerUV)\<rparr>\<rparr>;
          s = s\<lparr>m_HemisphereMesh := (m_HemisphereMesh s)\<lparr>nIndices := length indices\<rparr>\<rparr>;
          (mesh, s) = InitializeMesh (m_HemisphereMesh s) vertices indices s;
          s = s\<lparr>m_HemisphereMesh := mesh\<rparr>
      in ((vertices, indices), s))"

subsection \<open>LoadTaperedCylinderMesh\<close>

text \<open>The function after its \<open>reserve\<close> calls, for the slice count it has clamped and stored.\<close>

definition tapered_cylinder_mesh ::
  "real \<Rightarrow> real \<Rightarrow> real \<Rightarrow> int \<Rightarrow> ShapeMeshes \<Rightarrow> buffers \<times> ShapeMeshes" where
  "tapered_cylinder_mesh bottomRadius topRadius height numSlices0 s =
     (let numSlices = numSlices0;
          vertices = [];
          indices = [];
          angleStep = 2 * Pi / real_of_int numSlices;
          bottomCenterIndex = int (length vertices div 8);
          vertices = vertices @ [0, 0, 0, 0, -1, 0, 0.5, 0.5];
          (vertices, indices) = for_lt 0 numSlices (\<lambda>i (vertices, indices).
             let a = real_of_int i * angleStep;
                 x = bottomRadius * cos a;
                 z = bottomRadius * sin a;
                 u = 0.5 + 0.5 * cos a;
                 v = 0.5 + 0.5 * sin a
             in (vertices @ [x, 0, z, 0, -1, 0, u, v],
                 indices @ [nat bottomCenterIndex,
                            nat (bottomCenterIndex + 1 + i),
                            nat (bottomCenterIndex + 1 + c_mod (i + 1) numSlices)]))
             (vertices, indices);
          topCenterIndex = int (length vertices div 8);
          vertices = vertices @ [0, height, 0, 0, 1, 0, 0.5, 0.5];
          (vertices, indices) = for_lt 0 numSlices (\<lambda>i (vertices, indices).
             let a = real_of_int i * angleStep;
                 x = topRadius * cos a;
                 z = topRadius * sin a;
                 u = 0.5 + 0.5 * cos a;
                 v = 0.5 + 0.5 * sin a
             in (vertices @ [x, height, z, 0, 1, 0, u, v],
                 indices @ [nat topCenterIndex,
                            nat (topCenterIndex + 1 + c_mod (i + 1) numSlices),
                            nat (topCenterIndex + 1 + i)]))
             (vertices, indices);
          sideStartIndex = int (length vertices div 8);
          slope = (bottomRadius - topRadius) / height;
          vertices = for_lt 0 numSlices (\<lambda>i vertices.
             let a = real_of_int i * angleStep;
                 cb = cos a;
                 sb = sin a;
                 xB = bottomRadius * cb;
                 zB = bottomRadius * sb;
                 xT = topRadius * cb;
                 zT = topRadius * sb;
                 n = normalize (Vec3 cb slope sb)
             in vertices
                  @ [xB, 0, zB, vx n, vy n, vz n, real_of_int i / real_of_int numSlices, 1]
                  @ [xT, height, zT, vx n, vy n, vz n, real_of_int i / real_of_int numSlices, 0])
             vertices;
          indices = for_lt 0 numSlices (\<lambda>i indices.
             let iNext = c_mod (i + 1) numSlices;
                 B = nat (sideStartIndex + 2 * i);
                 T = B + 1;
                 Bn = nat (sideStartIndex + 2 * iNext);
                 Tn = Bn + 1
             in indices @ [B] @ [Bn] @ [T] @ [T] @ [Bn] @ [Tn])
             indices;
          (mesh, s) = InitializeMesh (m_TaperedCylinderMesh s) vertices indices s;
          s = s\<lparr>m_TaperedCylinderMesh := mesh\<rparr>
      in ((vertices, indices), s))"

text \<open>\<open>LoadTaperedCylinderMesh\<close> up to its two \<open>reserve\<close> calls. Their arguments are \<open>int\<close>
  expressions; the first, \<open>(2 * (numSlices + 1) + 2 * numSlices) * 8\<close>, is the larger, and
  every intermediate value is positive and below the final product.\<close>

definition LoadTaperedCylinderMesh ::
  "real \<Rightarrow> real \<Rightarrow> real \<Rightarrow> int \<Rightarrow> ShapeMeshes \<Rightarrow> error + (buffers \<times> ShapeMeshes)" where
  "LoadTaperedCylinderMesh bottomRadius topRadius height numSlices0 s =
     (let numSlices = (if numSlices0 < 3 then 3 else numSlices0);
          s = s\<lparr>m_TaperedCylinderMesh := (m_TaperedCylinderMesh s)\<lparr>numSlices := numSlices\<rparr>\<rparr>
      in if INT_MAX < (2 * (numSlices + 1) + 2 * numSlices) * 8
         then Inl UndefinedBehaviour
         else Inr (tapered_cylinder_mesh bottomRadius topRadius height numSlices s))"

subsection \<open>LoadTorusMesh\<close>

definition LoadTorusMesh ::
  "real \<Rightarrow> real \<Rightarrow> int \<Rightarrow> int \<Rightarrow> ShapeMeshes \<Rightarrow> buffers \<times> ShapeMeshes" where
  "LoadTorusMesh mainRadius tubeRadius0 mainSegments0 tubeSegments0 s =
     (let mainSegments = max 3 mainSegments0;
          tubeSegments = max 3 tubeSegments0;
          tubeRadius = max 0.01 tubeRadius0;
          mainSegmentStep = 2 * Pi / real_of_int mainSegments;
          tubeSegmentStep = 2 * Pi / real_of_int tubeSegments;
          vertices = [];
          indices = [];
          vertices = for_le 0 mainSegments (\<lambda>i vertices.
             let mainAngle = real_of_int i * mainSegmentStep;
                 cosMain = cos mainAngle;
                 sinMain = sin mainAngle
             in for_le 0 tubeSegments (\<lambda>j vertices.
                  let tubeAngle = real_of_int j * tubeSegmentStep;
                      cosTube = cos tubeAngle;
                      sinTube = sin tubeAngle;
                      x = (mainRadius + tubeRadius * cosTube) * cosMain;
                      y = (mainRadius + tubeRadius * cosTube) * sinMain;
                      z = tubeRadius * sinTube;
                      center = Vec3 (mainRadius * cosMain) (mainRadius * sinMain) 0;
                      vertex = Vec3 x y z;
                      normal = normalize (vertex - center);
                      u = real_of_int i / real_of_int mainSegments;
                      v = real_of_int j / real_of_int tubeSegments
                  in vertices @ [x] @ [y] @ [z] @ [vx normal] @ [vy normal] @ [vz normal]
                              @ [u] @ [v])
                  vertices)
             vertices;
          indices = for_lt 0 mainSegments (\<lambda>i indices.
             for_lt 0 tubeSegments (\<lambda>j indices.
               let current = i * (tubeSegments + 1) + j;
                   next = (i + 1) * (tubeSegments + 1) + j
               in indices @ [nat current] @ [nat next] @ [nat (current + 1)]
                          @ [nat (current + 1)] @ [nat next] @ [nat (next + 1)])
               indices)
             indices;
          s = s\<lparr>m_TorusMesh := (m_TorusMesh s)\<lparr>nVertices :=
                 length vertices div (FloatsPerVertex + FloatsPerNormal + FloatsPerUV)\<rparr>\<rparr>;
          s = s\<lparr>m_TorusMesh := (m_TorusMesh s)\<lparr>nIndices := length indices\<rparr>\<rparr>;
          (mesh, s) = InitializeMesh (m_TorusMesh s) vertices indices s;
          s = s\<lparr>m_TorusMesh := mesh\<rparr>
      in ((vertices, indices), s))"

subsection \<open>LoadExtraTorusMesh1 and LoadExtraTorusMesh2\<close>

text \<open>The two functions have the same body up to the member they fill. \<open>ExtraTorus_values\<close>
  is that body up to the upload: it returns \<open>combined_values\<close> and \<open>vertex_list.size()\<close>.
  Both segment counts are the constant 30, so every read \<open>segments_list[i][j]\<close>,
  \<open>vertex_list[i]\<close> and \<open>texture_coords[i]\<close> is in range.\<close>

text \<open>The first loop: the points of the torus, one list for each main segment.\<close>

definition ExtraTorus_segments :: "real \<Rightarrow> vec3 list list" where
  "ExtraTorus_segments tubeRadius =
     (let mainSegments = 30;
          tubeSegments = 30;
          mainRadius = 1;
          mainSegmentAngleStep = radians (360 / real_of_int mainSegments);
          tubeSegmentAngleStep = radians (360 / real_of_int tubeSegments);
          segments_list = [];
          currentMainSegmentAngle = 0;
          (segments_list, currentMainSegmentAngle) =
            for_lt 0 mainSegments (\<lambda>i (segments_list, currentMainSegmentAngle).
               let sinMainSegment = sin currentMainSegmentAngle;
                   cosMainSegment = cos currentMainSegmentAngle;
                   currentTubeSegmentAngle = 0;
                   segment_points = [];
                   (segment_points, currentTubeSegmentAngle) =
                     for_lt 0 tubeSegments (\<lambda>j (segment_points, currentTubeSegmentAngle).
                        let sinTubeSegment = sin currentTubeSegmentAngle;
                            cosTubeSegment = cos currentTubeSegmentAngle;
                            surfacePosition = Vec3
                              ((mainRadius + tubeRadius * cosTubeSegment) * cosMainSegment)
                              ((mainRadius + tubeRadius * cosTubeSegment) * sinMainSegment)
                              (tubeRadius * sinTubeSegment)
                        in (segment_points @ [surfacePosition],
                            currentTubeSegmentAngle + tubeSegmentAngleStep))
                        (segment_points, currentTubeSegmentAngle)
               in (segments_list @ [segment_points],
                   currentMainSegmentAngle + mainSegmentAngleStep))
               (segments_list, currentMainSegmentAngle)
      in segments_list)"

text \<open>The second loop: seven entries of \<open>vertex_list\<close> and of \<open>texture_coords\<close> for each pair
  \<open>(i, j)\<close>, read from \<open>segments_list\<close>.\<close>

definition ExtraTorus_triangles :: "vec3 list list \<Rightarrow> vec3 list \<times> (real \<times> real) list" where
  "ExtraTorus_triangles segments_list =
     (let mainSegments = 30;
          tubeSegments = 30;
          vertex_list = [];
          texture_coords = [];
          horizontalStep = 1 / real_of_int mainSegments;
          verticalStep = 1 / real_of_int tubeSegments;
          u = 0;
          v = 0;
          seg = (\<lambda>i j. segments_list ! nat i ! nat j);
          (vertex_list, texture_coords, u, v) =
            for_lt 0 mainSegments (\<lambda>i (vertex_list, texture_coords, u, v).
               let (vertex_list, texture_coords, u, v) =
                     for_lt 0 tubeSegments (\<lambda>j (vertex_list, texture_coords, u, v).
                        let (vertex_list, texture_coords) =
                          (if (i + 1) < mainSegments \<and> (j + 1) < tubeSegments then
                             (vertex_list @ [seg i j, seg i (j + 1), seg (i + 1) (j + 1), seg i j,
                                             seg (i + 1) j, seg (i + 1) (j + 1), seg i j],
                              texture_coords @ [(u, v), (u, v + verticalStep),
                                (u + horizontalStep, v + verticalStep), (u, v),
                                (u + horizontalStep, v),
                                (u + horizontalStep, v - verticalStep), (u, v)])
                           else if (i + 1) = mainSegments \<and> (j + 1) = tubeSegments then
                             (vertex_list @ [seg i j, seg i 0, seg 0 0, seg i j,
                                             seg 0 j, seg 0 0, seg i j],
                              texture_coords @ [(u, v), (u, 0), (0, 0), (u, v),
                                (0, v), (0, 0), (u, v)])
                           else if (i + 1) = mainSegments then
                             (vertex_list @ [seg i j, seg i (j + 1), seg 0 (j + 1), seg i j,
                                             seg 0 j, seg 0 (j + 1), seg i j],
                              texture_coords @ [(u, v), (u, v + verticalStep),
                                (0, v + verticalStep), (u, v), (0, v),
                                (0, v + verticalStep), (u, v)])
                           else if (j + 1) = tubeSegments then
                             (vertex_list @ [seg i j, seg i 0, seg (i + 1) 0, seg i j,
                                             seg (i + 1) j, seg (i + 1) 0, seg i j],
                              texture_coords @ [(u, v), (u, 0), (u + horizontalStep, 0), (u, v),
                                (u + horizontalStep, v), (u + horizontalStep, 0), (u, v)])
                           else (vertex_list, texture_coords));
                            v = v + verticalStep
                        in (vertex_list, texture_coords, u, v))
                        (vertex_list, texture_coords, u, v);
                   v = 0;
                   u = u + horizontalStep
               in (vertex_list, texture_coords, u, v))
               (vertex_list, texture_coords, u, v)
      in (vertex_list, texture_coords))"

text \<open>The body up to the upload: the choice of the tube radius, the two loops above and the
  interleaving loop.\<close>

definition ExtraTorus_values :: "real \<Rightarrow> GLfloat list \<times> nat" where
  "ExtraTorus_values thickness =
     (let tubeRadius = 0.1;
          tubeRadius = (if thickness \<le> 1 then thickness else tubeRadius);
          segments_list = ExtraTorus_segments tubeRadius;
          (vertex_list, texture_coords) = ExtraTorus_triangles segments_list;
          combined_values = [];
          combined_values = for_lt 0 (int (length vertex_list)) (\<lambda>i combined_values.
             let vertex = vertex_list ! nat i;
                 normal = normalize vertex;
                 text_coord = texture_coords ! nat i
             in combined_values @ [vx vertex] @ [vy vertex] @ [vz vertex]
                  @ [vx normal] @ [vy normal] @ [vz normal]
                  @ [fst text_coord] @ [snd text_coord])
             combined_values
      in (combined_values, length vertex_list))"

definition LoadExtraTorusMesh1 :: "real \<Rightarrow> ShapeMeshes \<Rightarrow> buffers \<times> ShapeMeshes" where
  "LoadExtraTorusMesh1 thickness s =
     (let (combined_values, vertex_list_size) = ExtraTorus_values thickness;
          s = s\<lparr>m_ExtraTorusMesh1 := (m_ExtraTorusMesh1 s)\<lparr>nVertices := vertex_list_size\<rparr>\<rparr>;
          s = s\<lparr>m_ExtraTorusMesh1 := (m_ExtraTorusMesh1 s)\<lparr>nIndices := 0\<rparr>\<rparr>;
          s = (if m_bMemoryLayoutDone s = False then SetShaderMemoryLayout s else s)
      in ((combined_values, []), s))"

definition LoadExtraTorusMesh2 :: "real \<Rightarrow> ShapeMeshes \<Rightarrow> buffers \<times> ShapeMeshes" where
  "LoadExtraTorusMesh2 thickness s =
     (let (combined_values, vertex_list_size) = ExtraTorus_values thickness;
          s = s\<lparr>m_ExtraTorusMesh2 := (m_ExtraTorusMesh2 s)\<lparr>nVertices := vertex_list_size\<rparr>\<rparr>;
          s = s\<lparr>m_ExtraTorusMesh2 := (m_ExtraTorusMesh2 s)\<lparr>nIndices := 0\<rparr>\<rparr>;
          s = (if m_bMemoryLayoutDone s = False then SetShaderMemoryLayout s else s)
      in ((combined_values, []), s))"

subsection \<open>LoadSpringMesh\<close>

text \<open>The function after it has clamped its segment counts, when their product is an \<open>int\<close>.\<close>

definition spring_mesh ::
  "real \<Rightarrow> real \<Rightarrow> int \<Rightarrow> int \<Rightarrow> real \<Rightarrow> ShapeMeshes \<Rightarrow> buffers \<times> ShapeMeshes" where
  "spring_mesh mainRadius tubeRadius mainSegments tubeSegments springLength s =
     (let vertices = [];
          indices = [];
          mainAngleStep = (2 * Pi) / real_of_int tubeSegments;
          heightStep = springLength / real_of_int (mainSegments * tubeSegments);
          coilPitch = springLength / real_of_int mainSegments;
          vertices = for_le 0 (mainSegments * tubeSegments) (\<lambda>i vertices.
             let mainAngle = real_of_int i * mainAngleStep;
                 centerX = mainRadius * cos mainAngle;
                 centerY = mainRadius * sin mainAngle;
                 centerZ = real_of_int i * heightStep;
                 tangent = Vec3 (- mainRadius * sin mainAngle) (mainRadius * cos mainAngle)
                                heightStep;
                 tangent = normalize tangent;
                 normal = normalize (Vec3 (- vy tangent) (vx tangent) 0);
                 binormal = cross tangent normal
             in for_le 0 tubeSegments (\<lambda>j vertices.
                  let tubeAngle = real_of_int j * 2 * Pi / real_of_int tubeSegments;
                      tx = tubeRadius * cos tubeAngle;
                      ty = tubeRadius * sin tubeAngle;
                      point = Vec3 centerX centerY centerZ + vscale normal tx + vscale binormal ty;
                      normalVector = normalize (vscale normal tx + vscale binormal ty);
                      u = real_of_int i / real_of_int (mainSegments * tubeSegments);
                      v = real_of_int j / real_of_int tubeSegments
                  in vertices @ [vx point, vy point, vz point,
                                 vx normalVector, vy normalVector, vz normalVector, u, v])
                  vertices)
             vertices;
          indices = for_lt 0 (mainSegments * tubeSegments) (\<lambda>i indices.
             for_lt 0 tubeSegments (\<lambda>j indices.
               let current = i * (tubeSegments + 1) + j;
                   next = (i + 1) * (tubeSegments + 1) + j
               in indices @ [nat current] @ [nat next] @ [nat (current + 1)]
                          @ [nat (current + 1)] @ [nat next] @ [nat (next + 1)])
               indices)
             indices;
          s = s\<lparr>m_SpringMesh := (m_SpringMesh s)\<lparr>nVertices :=
                 length vertices div (FloatsPerVertex + FloatsPerNormal + FloatsPerUV)\<rparr>\<rparr>;
          s = s\<lparr>m_SpringMesh := (m_SpringMesh s)\<lparr>nIndices := length indices\<rparr>\<rparr>;
          (mesh, s) = InitializeMesh (m_SpringMesh s) vertices indices s;
          s = s\<lparr>m_SpringMesh := mesh\<rparr>
      in ((vertices, indices), s))"

text \<open>\<open>LoadSpringMesh\<close>: the clamping of the segment counts, then the rest. The product
  \<open>mainSegments * tubeSegments\<close> is an \<open>int\<close>; it is first evaluated for \<open>heightStep\<close>.\<close>

definition LoadSpringMesh ::
  "real \<Rightarrow> real \<Rightarrow> int \<Rightarrow> int \<Rightarrow> real \<Rightarrow> ShapeMeshes \<Rightarrow> error + (buffers \<times> ShapeMeshes)" where
  "LoadSpringMesh mainRadius tubeRadius mainSegments0 tubeSegments0 springLength s =
     (let mainSegments = max 1 mainSegments0;
          tubeSegments = max 8 tubeSegments0
      in if INT_MAX < mainSegments * tubeSegments
         then Inl UndefinedBehaviour
         else Inr (spring_mesh mainRadius tubeRadius mainSegments tubeSegments springLength s))"

subsection \<open>LoadTubeMesh\<close>

definition LoadTubeMesh ::
  "real \<Rightarrow> real \<Rightarrow> real \<Rightarrow> int \<Rightarrow> ShapeMeshes \<Rightarrow> buffers \<times> ShapeMeshes" where
  "LoadTubeMesh outerRadius innerRadius height numSlices0 s =
     (let numSlices = (if numSlices0 < 3 then 3 else numSlices0);
          s = s\<lparr>m_TubeMesh := (m_TubeMesh s)\<lparr>numSlices := numSlices\<rparr>\<rparr>;
          vertices = [];
          indices = [];
          angleStep = 2 * Pi / real_of_int numSlices;
          vertices = for_le 0 numSlices (\<lambda>i vertices.
             let angle = real_of_int i * angleStep;
                 x = cos angle;
                 z = sin angle
             in vertices
                  @ [outerRadius * x, 0, outerRadius * z, 0, -1, 0,
                     real_of_int i / real_of_int numSlices, 1]
                  @ [outerRadius * x, height, outerRadius * z, 0, 1, 0,
                     real_of_int i / real_of_int numSlices, 0]
                  @ [innerRadius * x, 0, innerRadius * z, 0, -1, 0,
                     real_of_int i / real_of_int numSlices, 1]
                  @ [innerRadius * x, height, innerRadius * z, 0, 1, 0,
                     real_of_int i / real_of_int numSlices, 0])
             vertices;
          indices = for_lt 0 numSlices (\<lambda>i indices.
             let outerBottom1 = nat (i * 4);
                 outerTop1 = outerBottom1 + 1;
                 outerBottom2 = outerBottom1 + 4;
                 outerTop2 = outerTop1 + 4;
                 innerBottom1 = outerBottom1 + 2;
                 innerTop1 = outerTop1 + 2;
                 innerBottom2 = innerBottom1 + 4;
                 innerTop2 = innerTop1 + 4
             in indices @ [outerBottom1, outerBottom2, outerTop1]
                        @ [outerTop1, outerBottom2, outerTop2]
                        @ [innerBottom1, innerTop1, innerBottom2]
                        @ [innerTop1, innerTop2, innerBottom2])
             indices;
          indices = for_lt 0 numSlices (\<lambda>i indices.
             let outerBottom1 = nat (i * 4);
                 innerBottom1 = outerBottom1 + 2;
                 outerBottom2 = outerBottom1 + 4;
                 innerBottom2 = innerBottom1 + 4;
                 outerTop1 = outerBottom1 + 1;
                 innerTop1 = innerBottom1 + 1;
                 outerTop2 = outerBottom2 + 1;
                 innerTop2 = innerBottom2 + 1
             in indices @ [outerBottom1, outerBottom2, innerBottom1]
                        @ [innerBottom1, outerBottom2, innerBottom2]
                        @ [innerTop1, outerTop1, innerTop2]
                        @ [innerTop2, outerTop1, outerTop2])
             indices;
          s = s\<lparr>m_TubeMesh := (m_TubeMesh s)\<lparr>nVertices :=
                 length vertices div (FloatsPerVertex + FloatsPerNormal + FloatsPerUV)\<rparr>\<rparr>;
          s = s\<lparr>m_TubeMesh := (m_TubeMesh s)\<lparr>nIndices := length indices\<rparr>\<rparr>;
          (mesh, s) = InitializeMesh (m_TubeMesh s) vertices indices s;
          s = s\<lparr>m_TubeMesh := mesh\<rparr>
      in ((vertices, indices), s))"

subsection \<open>DrawPartialConeMesh\<close>

text \<open>The function builds its buffers, uploads them to buffer objects of its own, draws
  and deletes them; it touches no member. \<open>wireframe\<close> only selects the polygon mode.\<close>

definition DrawPartialConeMesh ::
  "real \<Rightarrow> real \<Rightarrow> int \<Rightarrow> real \<Rightarrow> bool \<Rightarrow> ShapeMeshes \<Rightarrow> buffers \<times> ShapeMeshes" where
  "DrawPartialConeMesh radius height numSlices0 arcDegrees0 wireframe s =
     (let numSlices = (if numSlices0 < 3 then 3 else numSlices0);
          arcDegrees = clamp arcDegrees0 0 360;
          vertices = [];
          indices = [];
          arcRadians = radians arcDegrees;
          angleStep = arcRadians / real_of_int numSlices;
          halfArc = arcRadians * 0.5;
          vertices = for_le 0 numSlices (\<lambda>i vertices.
             let angle = - halfArc + real_of_int i * angleStep;
                 x = radius * cos angle;
                 z = radius * sin angle;
                 u = real_of_int i / real_of_int numSlices;
                 n = normalize (Vec3 (cos angle) (radius / height) (sin angle))
             in vertices
                  @ [x, 0, z, vx n, vy n, vz n, u, 1]
                  @ [0, height, 0, vx n, vy n, vz n, u, 0])
             vertices;
          indices = for_lt 0 numSlices (\<lambda>i indices.
             let b0 = 2 * i;
                 a0 = b0 + 1;
                 b1 = 2 * (i + 1);
                 a1 = b1 + 1
             in indices @ [nat b0] @ [nat a1] @ [nat a0]
                        @ [nat b0] @ [nat b1] @ [nat a1])
             indices
      in ((vertices, indices), s))"

text \<open>The vertex loop pushes two vertices for each angular sample \<open>i\<close>, the rim vertex
  \<open>2 * i\<close> and the apex vertex \<open>2 * i + 1\<close>: the column of a vertex.\<close>

definition partial_cone_column :: "GLuint \<Rightarrow> nat" where
  "partial_cone_column ix = ix div 2"

subsection \<open>LoadFinMesh\<close>

text \<open>\<open>LoadFinMesh\<close> uploads its buffers itself and stores only the index count.\<close>

definition addVertex_vec :: "GLfloat list \<Rightarrow> vec3 \<Rightarrow> vec3 \<Rightarrow> real \<times> real \<Rightarrow> GLfloat list" where
  "addVertex_vec verts v normal texCoord =
     verts @ [vx v, vy v, vz v, vx normal, vy normal, vz normal, fst texCoord, snd texCoord]"

definition LoadFinMesh ::
  "real \<Rightarrow> real \<Rightarrow> real \<Rightarrow> real \<Rightarrow> ShapeMeshes \<Rightarrow> buffers \<times> ShapeMeshes" where
  "LoadFinMesh baseLength topLength height thickness s =
     (let nVertices = [];
          halfThickness = thickness / 2;
          v0 = Vec3 0 0 (- halfThickness);
          v1 = Vec3 baseLength 0 (- halfThickness);
          v2 = Vec3 0 height (- halfThickness);
          v3 = Vec3 topLength height (- halfThickness);
          v4 = Vec3 0 0 halfThickness;
          v5 = Vec3 baseLength 0 halfThickness;
          v6 = Vec3 0 height halfThickness;
          v7 = Vec3 topLength height halfThickness;
          nVertices = addVertex_vec nVertices v0 (Vec3 0 0 (-1)) (0, 0);
          nVertices = addVertex_vec nVertices v1 (Vec3 0 0 (-1)) (1, 0);
          nVertices = addVertex_vec nVertices v2 (Vec3 0 0 (-1)) (0, 1);
          nVertices = addVertex_vec nVertices v3 (Vec3 0 0 (-1)) (1, 1);
          nVertices = addVertex_vec nVertices v4 (Vec3 0 0 1) (0, 0);
          nVertices = addVertex_vec nVertices v5 (Vec3 0 0 1) (1, 0);
          nVertices = addVertex_vec nVertices v6 (Vec3 0 0 1) (0, 1);
          nVertices = addVertex_vec nVertices v7 (Vec3 0 0 1) (1, 1);
          nVertices = addVertex_vec nVertices v2 (Vec3 0 1 0) (0, 0);
          nVertices = addVertex_vec nVertices v3 (Vec3 0 1 0) (0, 0);
          nVertices = addVertex_vec nVertices v6 (Vec3 0 1 0) (0, 0);
          nVertices = addVertex_vec nVertices v7 (Vec3 0 1 0) (0, 0);
          nVertices = addVertex_vec nVertices v0 (Vec3 0 (-1) 0) (0, 0);
          nVertices = addVertex_vec nVertices v1 (Vec3 0 (-1) 0) (0, 0);
          nVertices = addVertex_vec nVertices v4 (Vec3 0 (-1) 0) (0, 0);
          nVertices = addVertex_vec nVertices v5 (Vec3 0 (-1) 0) (0, 0);
          nVertices = addVertex_vec nVertices v0 (Vec3 (-1) 0 0) (0, 0);
          nVertices = addVertex_vec nVertices v2 (Vec3 (-1) 0 0) (0, 0);
          nVertices = addVertex_vec nVertices v4 (Vec3 (-1) 0 0) (0, 0);
          nVertices = addVertex_vec nVertices v6 (Vec3 (-1) 0 0) (0, 0);
          nVertices = addVertex_vec nVertices v1 (Vec3 1 0 0) (0, 0);
          nVertices = addVertex_vec nVertices v3 (Vec3 1 0 0) (0, 0);
          nVertices = addVertex_vec nVertices v5 (Vec3 1 0 0) (0, 0);
          nVertices = addVertex_vec nVertices v7 (Vec3 1 0 0) (0, 0);
          indices = [
            0, 1, 2,  1, 3, 2,
            4, 6, 5,  5, 6, 7,
            8, 9, 10,  9, 11, 10,
            12, 14, 13,  14, 15, 13,
            16, 18, 17,  17, 18, 19,
            20, 21, 22,  21, 23, 22];
          s = s\<lparr>m_FinMesh := (m_FinMesh s)\<lparr>nIndices := length indices\<rparr>\<rparr>
      in ((nVertices, indices), s))"

subsection \<open>LoadCurvedConeMesh\<close>

definition LoadCurvedConeMesh ::
  "int \<Rightarrow> int \<Rightarrow> real \<Rightarrow> real \<Rightarrow> real \<Rightarrow> ShapeMeshes \<Rightarrow> buffers \<times> ShapeMeshes" where
  "LoadCurvedConeMesh numSlices0 curveSteps0 radius height bendRadius s =
     (let numSlices = (if numSlices0 < 3 then 3 else numSlices0);
          curveSteps = (if curveSteps0 < 1 then 1 else curveSteps0);
          s = s\<lparr>m_CurvedConeMesh := (m_CurvedConeMesh s)\<lparr>numSlices := numSlices\<rparr>\<rparr>;
          s = s\<lparr>m_CurvedConeMesh := (m_CurvedConeMesh s)\<lparr>curveSteps := curveSteps\<rparr>\<rparr>;
          verts = [];
          indices = [];
          angleStep = 2 * Pi / real_of_int numSlices;
          bendAngle = height / bendRadius;
          verts = for_le 0 curveSteps (\<lambda>step verts.
             let t = real_of_int step / real_of_int curveSteps;
                 arcTheta = t * bendAngle;
                 centerX = bendRadius * sin arcTheta;
                 centerY = bendRadius * (1 - cos arcTheta);
                 centerZ = 0;
                 tangent = Vec3 (cos arcTheta) (sin arcTheta) 0;
                 normalDir = normalize (Vec3 (- vy tangent) (vx tangent) 0);
                 coneRadius = radius * (1 - t)
             in for_le 0 numSlices (\<lambda>slice verts.
                  let angle = real_of_int slice * angleStep;
                      localX = coneRadius * cos angle;
                      localZ = coneRadius * sin angle;
                      offset = vscale normalDir localX + Vec3 0 0 localZ;
                      position = Vec3 centerX centerY centerZ + offset;
                      normal = normalize offset;
                      u = real_of_int slice / real_of_int numSlices;
                      v = t
                  in verts @ [vx position] @ [vy position] @ [vz position]
                           @ [vx normal] @ [vy normal] @ [vz normal] @ [u] @ [v])
                  verts)
             verts;
          indices = for_lt 0 curveSteps (\<lambda>step indices.
             for_lt 0 numSlices (\<lambda>slice indices.
               let current = step * (numSlices + 1) + slice;
                   next = (step + 1) * (numSlices + 1) + slice
               in indices @ [nat current] @ [nat next] @ [nat (current + 1)]
                          @ [nat (current + 1)] @ [nat next] @ [nat (next + 1)])
               indices)
             indices;
          (mesh, s) = InitializeMesh (m_CurvedConeMesh s) verts indices s;
          s = s\<lparr>m_CurvedConeMesh := mesh\<rparr>
      in ((verts, indices), s))"

subsection \<open>DrawTaperedTorusMesh\<close>

text \<open>The draw-time generators upload their buffers to the buffer objects of their mesh
  and draw them. \<open>DrawTaperedTorusMesh\<close> assigns no member and adjusts no argument.\<close>

definition DrawTaperedTorusMesh ::
  "real \<Rightarrow> real \<Rightarrow> real \<Rightarrow> int \<Rightarrow> int \<Rightarrow> real \<Rightarrow> ShapeMeshes \<Rightarrow> buffers \<times> ShapeMeshes" where
  "DrawTaperedTorusMesh mainRadius tubeRadiusStart tubeRadiusEnd mainSegments tubeSegments
       sweepAngleRadians s =
     (let verts = [];
          indices = [];
          mainStep = sweepAngleRadians / real_of_int mainSegments;
          tubeStep = 2 * Pi / real_of_int tubeSegments;
          verts = for_le 0 mainSegments (\<lambda>i verts.
             let theta = real_of_int i * mainStep;
                 sweepT = real_of_int i / real_of_int mainSegments;
                 tubeRadius = mix tubeRadiusStart tubeRadiusEnd sweepT;
                 center = Vec3 (mainRadius * cos theta) (mainRadius * sin theta) 0
             in for_le 0 tubeSegments (\<lambda>j verts.
                  let phi = real_of_int j * tubeStep;
                      normal = Vec3 (cos phi * cos theta) (cos phi * sin theta) (sin phi);
                      position = center + vscale normal tubeRadius;
                      normalized = normalize normal;
                      u = real_of_int j / real_of_int tubeSegments;
                      v = sweepT
                  in verts @ [vx position] @ [vy position] @ [vz position]
                           @ [vx normalized] @ [vy normalized] @ [vz normalized] @ [u] @ [v])
                  verts)
             verts;
          indices = for_lt 0 mainSegments (\<lambda>i indices.
             for_lt 0 tubeSegments (\<lambda>j indices.
               let curr = i * (tubeSegments + 1) + j;
                   next = (i + 1) * (tubeSegments + 1) + j
               in indices @ [nat curr] @ [nat next] @ [nat (curr + 1)]
                          @ [nat (curr + 1)] @ [nat next] @ [nat (next + 1)])
               indices)
             indices
      in ((verts, indices), s))"

subsection \<open>DrawSpiralMesh\<close>

text \<open>Whether the centreline loop of \<open>DrawSpiralMesh\<close> is entered and when it is left depends
  on single-precision results: a product that rounds up or down puts one ring more or
  less into the mesh. The operations on \<open>float\<close> that produce these results are therefore a
  parameter of the model, over any type \<open>'f\<close> of values (which may have infinities and NaNs):
  the conversions from an argument or literal and from an \<open>int\<close>, \<open>*\<close>, \<open>/\<close>, \<open>>\<close>, the
  conversion \<open>static_cast<int>\<close> (\<open>None\<close> when the value does not fit, which is undefined
  behaviour), and the real number that a value contributes to a vertex attribute.\<close>

record 'f float_ops =
  f_of_real :: "real \<Rightarrow> 'f"
  f_of_int :: "int \<Rightarrow> 'f"
  f_mul :: "'f \<Rightarrow> 'f \<Rightarrow> 'f"
  f_div :: "'f \<Rightarrow> 'f \<Rightarrow> 'f"
  f_gt :: "'f \<Rightarrow> 'f \<Rightarrow> bool"
  f_to_int :: "'f \<Rightarrow> int option"
  f_val :: "'f \<Rightarrow> real"

text \<open>\<open>static_cast<int>\<close> of a \<open>float\<close> in range truncates towards zero.\<close>

definition float_to_int :: "real \<Rightarrow> int" where
  "float_to_int x = (if 0 \<le> x then \<lfloor>x\<rfloor> else \<lceil>x\<rceil>)"

text \<open>Arithmetic without rounding. Single precision agrees with it on every operation whose
  exact result is a single-precision number.\<close>

definition exact_arithmetic :: "real float_ops" where
  "exact_arithmetic =
     \<lparr>f_of_real = (\<lambda>x. x), f_of_int = real_of_int, f_mul = (\<lambda>x y. x * y),
      f_div = (\<lambda>x y. x / y), f_gt = (\<lambda>x y. y < x),
      f_to_int = (\<lambda>x. if - 2147483649 < x \<and> x < 2147483648 then Some (float_to_int x)
                         else None),
      f_val = (\<lambda>x. x)\<rparr>"

text \<open>\<open>glm::mat3(glm::rotate(glm::mat4(1.0f), angle, axis)) * v\<close>: the rotation matrix of
  \<open>glm::rotate\<close> (columns \<open>Rotate[0..2]\<close> around the normalised axis) applied to \<open>v\<close>.\<close>

definition rotate_apply :: "real \<Rightarrow> vec3 \<Rightarrow> vec3 \<Rightarrow> vec3" where
  "rotate_apply angle v0 w =
     (let a = angle;
          c = cos a;
          s = sin a;
          axis = normalize v0;
          temp = vscale axis (1 - c);
          Rotate0 = Vec3 (c + vx temp * vx axis) (vx temp * vy axis + s * vz axis)
                         (vx temp * vz axis - s * vy axis);
          Rotate1 = Vec3 (vy temp * vx axis - s * vz axis) (c + vy temp * vy axis)
                         (vy temp * vz axis + s * vx axis);
          Rotate2 = Vec3 (vz temp * vx axis + s * vy axis) (vz temp * vy axis - s * vx axis)
                         (c + vz temp * vz axis)
      in vscale Rotate0 (vx w) + vscale Rotate1 (vy w) + vscale Rotate2 (vz w))"

text \<open>The body of the loop that generates the tube rings, as a function of the loop
  variable \<open>i\<close> and the loop-carried variables. The reads \<open>centers[i]\<close>, \<open>tangents[i]\<close> and
  \<open>tangents[i - 1]\<close> are in range: \<open>i < ringCount\<close>, the size of both vectors.\<close>

definition spiral_ring_step ::
  "vec3 list \<Rightarrow> vec3 list \<Rightarrow> int \<Rightarrow> vec3 \<Rightarrow> int \<Rightarrow> real \<Rightarrow> real \<Rightarrow> real \<Rightarrow> int
     \<Rightarrow> GLfloat list \<times> vec3 \<times> vec3 \<times> GLuint list
     \<Rightarrow> GLfloat list \<times> vec3 \<times> vec3 \<times> GLuint list" where
  "spiral_ring_step centers tangents ringCount worldUp tubeSegments tubeStep flattenFactor
       tubeRadius i =
     (\<lambda>(verts, prevNormal, prevBinormal, ringStartIndices).
               let sweepT = real_of_int i / real_of_int (ringCount - 1);
                   center = centers ! nat i;
                   tangent = tangents ! nat i;
                   (normal, binormal) =
                     (if i = 0 then
                        let binormal = normalize (cross tangent worldUp);
                            normal = normalize (cross binormal tangent)
                        in (normal, binormal)
                      else
                        let v = tangents ! nat (i - 1);
                            w = tangent;
                            axis = normalize (cross v w);
                            angle = arccos (clamp (dot v w) (-1) 1);
                            normal = normalize (rotate_apply angle axis prevNormal);
                            binormal = normalize (cross tangent normal)
                        in (normal, binormal));
                   prevNormal = normal;
                   prevBinormal = binormal;
                   verts = for_lt 0 tubeSegments (\<lambda>j verts.
                      let phi = real_of_int j * tubeStep;
                          x = cos phi;
                          y = sin phi;
                          offset = vscale (vscale normal x) (1 - flattenFactor) + vscale binormal y;
                          position = center + vscale offset tubeRadius;
                          normalVec = normalize offset;
                          u = real_of_int j / real_of_int tubeSegments;
                          v = sweepT
                      in verts @ [vx position] @ [vy position] @ [vz position]
                               @ [vx normalVec] @ [vy normalVec] @ [vz normalVec] @ [u] @ [v])
                      verts;
                   ringStartIndices =
                     (if i = 0
                      then for_lt 0 tubeSegments (\<lambda>j ringStartIndices. ringStartIndices @ [nat j])
                             ringStartIndices
                      else ringStartIndices)
               in (verts, prevNormal, prevBinormal, ringStartIndices))"

text \<open>\<open>DrawSpiralMesh\<close> in the phases its comments mark. First the centreline: the loop
  leaves by \<open>break\<close>, and the flag of the loop state records that it has been left.
  \<open>theta\<close> and the test \<open>theta > totalAngle\<close> are single-precision.\<close>

definition spiral_centers ::
  "'f float_ops \<Rightarrow> real \<Rightarrow> 'f \<Rightarrow> 'f \<Rightarrow> real \<Rightarrow> int \<Rightarrow> int \<Rightarrow> vec3 list" where
  "spiral_centers F loopSpacing totalAngle spiralStep PI startSegment spiralSegments =
     (let centers = [];
          (centers, left) = for_le startSegment spiralSegments (\<lambda>i (centers, left).
             if left then (centers, left)
             else let theta = f_mul F (f_of_int F i) spiralStep
                  in if f_gt F theta totalAngle then (centers, True)
                     else let radius = loopSpacing * f_val F theta / (2 * PI)
                          in (centers @ [Vec3 (radius * cos (f_val F theta))
                                              (radius * sin (f_val F theta)) 0], left))
             (centers, False)
      in centers)"

text \<open>Then, from the centreline: tangents, tube rings, the triangles between the rings, the
  hemispherical cap, its triangles, and the triangles that join the cap to the first ring.
  The reads of \<open>centers\<close> are in range when it holds at least two points, and
  \<open>ringStartIndices[j]\<close> is in range because the first ring stored \<open>tubeSegments\<close> entries.
  \<open>prevNormal\<close> and \<open>prevBinormal\<close> are uninitialised until the first ring assigns them.\<close>

definition spiral_buffers :: "vec3 list \<Rightarrow> real \<Rightarrow> real \<Rightarrow> int \<Rightarrow> real \<Rightarrow> real \<Rightarrow> buffers" where
  "spiral_buffers centers tubeRadius flattenFactor tubeSegments tubeStep PI =
     (let verts = [];
          indices = [];
          worldUp = Vec3 1 0 0;
          ringCount = int (length centers);
          tangents = [];
          tangents = for_lt 0 ringCount (\<lambda>i tangents.
             let tangent =
                   (if i = 0 then normalize (centers ! 1 - centers ! 0)
                    else if i = ringCount - 1
                    then normalize (centers ! nat (ringCount - 1) - centers ! nat (ringCount - 2))
                    else normalize (centers ! nat (i + 1) - centers ! nat (i - 1)))
             in tangents @ [tangent])
             tangents;
          ringStride = tubeSegments;
          prevNormal = 0;
          prevBinormal = 0;
          ringStartIndices = [];
          (verts, prevNormal, prevBinormal, ringStartIndices) =
            for_lt 0 ringCount
              (spiral_ring_step centers tangents ringCount worldUp tubeSegments tubeStep
                 flattenFactor tubeRadius)
              (verts, prevNormal, prevBinormal, ringStartIndices);
          indices = for_lt 0 (ringCount - 1) (\<lambda>i indices.
             for_lt 0 tubeSegments (\<lambda>j indices.
               let curr = i * ringStride + j;
                   next = (i + 1) * ringStride + j;
                   currNext = i * ringStride + c_mod (j + 1) tubeSegments;
                   nextNext = (i + 1) * ringStride + c_mod (j + 1) tubeSegments
               in indices @ [nat curr] @ [nat next] @ [nat currNext]
                          @ [nat currNext] @ [nat next] @ [nat nextNext])
               indices)
             indices;
          capCenter = centers ! 0;
          capTangent = tangents ! 0;
          capBinormal = normalize (cross capTangent worldUp);
          capNormal = normalize (cross capBinormal capTangent);
          capRings = 8;
          capSegments = tubeSegments;
          baseIndex = int (length verts div 8);
          verts = for_le 1 capRings (\<lambda>i verts.
             let theta = (real_of_int i * PI * 0.5) / real_of_int capRings;
                 r = sin theta;
                 z = cos theta
             in for_lt 0 capSegments (\<lambda>j verts.
                  let phi = real_of_int j * tubeStep;
                      x = cos phi;
                      y = sin phi;
                      radial = vscale (vscale capNormal x) (1 - flattenFactor) + vscale capBinormal y;
                      offset = vscale (vscale radial r) tubeRadius
                                 + vscale (vscale capTangent z) tubeRadius;
                      position = capCenter - offset;
                      normalVec = normalize (- offset);
                      u = real_of_int j / real_of_int capSegments;
                      v = - z
                  in verts @ [vx position] @ [vy position] @ [vz position]
                           @ [vx normalVec] @ [vy normalVec] @ [vz normalVec] @ [u] @ [v])
                  verts)
             verts;
          indices = for_lt 0 (capRings - 1) (\<lambda>i indices.
             for_lt 0 capSegments (\<lambda>j indices.
               let curr = baseIndex + i * capSegments + j;
                   next = baseIndex + (i + 1) * capSegments + j;
                   currNext = baseIndex + i * capSegments + c_mod (j + 1) capSegments;
                   nextNext = baseIndex + (i + 1) * capSegments + c_mod (j + 1) capSegments
               in indices @ [nat curr] @ [nat next] @ [nat currNext]
                          @ [nat currNext] @ [nat next] @ [nat nextNext])
               indices)
             indices;
          indices = for_lt 0 capSegments (\<lambda>j indices.
             let capRing = baseIndex + (capRings - 1) * capSegments + j;
                 tubeRing = int (ringStartIndices ! nat j);
                 capNext = baseIndex + (capRings - 1) * capSegments + c_mod (j + 1) capSegments;
                 tubeNext = int (ringStartIndices ! nat (c_mod (j + 1) capSegments))
             in indices @ [nat capRing] @ [nat tubeRing] @ [nat capNext]
                        @ [nat capNext] @ [nat tubeRing] @ [nat tubeNext])
             indices
      in (verts, indices))"

text \<open>With no centreline point the program reads \<open>centers[0]\<close> of an empty vector for the
  cap, and with one it reads \<open>centers[1]\<close> for the first tangent.\<close>

definition DrawSpiralMesh ::
  "'f float_ops \<Rightarrow> real \<Rightarrow> real \<Rightarrow> real \<Rightarrow> real \<Rightarrow> int \<Rightarrow> int \<Rightarrow> ShapeMeshes
     \<Rightarrow> error + (buffers \<times> ShapeMeshes)" where
  "DrawSpiralMesh F tubeRadius flattenFactor loopSpacing numLoops tubeSegments spiralSegments s =
     (let PI = pi_f;
          totalAngle = f_mul F (f_mul F (f_of_real F numLoops) (f_of_real F 2)) (f_of_real F PI);
          spiralStep = f_div F totalAngle (f_of_int F spiralSegments);
          tubeStep = 2 * PI / real_of_int tubeSegments;
          startAngle = f_of_real F PI
      in case f_to_int F (f_div F startAngle spiralStep) of
           None \<Rightarrow> Inl UndefinedBehaviour
         | Some startSegment \<Rightarrow>
     (let centers = spiral_centers F loopSpacing totalAngle spiralStep PI startSegment
                      spiralSegments;
          ringCount = int (length centers)
      in if ringCount < 2 then Inl UndefinedBehaviour
         else Inr (spiral_buffers centers tubeRadius flattenFactor tubeSegments tubeStep PI, s)))"

subsection \<open>DrawSineConeMesh\<close>

text \<open>Every read of \<open>positions\<close> and every update of \<open>normals\<close> is in range: both vectors
  hold \<open>(heightSegments + 1) * (radialSegments + 1)\<close> entries when the index loop runs.\<close>

text \<open>The first loop: one position and one zero placeholder normal per grid point.\<close>

definition sine_cone_positions ::
  "real \<Rightarrow> real \<Rightarrow> real \<Rightarrow> real \<Rightarrow> real \<Rightarrow> real \<Rightarrow> int \<Rightarrow> int \<Rightarrow> vec3 list \<times> vec3 list" where
  "sine_cone_positions baseRadius height flattenFactor sineAmplitude sineFrequency sinePhase
       radialSegments heightSegments =
     (let positions = [];
          normals = [];
          radialStep = 2 * pi_f / real_of_int radialSegments;
          heightStep = height / real_of_int heightSegments
      in for_le 0 heightSegments (\<lambda>i (positions, normals).
             let h = real_of_int i * heightStep;
                 t = real_of_int i / real_of_int heightSegments;
                 taper = (1 - t) powr 0.65;
                 radius = baseRadius * taper;
                 sineOffset = sineAmplitude
                                * sin (sineFrequency * t * 2 * pi_f + sinePhase)
             in for_le 0 radialSegments (\<lambda>j (positions, normals).
                  let theta = real_of_int j * radialStep;
                      y = cos theta;
                      z = sin theta;
                      radial = normalize (Vec3 0 y z);
                      offset = vscale radial radius;
                      offset = Vec3 (vx offset) (vy offset * (1 - flattenFactor)) (vz offset);
                      offset = Vec3 (vx offset) (vy offset + sineOffset) (vz offset);
                      position = Vec3 h (vy offset) (vz offset)
                  in (positions @ [position], normals @ [Vec3 0 0 0]))
                  (positions, normals))
             (positions, normals))"

text \<open>The accumulation of the two face normals of one quad into the normals of its four
  corners, in the order of the source.\<close>

definition sine_cone_accumulate ::
  "vec3 list \<Rightarrow> int \<Rightarrow> int \<Rightarrow> int \<Rightarrow> int \<Rightarrow> vec3 list \<Rightarrow> vec3 list" where
  "sine_cone_accumulate positions i0 i1 i2 i3 normals0 =
     (let normals = normals0;
          p0 = positions ! nat i0;
          p1 = positions ! nat i1;
          p2 = positions ! nat i2;
          p3 = positions ! nat i3;
          n0 = cross (p1 - p0) (p2 - p0);
          n1 = cross (p3 - p2) (p1 - p2);
          area0 = vlength n0;
          area1 = vlength n1;
          normals = normals[nat i0 := normals ! nat i0 + vscale n0 area0];
          normals = normals[nat i1 := normals ! nat i1
                                       + vscale (vscale (n0 + n1) 0.5) (area0 + area1)];
          normals = normals[nat i2 := normals ! nat i2
                                       + vscale (vscale (n0 + n1) 0.5) (area0 + area1)];
          normals = normals[nat i3 := normals ! nat i3 + vscale n1 area1]
      in normals)"

text \<open>The third loop: the accumulated normals are normalised and the vertex buffer packed.\<close>

definition sine_cone_pack :: "vec3 list \<Rightarrow> vec3 list \<Rightarrow> int \<Rightarrow> int \<Rightarrow> GLfloat list" where
  "sine_cone_pack positions normals radialSegments heightSegments =
     (let verts = []
      in for_lt 0 (int (length positions)) (\<lambda>i verts.
             let pos = positions ! nat i;
                 norm = normalize (normals ! nat i);
                 u = real_of_int (c_mod i (radialSegments + 1)) / real_of_int radialSegments;
                 v = real_of_int (c_div i (radialSegments + 1)) / real_of_int heightSegments
             in verts @ [vx pos] @ [vy pos] @ [vz pos]
                      @ [vx norm] @ [vy norm] @ [vz norm] @ [u] @ [v])
             verts)"

text \<open>The function itself: the three loops in sequence, the second one building the indices
  and accumulating the normals quad by quad.\<close>

definition DrawSineConeMesh ::
  "real \<Rightarrow> real \<Rightarrow> real \<Rightarrow> real \<Rightarrow> real \<Rightarrow> real \<Rightarrow> int \<Rightarrow> int \<Rightarrow> ShapeMeshes
     \<Rightarrow> buffers \<times> ShapeMeshes" where
  "DrawSineConeMesh baseRadius height flattenFactor sineAmplitude sineFrequency sinePhase
       radialSegments heightSegments s =
     (let indices = [];
          (positions, normals) = sine_cone_positions baseRadius height flattenFactor
             sineAmplitude sineFrequency sinePhase radialSegments heightSegments;
          (normals, indices) = for_lt 0 heightSegments (\<lambda>i (normals, indices).
             for_lt 0 radialSegments (\<lambda>j (normals, indices).
               let curr = i * (radialSegments + 1) + j;
                   next = (i + 1) * (radialSegments + 1) + j;
                   i0 = curr;
                   i1 = next;
                   i2 = curr + 1;
                   i3 = next + 1;
                   normals = sine_cone_accumulate positions i0 i1 i2 i3 normals
               in (normals, indices @ [nat i0] @ [nat i1] @ [nat i2]
                                    @ [nat i2] @ [nat i1] @ [nat i3]))
               (normals, indices))
             (normals, indices);
          verts = sine_cone_pack positions normals radialSegments heightSegments
      in ((verts, indices), s))"

subsection \<open>DrawSuperellipsoidMesh\<close>

text \<open>The function after it has validated its parameters and stored the segment count.\<close>

definition superellipsoid_mesh ::
  "real \<Rightarrow> real \<Rightarrow> real \<Rightarrow> real \<Rightarrow> real \<Rightarrow> int \<Rightarrow> int \<Rightarrow> ShapeMeshes \<Rightarrow> buffers \<times> ShapeMeshes" where
  "superellipsoid_mesh scaleX scaleY scaleZ verticalExponent horizontalExponent
       uSegments vSegments s =
     (let PI = pi_f;
          cosU = replicate (nat (uSegments + 1)) 0;
          sinU = replicate (nat (uSegments + 1)) 0;
          cosV = replicate (nat (vSegments + 1)) 0;
          sinV = replicate (nat (vSegments + 1)) 0;
          (cosU, sinU) = for_le 0 uSegments (\<lambda>i (cosU, sinU).
             let t = real_of_int i / real_of_int uSegments;
                 u = - PI * 0.5 + t * PI
             in (cosU[nat i := cos u], sinU[nat i := sin u]))
             (cosU, sinU);
          (cosV, sinV) = for_le 0 vSegments (\<lambda>j (cosV, sinV).
             let t = real_of_int j / real_of_int vSegments;
                 v = - PI + t * (2 * PI)
             in (cosV[nat j := cos v], sinV[nat j := sin v]))
             (cosV, sinV);
          verts = [];
          indices = [];
          verts = for_le 0 uSegments (\<lambda>i verts.
             for_le 0 vSegments (\<lambda>j verts.
               let cu = cosU ! nat i;
                   su = sinU ! nat i;
                   cv = cosV ! nat j;
                   sv = sinV ! nat j;
                   cu_e = sgn cu * (\<bar>cu\<bar> powr verticalExponent);
                   su_e = sgn su * (\<bar>su\<bar> powr verticalExponent);
                   cv_e = sgn cv * (\<bar>cv\<bar> powr horizontalExponent);
                   sv_e = sgn sv * (\<bar>sv\<bar> powr horizontalExponent);
                   x = scaleX * cu_e * cv_e;
                   y = scaleY * cu_e * sv_e;
                   z = scaleZ * su_e;
                   nx = cu_e * cv_e / scaleX;
                   ny = cu_e * sv_e / scaleY;
                   nz = su_e / scaleZ;
                   normal = Vec3 nx ny nz;
                   normal = normalize normal;
                   uCoord = real_of_int j / real_of_int vSegments;
                   vCoord = real_of_int i / real_of_int uSegments
               in verts @ [x] @ [y] @ [z] @ [vx normal] @ [vy normal] @ [vz normal]
                        @ [uCoord] @ [vCoord])
               verts)
             verts;
          indices = for_lt 0 uSegments (\<lambda>i indices.
             for_lt 0 vSegments (\<lambda>j indices.
               let idx0 = nat (i * (vSegments + 1) + j);
                   idx1 = nat ((i + 1) * (vSegments + 1) + j);
                   idx2 = nat (i * (vSegments + 1) + (j + 1));
                   idx3 = nat ((i + 1) * (vSegments + 1) + (j + 1))
               in indices @ [idx0] @ [idx1] @ [idx2] @ [idx2] @ [idx1] @ [idx3])
               indices)
             indices;
          s = s\<lparr>m_SuperellipsoidMesh := (m_SuperellipsoidMesh s)\<lparr>nVertices := length verts div 8\<rparr>\<rparr>;
          s = s\<lparr>m_SuperellipsoidMesh := (m_SuperellipsoidMesh s)\<lparr>nIndices := length indices\<rparr>\<rparr>
      in ((verts, indices), s))"

text \<open>\<open>DrawSuperellipsoidMesh\<close>: the validation of the parameters, then the rest. The sizes
  \<open>uSegments + 1\<close> and \<open>vSegments + 1\<close> of the angle tables and the arguments of the two
  \<open>reserve\<close> calls are \<open>int\<close> expressions; \<open>(uSegments + 1) * (vSegments + 1) * 8\<close> is the
  largest, and every intermediate value is positive and below it.\<close>

definition DrawSuperellipsoidMesh ::
  "real \<Rightarrow> real \<Rightarrow> real \<Rightarrow> real \<Rightarrow> real \<Rightarrow> int \<Rightarrow> int \<Rightarrow> ShapeMeshes
     \<Rightarrow> error + (buffers \<times> ShapeMeshes)" where
  "DrawSuperellipsoidMesh scaleX0 scaleY0 scaleZ0 verticalExponent0 horizontalExponent0
       uSegments0 vSegments0 s =
     (let uSegments = (if uSegments0 < 3 then 3 else uSegments0);
          vSegments = (if vSegments0 < 3 then 3 else vSegments0);
          scaleX = (if scaleX0 \<le> 0 then 0.1 else scaleX0);
          scaleY = (if scaleY0 \<le> 0 then 0.1 else scaleY0);
          scaleZ = (if scaleZ0 \<le> 0 then 0.1 else scaleZ0);
          verticalExponent = (if verticalExponent0 \<le> 0 then 0.1 else verticalExponent0);
          horizontalExponent = (if horizontalExponent0 \<le> 0 then 0.1 else horizontalExponent0);
          s = s\<lparr>m_SuperellipsoidMesh := (m_SuperellipsoidMesh s)\<lparr>numSlices := vSegments\<rparr>\<rparr>
      in if INT_MAX < (uSegments + 1) * (vSegments + 1) * 8
         then Inl UndefinedBehaviour
         else Inr (superellipsoid_mesh scaleX scaleY scaleZ verticalExponent horizontalExponent
                     uSegments vSegments s))"

section \<open>Well-formed buffers\<close>

text \<open>A vertex is eight consecutive floats of the vertex array (position at offset 0,
  normal at offset 3, texture coordinate at offset 6, as \<open>SetShaderMemoryLayout\<close> binds them).
  \<open>buffers_ok b N\<close>: the vertex array holds exactly \<open>N\<close> vertices and every index refers to
  one of them.\<close>

definition buffers_ok :: "buffers \<Rightarrow> nat \<Rightarrow> bool" where
  "buffers_ok b N \<longleftrightarrow> length (fst b) = 8 * N \<and> (\<forall>ix\<in>set (snd b). ix < N)"

text \<open>The attributes of vertex \<open>k\<close> of an interleaved vertex array, at the offsets of
  \<open>position\<close>, \<open>normal\<close> and \<open>texCoord\<close> in \<open>Vertex\<close>.\<close>

definition vertex_position :: "GLfloat list \<Rightarrow> nat \<Rightarrow> vec3" where
  "vertex_position verts k = Vec3 (verts ! (8 * k)) (verts ! (8 * k + 1)) (verts ! (8 * k + 2))"

definition vertex_normal :: "GLfloat list \<Rightarrow> nat \<Rightarrow> vec3" where
  "vertex_normal verts k =
     Vec3 (verts ! (8 * k + 3)) (verts ! (8 * k + 4)) (verts ! (8 * k + 5))"

definition vertex_u :: "GLfloat list \<Rightarrow> nat \<Rightarrow> real" where
  "vertex_u verts k = verts ! (8 * k + 6)"


text \<open>The size in bytes that \<open>glBufferData\<close> is given for a vertex array:
  \<open>verts.size() * sizeof(GLfloat)\<close>.\<close>

definition sizeof_GLfloat :: nat where
  "sizeof_GLfloat = 4"

definition buffer_bytes :: "GLfloat list \<Rightarrow> nat" where
  "buffer_bytes verts = length verts * sizeof_GLfloat"

text \<open>The triangles that \<open>glDrawElements(GL_TRIANGLES, \<dots>)\<close> reads from an index array: three
  consecutive indices each.\<close>

fun triangles :: "GLuint list \<Rightarrow> (GLuint \<times> GLuint \<times> GLuint) list" where
  "triangles (a # b # c # rest) = (a, b, c) # triangles rest"
| "triangles _ = []"

subsection \<open>All generators\<close>

text \<open>One constructor for each function of \<open>ShapeMeshes\<close> that builds a vertex buffer, with
  its arguments; \<open>generate F\<close> runs the call, with \<open>F\<close> the operations on \<open>float\<close>.\<close>

datatype shape_call =
    CallLoadBoxMesh
  | CallLoadConeMesh real real int
  | CallLoadCylinderMesh real real int
  | CallLoadPlaneMesh real real
  | CallLoadPrismMesh
  | CallLoadPyramid3Mesh
  | CallLoadPyramid4Mesh real real
  | CallLoadSphereMesh int int real
  | CallLoadHemisphereMesh int int real
  | CallLoadTaperedCylinderMesh real real real int
  | CallLoadTorusMesh real real int int
  | CallLoadExtraTorusMesh1 real
  | CallLoadExtraTorusMesh2 real
  | CallLoadSpringMesh real real int int real
  | CallLoadTubeMesh real real real int
  | CallLoadFinMesh real real real real
  | CallDrawPartialConeMesh real real int real bool
  | CallLoadCurvedConeMesh int int real real real
  | CallDrawTaperedTorusMesh real real real int int real
  | CallDrawSpiralMesh real real real real int int
  | CallDrawSineConeMesh real real real real real real int int
  | CallDrawSuperellipsoidMesh real real real real real int int

primrec generate ::
  "'f float_ops \<Rightarrow> shape_call \<Rightarrow> ShapeMeshes \<Rightarrow> error + (buffers \<times> ShapeMeshes)" where
  "generate F CallLoadBoxMesh s = Inr (LoadBoxMesh s)"
| "generate F (CallLoadConeMesh radius height n) s = Inr (LoadConeMesh radius height n s)"
| "generate F (CallLoadCylinderMesh radius height n) s = Inr (LoadCylinderMesh radius height n s)"
| "generate F (CallLoadPlaneMesh width height) s = Inr (LoadPlaneMesh width height s)"
| "generate F CallLoadPrismMesh s = Inr (LoadPrismMesh s)"
| "generate F CallLoadPyramid3Mesh s = Inr (LoadPyramid3Mesh s)"
| "generate F (CallLoadPyramid4Mesh baseSize height) s = Inr (LoadPyramid4Mesh baseSize height s)"
| "generate F (CallLoadSphereMesh lat lon radius) s = Inr (LoadSphereMesh lat lon radius s)"
| "generate F (CallLoadHemisphereMesh lat lon radius) s = Inr (LoadHemisphereMesh lat lon radius s)"
| "generate F (CallLoadTaperedCylinderMesh rb rt height n) s =
     LoadTaperedCylinderMesh rb rt height n s"
| "generate F (CallLoadTorusMesh mainRadius tubeRadius m n) s =
     Inr (LoadTorusMesh mainRadius tubeRadius m n s)"
| "generate F (CallLoadExtraTorusMesh1 thickness) s = Inr (LoadExtraTorusMesh1 thickness s)"
| "generate F (CallLoadExtraTorusMesh2 thickness) s = Inr (LoadExtraTorusMesh2 thickness s)"
| "generate F (CallLoadSpringMesh mainRadius tubeRadius m n springLength) s =
     LoadSpringMesh mainRadius tubeRadius m n springLength s"
| "generate F (CallLoadTubeMesh outerRadius innerRadius height n) s =
     Inr (LoadTubeMesh outerRadius innerRadius height n s)"
| "generate F (CallLoadFinMesh baseLength topLength height thickness) s =
     Inr (LoadFinMesh baseLength topLength height thickness s)"
| "generate F (CallDrawPartialConeMesh radius height n arcDegrees wireframe) s =
     Inr (DrawPartialConeMesh radius height n arcDegrees wireframe s)"
| "generate F (CallLoadCurvedConeMesh n k radius height bendRadius) s =
     Inr (LoadCurvedConeMesh n k radius height bendRadius s)"
| "generate F (CallDrawTaperedTorusMesh mainRadius r0 r1 m n sweep) s =
     Inr (DrawTaperedTorusMesh mainRadius r0 r1 m n sweep s)"
| "generate F (CallDrawSpiralMesh tubeRadius flattenFactor loopSpacing numLoops n m) s =
     DrawSpiralMesh F tubeRadius flattenFactor loopSpacing numLoops n m s"
| "generate F (CallDrawSineConeMesh baseRadius height flattenFactor a f p n m) s =
     Inr (DrawSineConeMesh baseRadius height flattenFactor a f p n m s)"
| "generate F (CallDrawSuperellipsoidMesh sx sy sz e1 e2 m n) s =
     DrawSuperellipsoidMesh sx sy sz e1 e2 m n s"

section \<open>Loops as list comprehensions\<close>

lemma fold_append1:
  "fold (\<lambda>i vs. vs @ f i) xs vs0 = vs0 @ concat (map f xs)"
  by (induction xs arbitrary: vs0) auto

lemma fold_append2:
  "fold (\<lambda>i (vs, is). (vs @ f i, is @ g i)) xs (vs0, is0)
     = (vs0 @ concat (map f xs), is0 @ concat (map g xs))"
  by (induction xs arbitrary: vs0 is0) auto

lemma for_lt_append:
  "for_lt lo hi (\<lambda>i vs. vs @ f i) = (\<lambda>vs0. vs0 @ concat (map f [lo..hi - 1]))"
  unfolding for_lt_def by (rule ext) (rule fold_append1)

lemma for_le_append:
  "for_le lo hi (\<lambda>i vs. vs @ f i) = (\<lambda>vs0. vs0 @ concat (map f [lo..hi]))"
  unfolding for_le_def by (rule ext) (rule fold_append1)

lemma for_lt_append2:
  "for_lt lo hi (\<lambda>i (vs, is). (vs @ f i, is @ g i))
     = (\<lambda>(vs0, is0). (vs0 @ concat (map f [lo..hi - 1]), is0 @ concat (map g [lo..hi - 1])))"
  unfolding for_lt_def by (rule ext) (simp add: split_beta fold_append2 [symmetric])

lemma for_le_append2:
  "for_le lo hi (\<lambda>i (vs, is). (vs @ f i, is @ g i))
     = (\<lambda>(vs0, is0). (vs0 @ concat (map f [lo..hi]), is0 @ concat (map g [lo..hi])))"
  unfolding for_le_def by (rule ext) (simp add: split_beta fold_append2 [symmetric])

lemma if_append_else: "(if c then xs @ ys else xs) = xs @ (if c then ys else [])"
  by simp

lemma length_concat_map_const:
  "(\<And>x. length (f x) = k) \<Longrightarrow> length (concat (map f xs)) = k * length xs"
  by (induction xs) auto

lemma c_mod_nonneg: "0 \<le> a \<Longrightarrow> 0 < b \<Longrightarrow> c_mod a b = a mod b"
  by (simp add: c_mod_def c_div_def sgn_if minus_mult_div_eq_mod)

text \<open>The largest index of a grid cell \<open>(i, j)\<close> of an \<open>(M + 1) \<times> (L + 1)\<close> vertex grid.\<close>

lemma grid_bound:
  assumes "0 \<le> i \<and> i < M" "0 \<le> j \<and> j < L" "k \<le> (i + 1) * (L + 1) + j + 1"
  shows "nat k < nat (M + 1) * nat (L + 1)"
proof -
  have "(i + 1) * (L + 1) \<le> M * (L + 1)"
    using assms by (intro mult_right_mono) auto
  then have "k < (M + 1) * (L + 1)"
    using assms by (simp add: algebra_simps)
  then have "nat k < nat ((M + 1) * (L + 1))"
    using assms by (simp add: nat_less_iff)
  then show ?thesis
    using assms by (simp add: nat_mult_distrib)
qed

lemma c_mod_succ: "0 \<le> x \<Longrightarrow> x < n \<Longrightarrow> c_mod (x + 1) n = (if x + 1 = n then 0 else x + 1)"
  by (simp add: c_mod_nonneg)

lemma grid_bound':
  assumes "i \<in> {0..M - 1}" "j \<in> {0..L - 1}" "k \<le> (i + 1) * (L + 1) + j + 1"
  shows "nat k < nat (M + 1) * nat (L + 1)"
  using assms grid_bound[of i M j L k] by simp

lemma clamp3_max: "(if max 3 n < 3 then 3 else max 3 n) = (if n < (3::int) then 3 else n)"
  by simp


lemma InitializeMesh_simps:
  "nVertices (fst (InitializeMesh mesh verts indices s)) = length verts div 8"
  "nIndices (fst (InitializeMesh mesh verts indices s)) = length indices"
  "numSlices (fst (InitializeMesh mesh verts indices s)) = numSlices mesh"
  "curveSteps (fst (InitializeMesh mesh verts indices s)) = curveSteps mesh"
  "m_bMemoryLayoutDone (snd (InitializeMesh mesh verts indices s)) = m_bMemoryLayoutDone s"
  "layoutCalls (snd (InitializeMesh mesh verts indices s)) =
     (if m_bMemoryLayoutDone s then layoutCalls s else layoutCalls s + 1)"
  unfolding InitializeMesh_def SetShaderMemoryLayout_def Let_def
    FloatsPerVertex_def FloatsPerNormal_def FloatsPerUV_def
  by simp_all

lemmas closed_form = for_lt_append for_le_append for_lt_append2 for_le_append2 if_append_else
  prod.case fst_conv snd_conv append_Nil append_assoc

lemmas length_simps = length_append length_concat_map_const list.size length_upto

lemma clamp1_max: "(if max 1 k < 1 then 1 else max 1 k) = (if k < (1::int) then 1 else k)"
  by simp

lemma mult_left_cong_nat: "a = b \<Longrightarrow> a * (n::nat) = b * n"
  by simp

lemma eps_idem:
  "(if (if x \<le> 0 then 0.1 else x) \<le> 0 then 0.1 else (if x \<le> 0 then 0.1 else x))
     = (if x \<le> (0::real) then 0.1 else x)"
  by simp

lemma length_upto0: "length [0..int k - 1] = k"
  by simp

lemma fold_append_snd:
  "fold (\<lambda>i (a, is). (F i a, is @ g i)) xs (a0, is0) = (fold F xs a0, is0 @ concat (map g xs))"
  by (induction xs arbitrary: a0 is0) auto

lemma for_lt_append_snd:
  "for_lt lo hi (\<lambda>i (a, is). (F i a, is @ g i))
     = (\<lambda>(a0, is0). (for_lt lo hi F a0, is0 @ concat (map g [lo..hi - 1])))"
  unfolding for_lt_def by (rule ext) (simp add: split_beta fold_append_snd [symmetric])

lemma clamp_idem: "clamp (clamp x 0 360) 0 360 = clamp x 0 360"
  by (simp add: clamp_def)

lemmas state_defs = Let_def InitializeMesh_def SetShaderMemoryLayout_def
  FloatsPerVertex_def FloatsPerNormal_def FloatsPerUV_def

section \<open>The generators one by one\<close>

subsection \<open>LoadBoxMesh\<close>

lemma LoadBoxMesh_ok: "buffers_ok (fst (LoadBoxMesh s)) 24"
  unfolding LoadBoxMesh_def buffers_ok_def state_defs by (simp add: split_beta)

lemma LoadBoxMesh_state:
  "nVertices (m_BoxMesh (snd (LoadBoxMesh s))) = length (fst (fst (LoadBoxMesh s))) div 8 \<and>
   m_bMemoryLayoutDone (snd (LoadBoxMesh s)) = m_bMemoryLayoutDone s \<and>
   layoutCalls (snd (LoadBoxMesh s)) =
     (if m_bMemoryLayoutDone s then layoutCalls s else layoutCalls s + 1)"
  unfolding LoadBoxMesh_def state_defs by (simp add: split_beta)

subsection \<open>LoadPlaneMesh\<close>

lemma LoadPlaneMesh_ok: "buffers_ok (fst (LoadPlaneMesh w h s)) 4"
  unfolding LoadPlaneMesh_def buffers_ok_def state_defs by (simp add: split_beta)

lemma LoadPlaneMesh_state:
  "nVertices (m_PlaneMesh (snd (LoadPlaneMesh w h s))) = length (fst (fst (LoadPlaneMesh w h s))) div 8 \<and>
   m_bMemoryLayoutDone (snd (LoadPlaneMesh w h s)) = m_bMemoryLayoutDone s \<and>
   layoutCalls (snd (LoadPlaneMesh w h s)) =
     (if m_bMemoryLayoutDone s then layoutCalls s else layoutCalls s + 1)"
  unfolding LoadPlaneMesh_def state_defs by (simp add: split_beta)

subsection \<open>LoadPrismMesh\<close>

lemma LoadPrismMesh_ok: "buffers_ok (fst (LoadPrismMesh s)) 32"
  unfolding LoadPrismMesh_def buffers_ok_def state_defs by (simp add: split_beta)

lemma LoadPrismMesh_state:
  "nVertices (m_PrismMesh (snd (LoadPrismMesh s))) = length (fst (fst (LoadPrismMesh s))) div 8 \<and>
   m_bMemoryLayoutDone (snd (LoadPrismMesh s)) = m_bMemoryLayoutDone s \<and>
   layoutCalls (snd (LoadPrismMesh s)) =
     (if m_bMemoryLayoutDone s then layoutCalls s else layoutCalls s + 1)"
  unfolding LoadPrismMesh_def state_defs by (simp add: split_beta)

subsection \<open>LoadPyramid3Mesh\<close>

lemma LoadPyramid3Mesh_ok: "buffers_ok (fst (LoadPyramid3Mesh s)) 12"
  unfolding LoadPyramid3Mesh_def buffers_ok_def state_defs by (simp add: split_beta)

lemma LoadPyramid3Mesh_state:
  "nVertices (m_Pyramid3Mesh (snd (LoadPyramid3Mesh s))) = length (fst (fst (LoadPyramid3Mesh s))) div 8 \<and>
   m_bMemoryLayoutDone (snd (LoadPyramid3Mesh s)) = m_bMemoryLayoutDone s \<and>
   layoutCalls (snd (LoadPyramid3Mesh s)) =
     (if m_bMemoryLayoutDone s then layoutCalls s else layoutCalls s + 1)"
  unfolding LoadPyramid3Mesh_def state_defs by (simp add: split_beta)

subsection \<open>LoadPyramid4Mesh\<close>

lemma LoadPyramid4Mesh_ok: "buffers_ok (fst (LoadPyramid4Mesh b h s)) 18"
  unfolding LoadPyramid4Mesh_def buffers_ok_def state_defs addVertex_def by (simp add: split_beta)

lemma LoadPyramid4Mesh_state:
  "nVertices (m_Pyramid4Mesh (snd (LoadPyramid4Mesh b h s))) = length (fst (fst (LoadPyramid4Mesh b h s))) div 8 \<and>
   m_bMemoryLayoutDone (snd (LoadPyramid4Mesh b h s)) = m_bMemoryLayoutDone s \<and>
   layoutCalls (snd (LoadPyramid4Mesh b h s)) =
     (if m_bMemoryLayoutDone s then layoutCalls s else layoutCalls s + 1)"
  unfolding LoadPyramid4Mesh_def state_defs addVertex_def by (simp add: split_beta)

subsection \<open>LoadConeMesh\<close>

lemma LoadConeMesh_clamp: "LoadConeMesh r h n s = LoadConeMesh r h (max 3 n) s"
  unfolding LoadConeMesh_def by (simp only: clamp3_max)

lemma LoadConeMesh_ok: "3 \<le> n \<Longrightarrow> buffers_ok (fst (LoadConeMesh r h n s)) (3 * nat n + 2)"
  unfolding LoadConeMesh_def buffers_ok_def Let_def
  apply (simp only: closed_form case_prod_beta)
  apply (simp only: length_simps)
  apply (simp add: nat_add_distrib)
  apply (auto simp: c_mod_succ split: if_splits)
  done

lemma LoadConeMesh_snd:
  "snd (LoadConeMesh r h n s) =
     (let V = fst (fst (LoadConeMesh r h n s));
          I = snd (fst (LoadConeMesh r h n s));
          s1 = s\<lparr>m_ConeMesh := (m_ConeMesh s)\<lparr>numSlices := (if n < 3 then 3 else n)\<rparr>\<rparr>;
          r = InitializeMesh (m_ConeMesh s1) V I s1
      in (snd r)\<lparr>m_ConeMesh := fst r\<rparr>)"
  unfolding LoadConeMesh_def Let_def
  by (simp only: closed_form case_prod_beta)

lemma LoadConeMesh_state:
  "nVertices (m_ConeMesh (snd (LoadConeMesh r h n s))) = length (fst (fst (LoadConeMesh r h n s))) div 8 \<and>
   m_bMemoryLayoutDone (snd (LoadConeMesh r h n s)) = m_bMemoryLayoutDone s \<and>
   layoutCalls (snd (LoadConeMesh r h n s)) =
     (if m_bMemoryLayoutDone s then layoutCalls s else layoutCalls s + 1)"
  by (simp add: LoadConeMesh_snd InitializeMesh_simps Let_def)

lemma LoadConeMesh_lengths:
  "length (fst (fst (LoadConeMesh radius height 3 s))) = 88 \<and>
   length (snd (fst (LoadConeMesh radius height 3 s))) = 18"
  unfolding LoadConeMesh_def Let_def
  apply (simp only: closed_form case_prod_beta)
  apply (simp only: length_simps)
  apply simp
  done

subsection \<open>LoadCylinderMesh\<close>

lemma LoadCylinderMesh_clamp: "LoadCylinderMesh r h n s = LoadCylinderMesh r h (max 3 n) s"
  unfolding LoadCylinderMesh_def by (simp only: clamp3_max)

lemma LoadCylinderMesh_ok: "3 \<le> n \<Longrightarrow> buffers_ok (fst (LoadCylinderMesh r h n s)) (4 * nat n + 6)"
  unfolding LoadCylinderMesh_def buffers_ok_def Let_def
  apply (simp only: closed_form case_prod_beta)
  apply (simp only: length_simps)
  apply (simp add: nat_add_distrib)
  apply (auto simp: c_mod_succ split: if_splits)
  done

lemma LoadCylinderMesh_snd:
  "snd (LoadCylinderMesh r h n s) =
     (let V = fst (fst (LoadCylinderMesh r h n s));
          I = snd (fst (LoadCylinderMesh r h n s));
          s1 = s\<lparr>m_CylinderMesh := (m_CylinderMesh s)\<lparr>numSlices := (if n < 3 then 3 else n)\<rparr>\<rparr>;
          r = InitializeMesh (m_CylinderMesh s1) V I s1
      in (snd r)\<lparr>m_CylinderMesh := fst r\<rparr>)"
  unfolding LoadCylinderMesh_def Let_def
  by (simp only: closed_form case_prod_beta)

lemma LoadCylinderMesh_state:
  "nVertices (m_CylinderMesh (snd (LoadCylinderMesh r h n s))) = length (fst (fst (LoadCylinderMesh r h n s))) div 8 \<and>
   m_bMemoryLayoutDone (snd (LoadCylinderMesh r h n s)) = m_bMemoryLayoutDone s \<and>
   layoutCalls (snd (LoadCylinderMesh r h n s)) =
     (if m_bMemoryLayoutDone s then layoutCalls s else layoutCalls s + 1)"
  by (simp add: LoadCylinderMesh_snd InitializeMesh_simps Let_def)

subsection \<open>LoadSphereMesh\<close>

lemma LoadSphereMesh_ok: "buffers_ok (fst (LoadSphereMesh M L r s)) (nat (M + 1) * nat (L + 1))"
  unfolding LoadSphereMesh_def buffers_ok_def Let_def
  apply (simp only: closed_form case_prod_beta)
  apply (simp only: length_simps)
  apply (rule conjI)
   apply simp
  apply simp
  apply (intro allI impI ballI conjI; (rule grid_bound', assumption, assumption, simp add: algebra_simps))
  done

lemma LoadSphereMesh_snd:
  "snd (LoadSphereMesh M L r s) =
     (let V = fst (fst (LoadSphereMesh M L r s));
          I = snd (fst (LoadSphereMesh M L r s));
          s0 = s\<lparr>m_SphereMesh := (m_SphereMesh s)\<lparr>nVertices := length V div (FloatsPerVertex + FloatsPerNormal + FloatsPerUV)\<rparr>\<rparr>;
          s1 = s0\<lparr>m_SphereMesh := (m_SphereMesh s0)\<lparr>nIndices := length I\<rparr>\<rparr>;
          r = InitializeMesh (m_SphereMesh s1) V I s1
      in (snd r)\<lparr>m_SphereMesh := fst r\<rparr>)"
  unfolding LoadSphereMesh_def Let_def
  by (simp only: closed_form case_prod_beta)

lemma LoadSphereMesh_state:
  "nVertices (m_SphereMesh (snd (LoadSphereMesh M L r s))) = length (fst (fst (LoadSphereMesh M L r s))) div 8 \<and>
   m_bMemoryLayoutDone (snd (LoadSphereMesh M L r s)) = m_bMemoryLayoutDone s \<and>
   layoutCalls (snd (LoadSphereMesh M L r s)) =
     (if m_bMemoryLayoutDone s then layoutCalls s else layoutCalls s + 1)"
  by (simp add: LoadSphereMesh_snd InitializeMesh_simps Let_def)

subsection \<open>LoadHemisphereMesh\<close>

lemma LoadHemisphereMesh_ok:
  "buffers_ok (fst (LoadHemisphereMesh M L r s)) (nat (c_div M 2 + 1) * nat (L + 1))"
  unfolding LoadHemisphereMesh_def buffers_ok_def Let_def
  apply (simp only: closed_form case_prod_beta)
  apply (simp only: length_simps)
  apply (rule conjI)
   apply simp
  apply simp
  apply (intro allI impI ballI conjI; (rule grid_bound', assumption, assumption, simp add: algebra_simps))
  done

lemma LoadHemisphereMesh_snd:
  "snd (LoadHemisphereMesh M L r s) =
     (let V = fst (fst (LoadHemisphereMesh M L r s));
          I = snd (fst (LoadHemisphereMesh M L r s));
          s0 = s\<lparr>m_HemisphereMesh := (m_HemisphereMesh s)\<lparr>nVertices := length V div (FloatsPerVertex + FloatsPerNormal + FloatsPerUV)\<rparr>\<rparr>;
          s1 = s0\<lparr>m_HemisphereMesh := (m_HemisphereMesh s0)\<lparr>nIndices := length I\<rparr>\<rparr>;
          r = InitializeMesh (m_HemisphereMesh s1) V I s1
      in (snd r)\<lparr>m_HemisphereMesh := fst r\<rparr>)"
  unfolding LoadHemisphereMesh_def Let_def
  by (simp only: closed_form case_prod_beta)

lemma LoadHemisphereMesh_state:
  "nVertices (m_HemisphereMesh (snd (LoadHemisphereMesh M L r s))) = length (fst (fst (LoadHemisphereMesh M L r s))) div 8 \<and>
   m_bMemoryLayoutDone (snd (LoadHemisphereMesh M L r s)) = m_bMemoryLayoutDone s \<and>
   layoutCalls (snd (LoadHemisphereMesh M L r s)) =
     (if m_bMemoryLayoutDone s then layoutCalls s else layoutCalls s + 1)"
  by (simp add: LoadHemisphereMesh_snd InitializeMesh_simps Let_def)

subsection \<open>LoadTaperedCylinderMesh\<close>

lemma tapered_cylinder_mesh_ok:
  "3 \<le> n \<Longrightarrow> buffers_ok (fst (tapered_cylinder_mesh rb rt h n s)) (4 * nat n + 2)"
  unfolding tapered_cylinder_mesh_def buffers_ok_def Let_def
  apply (simp only: closed_form case_prod_beta)
  apply (simp only: length_simps)
  apply (simp add: nat_add_distrib)
  apply (auto simp: c_mod_succ split: if_splits)
  done

lemma tapered_cylinder_mesh_snd:
  "snd (tapered_cylinder_mesh rb rt h n s) =
     (let V = fst (fst (tapered_cylinder_mesh rb rt h n s));
          I = snd (fst (tapered_cylinder_mesh rb rt h n s));
          r = InitializeMesh (m_TaperedCylinderMesh s) V I s
      in (snd r)\<lparr>m_TaperedCylinderMesh := fst r\<rparr>)"
  unfolding tapered_cylinder_mesh_def Let_def
  by (simp only: closed_form case_prod_beta)

lemma tapered_cylinder_mesh_state:
  "nVertices (m_TaperedCylinderMesh (snd (tapered_cylinder_mesh rb rt h n s)))
     = length (fst (fst (tapered_cylinder_mesh rb rt h n s))) div 8 \<and>
   numSlices (m_TaperedCylinderMesh (snd (tapered_cylinder_mesh rb rt h n s)))
     = numSlices (m_TaperedCylinderMesh s) \<and>
   m_bMemoryLayoutDone (snd (tapered_cylinder_mesh rb rt h n s)) = m_bMemoryLayoutDone s \<and>
   layoutCalls (snd (tapered_cylinder_mesh rb rt h n s)) =
     (if m_bMemoryLayoutDone s then layoutCalls s else layoutCalls s + 1)"
  by (simp add: tapered_cylinder_mesh_snd InitializeMesh_simps Let_def)

lemma LoadTaperedCylinderMesh_eq:
  "LoadTaperedCylinderMesh rb rt h n s =
     (if INT_MAX < (2 * (max 3 n + 1) + 2 * max 3 n) * 8 then Inl UndefinedBehaviour
      else Inr (tapered_cylinder_mesh rb rt h (max 3 n)
                  (s\<lparr>m_TaperedCylinderMesh := (m_TaperedCylinderMesh s)\<lparr>numSlices := max 3 n\<rparr>\<rparr>)))"
  unfolding LoadTaperedCylinderMesh_def Let_def by (simp add: max_def)

lemma LoadTaperedCylinderMesh_clamp:
  "LoadTaperedCylinderMesh rb rt h n s = LoadTaperedCylinderMesh rb rt h (max 3 n) s"
  by (simp add: LoadTaperedCylinderMesh_eq)

lemma LoadTaperedCylinderMesh_ok:
  "LoadTaperedCylinderMesh rb rt h n s = Inr r \<Longrightarrow> buffers_ok (fst r) (4 * nat (max 3 n) + 2)"
  using tapered_cylinder_mesh_ok [of "max 3 n" rb rt h
      "s\<lparr>m_TaperedCylinderMesh := (m_TaperedCylinderMesh s)\<lparr>numSlices := max 3 n\<rparr>\<rparr>"]
  by (auto simp: LoadTaperedCylinderMesh_eq split: if_splits)

lemma LoadTaperedCylinderMesh_state:
  "LoadTaperedCylinderMesh rb rt h n s = Inr r \<Longrightarrow>
   nVertices (m_TaperedCylinderMesh (snd r)) = length (fst (fst r)) div 8 \<and>
   numSlices (m_TaperedCylinderMesh (snd r)) = max 3 n"
  using tapered_cylinder_mesh_state [of rb rt h "max 3 n"
      "s\<lparr>m_TaperedCylinderMesh := (m_TaperedCylinderMesh s)\<lparr>numSlices := max 3 n\<rparr>\<rparr>"]
  by (auto simp: LoadTaperedCylinderMesh_eq split: if_splits)

lemma LoadTaperedCylinderMesh_completes:
  "(2 * (max 3 n + 1) + 2 * max 3 n) * 8 \<le> INT_MAX \<Longrightarrow>
   \<exists>r. LoadTaperedCylinderMesh rb rt h n s = Inr r"
  by (simp add: LoadTaperedCylinderMesh_eq)

subsection \<open>LoadTorusMesh\<close>

lemma LoadTorusMesh_clamp:
  "LoadTorusMesh R r m n s = LoadTorusMesh R (max 0.01 r) (max 3 m) (max 3 n) s"
  unfolding LoadTorusMesh_def by (simp only: max.left_idem)

lemma LoadTorusMesh_ok:
  "3 \<le> m \<Longrightarrow> 3 \<le> n \<Longrightarrow> buffers_ok (fst (LoadTorusMesh R r m n s)) (nat (m + 1) * nat (n + 1))"
  unfolding LoadTorusMesh_def buffers_ok_def Let_def
  apply (simp only: closed_form case_prod_beta)
  apply (simp only: length_simps)
  apply (rule conjI)
   apply simp
  apply simp
  apply (intro allI impI ballI conjI; (rule grid_bound', assumption, assumption, simp add: algebra_simps))
  done

lemma LoadTorusMesh_snd:
  "snd (LoadTorusMesh R r m n s) =
     (let V = fst (fst (LoadTorusMesh R r m n s));
          I = snd (fst (LoadTorusMesh R r m n s));
          s0 = s\<lparr>m_TorusMesh := (m_TorusMesh s)\<lparr>nVertices := length V div (FloatsPerVertex + FloatsPerNormal + FloatsPerUV)\<rparr>\<rparr>;
          s1 = s0\<lparr>m_TorusMesh := (m_TorusMesh s0)\<lparr>nIndices := length I\<rparr>\<rparr>;
          r = InitializeMesh (m_TorusMesh s1) V I s1
      in (snd r)\<lparr>m_TorusMesh := fst r\<rparr>)"
  unfolding LoadTorusMesh_def Let_def
  by (simp only: closed_form case_prod_beta)

lemma LoadTorusMesh_state:
  "nVertices (m_TorusMesh (snd (LoadTorusMesh R r m n s))) = length (fst (fst (LoadTorusMesh R r m n s))) div 8 \<and>
   m_bMemoryLayoutDone (snd (LoadTorusMesh R r m n s)) = m_bMemoryLayoutDone s \<and>
   layoutCalls (snd (LoadTorusMesh R r m n s)) =
     (if m_bMemoryLayoutDone s then layoutCalls s else layoutCalls s + 1)"
  by (simp add: LoadTorusMesh_snd InitializeMesh_simps Let_def)

subsection \<open>LoadSpringMesh\<close>

lemma spring_mesh_ok:
  "1 \<le> m \<Longrightarrow> 8 \<le> n \<Longrightarrow>
   buffers_ok (fst (spring_mesh R r m n len s)) (nat (m * n + 1) * nat (n + 1))"
  unfolding spring_mesh_def buffers_ok_def Let_def
  apply (simp only: closed_form case_prod_beta)
  apply (simp only: length_simps)
  apply (rule conjI)
   apply simp
  apply simp
  apply (intro allI impI ballI conjI; (rule grid_bound', assumption, assumption, simp add: algebra_simps))
  done

lemma spring_mesh_snd:
  "snd (spring_mesh R r m n len s) =
     (let V = fst (fst (spring_mesh R r m n len s));
          I = snd (fst (spring_mesh R r m n len s));
          s0 = s\<lparr>m_SpringMesh := (m_SpringMesh s)\<lparr>nVertices := length V div (FloatsPerVertex + FloatsPerNormal + FloatsPerUV)\<rparr>\<rparr>;
          s1 = s0\<lparr>m_SpringMesh := (m_SpringMesh s0)\<lparr>nIndices := length I\<rparr>\<rparr>;
          r = InitializeMesh (m_SpringMesh s1) V I s1
      in (snd r)\<lparr>m_SpringMesh := fst r\<rparr>)"
  unfolding spring_mesh_def Let_def
  by (simp only: closed_form case_prod_beta)

lemma spring_mesh_state:
  "nVertices (m_SpringMesh (snd (spring_mesh R r m n len s)))
     = length (fst (fst (spring_mesh R r m n len s))) div 8 \<and>
   m_bMemoryLayoutDone (snd (spring_mesh R r m n len s)) = m_bMemoryLayoutDone s \<and>
   layoutCalls (snd (spring_mesh R r m n len s)) =
     (if m_bMemoryLayoutDone s then layoutCalls s else layoutCalls s + 1)"
  by (simp add: spring_mesh_snd InitializeMesh_simps Let_def)

lemma LoadSpringMesh_eq:
  "LoadSpringMesh R r m n len s =
     (if INT_MAX < max 1 m * max 8 n then Inl UndefinedBehaviour
      else Inr (spring_mesh R r (max 1 m) (max 8 n) len s))"
  unfolding LoadSpringMesh_def Let_def by simp

lemma LoadSpringMesh_clamp:
  "LoadSpringMesh R r m n len s = LoadSpringMesh R r (max 1 m) (max 8 n) len s"
  by (simp add: LoadSpringMesh_eq)

lemma LoadSpringMesh_ok:
  "LoadSpringMesh R r m n len s = Inr b \<Longrightarrow>
   buffers_ok (fst b) (nat (max 1 m * max 8 n + 1) * nat (max 8 n + 1))"
  using spring_mesh_ok [of "max 1 m" "max 8 n" R r len s]
  by (auto simp: LoadSpringMesh_eq split: if_splits)

lemma LoadSpringMesh_state:
  "LoadSpringMesh R r m n len s = Inr b \<Longrightarrow>
   nVertices (m_SpringMesh (snd b)) = length (fst (fst b)) div 8"
  using spring_mesh_state [of R r "max 1 m" "max 8 n" len s]
  by (auto simp: LoadSpringMesh_eq split: if_splits)

lemma LoadSpringMesh_completes:
  "max 1 m * max 8 n \<le> INT_MAX \<Longrightarrow> \<exists>b. LoadSpringMesh R r m n len s = Inr b"
  by (simp add: LoadSpringMesh_eq)

subsection \<open>LoadTubeMesh\<close>

lemma LoadTubeMesh_clamp: "LoadTubeMesh ro ri h n s = LoadTubeMesh ro ri h (max 3 n) s"
  unfolding LoadTubeMesh_def by (simp only: clamp3_max)

lemma LoadTubeMesh_ok: "3 \<le> n \<Longrightarrow> buffers_ok (fst (LoadTubeMesh ro ri h n s)) (4 * nat (n + 1))"
  unfolding LoadTubeMesh_def buffers_ok_def Let_def
  apply (simp only: closed_form case_prod_beta)
  apply (simp only: length_simps)
  apply (simp add: nat_add_distrib)
  apply (auto simp: nat_mult_distrib)
  done

lemma LoadTubeMesh_snd:
  "snd (LoadTubeMesh ro ri h n s) =
     (let V = fst (fst (LoadTubeMesh ro ri h n s));
          I = snd (fst (LoadTubeMesh ro ri h n s));
          s2 = s\<lparr>m_TubeMesh := (m_TubeMesh s)\<lparr>numSlices := (if n < 3 then 3 else n)\<rparr>\<rparr>;
          s0 = s2\<lparr>m_TubeMesh := (m_TubeMesh s2)\<lparr>nVertices := length V div (FloatsPerVertex + FloatsPerNormal + FloatsPerUV)\<rparr>\<rparr>;
          s1 = s0\<lparr>m_TubeMesh := (m_TubeMesh s0)\<lparr>nIndices := length I\<rparr>\<rparr>;
          r = InitializeMesh (m_TubeMesh s1) V I s1
      in (snd r)\<lparr>m_TubeMesh := fst r\<rparr>)"
  unfolding LoadTubeMesh_def Let_def
  by (simp only: closed_form case_prod_beta)

lemma LoadTubeMesh_state:
  "nVertices (m_TubeMesh (snd (LoadTubeMesh ro ri h n s))) = length (fst (fst (LoadTubeMesh ro ri h n s))) div 8 \<and>
   m_bMemoryLayoutDone (snd (LoadTubeMesh ro ri h n s)) = m_bMemoryLayoutDone s \<and>
   layoutCalls (snd (LoadTubeMesh ro ri h n s)) =
     (if m_bMemoryLayoutDone s then layoutCalls s else layoutCalls s + 1)"
  by (simp add: LoadTubeMesh_snd InitializeMesh_simps Let_def)

subsection \<open>LoadCurvedConeMesh\<close>

lemma LoadCurvedConeMesh_clamp:
  "LoadCurvedConeMesh n k r h b s = LoadCurvedConeMesh (max 3 n) (max 1 k) r h b s"
  unfolding LoadCurvedConeMesh_def by (simp only: clamp3_max clamp1_max)

lemma LoadCurvedConeMesh_ok:
  "3 \<le> n \<Longrightarrow> 1 \<le> k \<Longrightarrow>
   buffers_ok (fst (LoadCurvedConeMesh n k r h b s)) (nat (k + 1) * nat (n + 1))"
  unfolding LoadCurvedConeMesh_def buffers_ok_def Let_def
  apply (simp only: closed_form case_prod_beta)
  apply (simp only: length_simps)
  apply (rule conjI)
   apply simp
  apply simp
  apply (intro allI impI ballI conjI; (rule grid_bound', assumption, assumption, simp add: algebra_simps))
  done

lemma LoadCurvedConeMesh_snd:
  "snd (LoadCurvedConeMesh n k r h b s) =
     (let V = fst (fst (LoadCurvedConeMesh n k r h b s));
          I = snd (fst (LoadCurvedConeMesh n k r h b s));
          s0 = s\<lparr>m_CurvedConeMesh := (m_CurvedConeMesh s)\<lparr>numSlices := (if n < 3 then 3 else n)\<rparr>\<rparr>;
          s1 = s0\<lparr>m_CurvedConeMesh := (m_CurvedConeMesh s0)\<lparr>curveSteps := (if k < 1 then 1 else k)\<rparr>\<rparr>;
          r = InitializeMesh (m_CurvedConeMesh s1) V I s1
      in (snd r)\<lparr>m_CurvedConeMesh := fst r\<rparr>)"
  unfolding LoadCurvedConeMesh_def Let_def
  by (simp only: closed_form case_prod_beta)

lemma LoadCurvedConeMesh_state:
  "nVertices (m_CurvedConeMesh (snd (LoadCurvedConeMesh n k r h b s))) = length (fst (fst (LoadCurvedConeMesh n k r h b s))) div 8 \<and>
   m_bMemoryLayoutDone (snd (LoadCurvedConeMesh n k r h b s)) = m_bMemoryLayoutDone s \<and>
   layoutCalls (snd (LoadCurvedConeMesh n k r h b s)) =
     (if m_bMemoryLayoutDone s then layoutCalls s else layoutCalls s + 1)"
  by (simp add: LoadCurvedConeMesh_snd InitializeMesh_simps Let_def)

subsection \<open>DrawPartialConeMesh\<close>

lemma DrawPartialConeMesh_clamp:
  "DrawPartialConeMesh r h n arc w s = DrawPartialConeMesh r h (max 3 n) (clamp arc 0 360) w s"
  unfolding DrawPartialConeMesh_def by (simp only: clamp3_max clamp_idem)

lemma DrawPartialConeMesh_ok:
  "3 \<le> n \<Longrightarrow> buffers_ok (fst (DrawPartialConeMesh r h n arc w s)) (2 * nat (n + 1))"
  unfolding DrawPartialConeMesh_def buffers_ok_def Let_def
  apply (simp only: closed_form case_prod_beta)
  apply (simp only: length_simps)
  apply (simp add: nat_add_distrib)
  apply auto
  done

lemma DrawPartialConeMesh_snd: "snd (DrawPartialConeMesh r h n arc w s) = s"
  unfolding DrawPartialConeMesh_def Let_def
  by (simp only: closed_form case_prod_beta)

subsection \<open>DrawTaperedTorusMesh\<close>

lemma DrawTaperedTorusMesh_ok:
  "buffers_ok (fst (DrawTaperedTorusMesh R r0 r1 m n sweep s)) (nat (m + 1) * nat (n + 1))"
  unfolding DrawTaperedTorusMesh_def buffers_ok_def Let_def
  apply (simp only: closed_form case_prod_beta)
  apply (simp only: length_simps)
  apply (rule conjI)
   apply simp
  apply simp
  apply (intro allI impI ballI conjI; (rule grid_bound', assumption, assumption, simp add: algebra_simps))
  done

lemma DrawTaperedTorusMesh_snd: "snd (DrawTaperedTorusMesh R r0 r1 m n sweep s) = s"
  unfolding DrawTaperedTorusMesh_def Let_def
  by (simp only: closed_form case_prod_beta)

subsection \<open>LoadFinMesh\<close>

lemma LoadFinMesh_ok: "buffers_ok (fst (LoadFinMesh bl tpl h t s)) 24"
  unfolding LoadFinMesh_def buffers_ok_def Let_def addVertex_vec_def by simp

lemma LoadFinMesh_snd:
  "snd (LoadFinMesh bl tpl h t s) = s\<lparr>m_FinMesh := (m_FinMesh s)\<lparr>nIndices := 36\<rparr>\<rparr>"
  unfolding LoadFinMesh_def Let_def by simp

subsection \<open>LoadExtraTorusMesh1 and LoadExtraTorusMesh2\<close>

lemma ExtraTorus_values_length:
  "length (fst (ExtraTorus_values t)) = 8 * snd (ExtraTorus_values t)"
  unfolding ExtraTorus_values_def Let_def
  apply (simp only: closed_form case_prod_beta)
  apply (simp only: length_append length_concat_map_const list.size length_upto0 add_0)
  apply (rule mult_left_cong_nat)
  apply simp
  done

lemma LoadExtraTorusMesh1_ok:
  "buffers_ok (fst (LoadExtraTorusMesh1 t s)) (snd (ExtraTorus_values t))"
  unfolding LoadExtraTorusMesh1_def buffers_ok_def Let_def
  by (simp add: split_beta ExtraTorus_values_length)

lemma LoadExtraTorusMesh1_state:
  "nVertices (m_ExtraTorusMesh1 (snd (LoadExtraTorusMesh1 t s)))
     = length (fst (fst (LoadExtraTorusMesh1 t s))) div 8 \<and>
   m_bMemoryLayoutDone (snd (LoadExtraTorusMesh1 t s)) = m_bMemoryLayoutDone s \<and>
   layoutCalls (snd (LoadExtraTorusMesh1 t s)) =
     (if m_bMemoryLayoutDone s then layoutCalls s else layoutCalls s + 1)"
  unfolding LoadExtraTorusMesh1_def Let_def SetShaderMemoryLayout_def
  by (simp add: split_beta ExtraTorus_values_length)

lemma LoadExtraTorusMesh2_ok:
  "buffers_ok (fst (LoadExtraTorusMesh2 t s)) (snd (ExtraTorus_values t))"
  unfolding LoadExtraTorusMesh2_def buffers_ok_def Let_def
  by (simp add: split_beta ExtraTorus_values_length)

lemma LoadExtraTorusMesh2_state:
  "nVertices (m_ExtraTorusMesh2 (snd (LoadExtraTorusMesh2 t s)))
     = length (fst (fst (LoadExtraTorusMesh2 t s))) div 8 \<and>
   m_bMemoryLayoutDone (snd (LoadExtraTorusMesh2 t s)) = m_bMemoryLayoutDone s \<and>
   layoutCalls (snd (LoadExtraTorusMesh2 t s)) =
     (if m_bMemoryLayoutDone s then layoutCalls s else layoutCalls s + 1)"
  unfolding LoadExtraTorusMesh2_def Let_def SetShaderMemoryLayout_def
  by (simp add: split_beta ExtraTorus_values_length)

subsection \<open>DrawSineConeMesh\<close>

lemma sine_cone_positions_length:
  "length (fst (sine_cone_positions br h ff sa sf sp rs hs)) = nat (hs + 1) * nat (rs + 1)"
  unfolding sine_cone_positions_def Let_def
  apply (simp only: closed_form case_prod_beta)
  apply (simp only: length_simps)
  apply simp
  done

lemma sine_cone_pack_length: "length (sine_cone_pack P N rs hs) = 8 * length P"
  unfolding sine_cone_pack_def Let_def
  apply (simp only: closed_form case_prod_beta)
  apply (simp only: length_append length_concat_map_const list.size length_upto0)
  apply simp
  done

lemma DrawSineConeMesh_ok:
  "buffers_ok (fst (DrawSineConeMesh br h ff sa sf sp rs hs s)) (nat (hs + 1) * nat (rs + 1))"
  unfolding DrawSineConeMesh_def buffers_ok_def Let_def
  apply (simp only: closed_form for_lt_append_snd case_prod_beta sine_cone_pack_length
           sine_cone_positions_length)
  apply (rule conjI)
   apply simp
  apply simp
  apply (intro allI impI ballI conjI; (rule grid_bound', assumption, assumption, simp add: algebra_simps))
  done

lemma DrawSineConeMesh_snd: "snd (DrawSineConeMesh br h ff sa sf sp rs hs s) = s"
  unfolding DrawSineConeMesh_def Let_def
  by (simp only: closed_form for_lt_append_snd case_prod_beta)

subsection \<open>DrawSuperellipsoidMesh\<close>

lemma superellipsoid_mesh_ok:
  "3 \<le> u \<Longrightarrow> 3 \<le> v \<Longrightarrow>
   buffers_ok (fst (superellipsoid_mesh sx sy sz e1 e2 u v s)) (nat (u + 1) * nat (v + 1))"
  unfolding superellipsoid_mesh_def buffers_ok_def Let_def
  apply (simp only: closed_form case_prod_beta)
  apply (simp only: length_simps)
  apply (rule conjI)
   apply simp
  apply simp
  apply (intro allI impI ballI conjI; (rule grid_bound', assumption, assumption, simp add: algebra_simps))
  done

lemma superellipsoid_mesh_snd:
  "snd (superellipsoid_mesh sx sy sz e1 e2 u v s) =
     (let V = fst (fst (superellipsoid_mesh sx sy sz e1 e2 u v s));
          I = snd (fst (superellipsoid_mesh sx sy sz e1 e2 u v s));
          s1 = s\<lparr>m_SuperellipsoidMesh := (m_SuperellipsoidMesh s)\<lparr>nVertices := length V div 8\<rparr>\<rparr>
      in s1\<lparr>m_SuperellipsoidMesh := (m_SuperellipsoidMesh s1)\<lparr>nIndices := length I\<rparr>\<rparr>)"
  unfolding superellipsoid_mesh_def Let_def
  by (simp only: closed_form case_prod_beta)

lemma superellipsoid_mesh_state:
  "nVertices (m_SuperellipsoidMesh (snd (superellipsoid_mesh sx sy sz e1 e2 u v s)))
     = length (fst (fst (superellipsoid_mesh sx sy sz e1 e2 u v s))) div 8 \<and>
   numSlices (m_SuperellipsoidMesh (snd (superellipsoid_mesh sx sy sz e1 e2 u v s)))
     = numSlices (m_SuperellipsoidMesh s) \<and>
   m_bMemoryLayoutDone (snd (superellipsoid_mesh sx sy sz e1 e2 u v s)) = m_bMemoryLayoutDone s \<and>
   layoutCalls (snd (superellipsoid_mesh sx sy sz e1 e2 u v s)) = layoutCalls s"
  by (simp add: superellipsoid_mesh_snd Let_def)

lemma DrawSuperellipsoidMesh_eq:
  "DrawSuperellipsoidMesh sx sy sz e1 e2 u v s =
     (if INT_MAX < (max 3 u + 1) * (max 3 v + 1) * 8 then Inl UndefinedBehaviour
      else Inr (superellipsoid_mesh (if sx \<le> 0 then 0.1 else sx) (if sy \<le> 0 then 0.1 else sy)
                  (if sz \<le> 0 then 0.1 else sz) (if e1 \<le> 0 then 0.1 else e1)
                  (if e2 \<le> 0 then 0.1 else e2) (max 3 u) (max 3 v)
                  (s\<lparr>m_SuperellipsoidMesh := (m_SuperellipsoidMesh s)\<lparr>numSlices := max 3 v\<rparr>\<rparr>)))"
proof -
  have m: "(if u < 3 then 3 else u) = max 3 u" "(if v < 3 then 3 else v) = max 3 v"
    by simp_all
  show ?thesis
    unfolding DrawSuperellipsoidMesh_def Let_def by (simp only: m)
qed

lemma DrawSuperellipsoidMesh_clamp:
  "DrawSuperellipsoidMesh sx sy sz e1 e2 u v s =
   DrawSuperellipsoidMesh (if sx \<le> 0 then 0.1 else sx) (if sy \<le> 0 then 0.1 else sy)
     (if sz \<le> 0 then 0.1 else sz) (if e1 \<le> 0 then 0.1 else e1) (if e2 \<le> 0 then 0.1 else e2)
     (max 3 u) (max 3 v) s"
  by (simp only: DrawSuperellipsoidMesh_eq eps_idem max.left_idem)

lemma DrawSuperellipsoidMesh_ok:
  "DrawSuperellipsoidMesh sx sy sz e1 e2 u v s = Inr b \<Longrightarrow>
   buffers_ok (fst b) (nat (max 3 u + 1) * nat (max 3 v + 1))"
  using superellipsoid_mesh_ok [of "max 3 u" "max 3 v" "if sx \<le> 0 then 0.1 else sx"
      "if sy \<le> 0 then 0.1 else sy" "if sz \<le> 0 then 0.1 else sz" "if e1 \<le> 0 then 0.1 else e1"
      "if e2 \<le> 0 then 0.1 else e2"
      "s\<lparr>m_SuperellipsoidMesh := (m_SuperellipsoidMesh s)\<lparr>numSlices := max 3 v\<rparr>\<rparr>"]
  by (simp add: DrawSuperellipsoidMesh_eq split: if_splits)

lemma DrawSuperellipsoidMesh_state:
  "DrawSuperellipsoidMesh sx sy sz e1 e2 u v s = Inr b \<Longrightarrow>
   nVertices (m_SuperellipsoidMesh (snd b)) = length (fst (fst b)) div 8"
  using superellipsoid_mesh_state [of "if sx \<le> 0 then 0.1 else sx"
      "if sy \<le> 0 then 0.1 else sy" "if sz \<le> 0 then 0.1 else sz" "if e1 \<le> 0 then 0.1 else e1"
      "if e2 \<le> 0 then 0.1 else e2" "max 3 u" "max 3 v"
      "s\<lparr>m_SuperellipsoidMesh := (m_SuperellipsoidMesh s)\<lparr>numSlices := max 3 v\<rparr>\<rparr>"]
  by (simp add: DrawSuperellipsoidMesh_eq split: if_splits)

lemma DrawSuperellipsoidMesh_completes:
  "(max 3 u + 1) * (max 3 v + 1) * 8 \<le> INT_MAX \<Longrightarrow>
   \<exists>b. DrawSuperellipsoidMesh sx sy sz e1 e2 u v s = Inr b"
  by (simp add: DrawSuperellipsoidMesh_eq)

subsection \<open>DrawSpiralMesh\<close>

lemma spiral_ring_step_length:
  "length (fst (spiral_ring_step cs tg R up ts tstep ff tr i st)) = length (fst st) + 8 * nat ts"
  unfolding spiral_ring_step_def Let_def
  apply (simp only: closed_form case_prod_beta)
  apply (simp only: length_simps)
  apply simp
  done

lemma spiral_ring_step_indices:
  "snd (snd (snd (spiral_ring_step cs tg R up ts tstep ff tr i st))) =
     (if i = 0 then snd (snd (snd st)) @ map nat [0..ts - 1] else snd (snd (snd st)))"
  unfolding spiral_ring_step_def Let_def
  apply (simp only: closed_form case_prod_beta)
  apply (simp add: concat_map_singleton)
  done

lemma fold_ring_length:
  "length (fst (fold (spiral_ring_step cs tg R up ts tstep ff tr) xs st))
     = length (fst st) + 8 * nat ts * length xs"
  by (induction xs arbitrary: st) (simp_all add: spiral_ring_step_length algebra_simps)

lemma fold_ring_indices_unchanged:
  "0 \<notin> set xs \<Longrightarrow>
   snd (snd (snd (fold (spiral_ring_step cs tg R up ts tstep ff tr) xs st))) = snd (snd (snd st))"
  by (induction xs arbitrary: st) (simp_all add: spiral_ring_step_indices)

lemma ring_loop_length:
  "length (fst (for_lt 0 R (spiral_ring_step cs tg R' up ts tstep ff tr) st))
     = length (fst st) + 8 * nat ts * nat R"
  unfolding for_lt_def by (simp add: fold_ring_length)

lemma ring_loop_indices:
  assumes "1 \<le> R"
  shows "snd (snd (snd (for_lt 0 R (spiral_ring_step cs tg R' up ts tstep ff tr) st)))
           = snd (snd (snd st)) @ map nat [0..ts - 1]"
proof -
  have "[0..R - 1] = 0 # [1..R - 1]"
    using assms by (simp add: upto_rec1)
  then show ?thesis
    unfolding for_lt_def
    by (simp add: fold_ring_indices_unchanged spiral_ring_step_indices)
qed

lemma ge1_if_ge2: "2 \<le> R \<Longrightarrow> (1 \<le> (R::int)) = True"
  by simp

lemma rows_bound:
  assumes "0 \<le> i" "i + 1 \<le> int n + 8" "0 < ts" "k \<le> i * ts + ts - 1"
  shows "nat k < n * nat ts + 8 * nat ts"
proof -
  have "(i + 1) * ts \<le> (int n + 8) * ts"
    using assms by (intro mult_right_mono) auto
  then have "k < (int n + 8) * ts"
    using assms by (simp add: algebra_simps)
  then have "k < int (n * nat ts + 8 * nat ts)"
    using assms by (simp add: algebra_simps)
  then show ?thesis
    using assms by (cases "0 \<le> k") (simp_all add: nat_less_iff)
qed

lemma tube_bound:
  assumes "i \<in> {0..int n - 2}" "j \<in> {0..ts - 1}" "k \<le> (i + 1) * ts + ts - 1"
  shows "nat k < n * nat ts + 8 * nat ts"
  using assms by (intro rows_bound [of "i + 1"]) auto

lemma cap_bound:
  assumes "i \<in> {0..6}" "j \<in> {0..ts - 1}" "k \<le> (int n + i + 1) * ts + ts - 1"
  shows "nat k < n * nat ts + 8 * nat ts"
  using assms by (intro rows_bound [of "int n + i + 1"]) auto

lemma stitch_bound:
  assumes "j \<in> {0..ts - 1}" "k \<le> (int n + 7) * ts + ts - 1"
  shows "nat k < n * nat ts + 8 * nat ts"
  using assms by (intro rows_bound [of "int n + 7"]) auto

lemma first_ring_bound:
  assumes "j \<in> {0..ts - 1}" "k \<le> ts - 1"
  shows "nat k < n * nat ts + 8 * nat ts"
  using assms by (intro rows_bound [of 0]) auto

lemma stitch_nth:
  assumes "j \<in> {0..ts - 1}"
  shows "map nat [0..ts - 1] ! nat (c_mod (j + 1) ts) = nat (c_mod (j + 1) ts)"
  using assms by (auto simp: c_mod_succ nth_upto)

lemma spiral_buffers_ok:
  "2 \<le> int (length centers) \<Longrightarrow>
   buffers_ok (spiral_buffers centers tr ff ts tstep PI) (length centers * nat ts + 8 * nat ts)"
  unfolding spiral_buffers_def buffers_ok_def Let_def
  apply (simp only: closed_form case_prod_beta)
  apply (simp only: length_simps ring_loop_length ring_loop_indices ge1_if_ge2 simp_thms)
  apply (rule conjI)
   apply simp
  apply simp
  apply (intro ballI)
  apply (elim UnE UN_E)
    apply (simp only: insert_iff empty_iff simp_thms)
    apply (elim disjE; hypsubst; rule tube_bound, assumption, assumption,
           simp add: algebra_simps c_mod_succ)
   apply (simp only: insert_iff empty_iff simp_thms)
   apply (elim disjE; hypsubst; rule cap_bound, assumption, assumption,
          simp add: algebra_simps c_mod_succ)
  apply (simp only: insert_iff empty_iff simp_thms stitch_nth)
  apply (elim disjE; hypsubst;
         ((rule first_ring_bound, assumption, (simp add: algebra_simps c_mod_succ; fail))
          | (rule stitch_bound, assumption, (simp add: algebra_simps c_mod_succ; fail))))
  done

lemma DrawSpiralMesh_ok:
  "DrawSpiralMesh F tr ff ls nl ts ss s = Inr (b, s') \<Longrightarrow> \<exists>N. buffers_ok b N"
  unfolding DrawSpiralMesh_def Let_def
  by (auto split: if_splits option.splits intro!: exI spiral_buffers_ok)

lemma DrawSpiralMesh_snd:
  "DrawSpiralMesh F tr ff ls nl ts ss s = Inr (b, s') \<Longrightarrow> s' = s"
  unfolding DrawSpiralMesh_def Let_def
  by (auto split: if_splits option.splits)


section \<open>Properties of all generators\<close>

text \<open>Every index refers to a vertex of the vertex array emitted with it.\<close>

lemma buffers_ok_indices:
  "buffers_ok b N \<Longrightarrow> \<forall>ix\<in>set (snd b). ix < length (fst b) div 8"
  by (simp add: buffers_ok_def)

lemma LoadBoxMesh_indices:
  "\<forall>ix\<in>set (snd (fst (LoadBoxMesh s))). ix < length (fst (fst (LoadBoxMesh s))) div 8"
  by (rule buffers_ok_indices, rule LoadBoxMesh_ok)

lemma LoadConeMesh_indices:
  "\<forall>ix\<in>set (snd (fst (LoadConeMesh r h n s))). ix < length (fst (fst (LoadConeMesh r h n s))) div 8"
  apply (simp only: LoadConeMesh_clamp [of r h n s])
  apply (rule buffers_ok_indices [OF LoadConeMesh_ok])
  apply simp_all
  done

lemma LoadCylinderMesh_indices:
  "\<forall>ix\<in>set (snd (fst (LoadCylinderMesh r h n s))). ix < length (fst (fst (LoadCylinderMesh r h n s))) div 8"
  apply (simp only: LoadCylinderMesh_clamp [of r h n s])
  apply (rule buffers_ok_indices [OF LoadCylinderMesh_ok])
  apply simp_all
  done

lemma LoadPlaneMesh_indices:
  "\<forall>ix\<in>set (snd (fst (LoadPlaneMesh w h s))). ix < length (fst (fst (LoadPlaneMesh w h s))) div 8"
  by (rule buffers_ok_indices, rule LoadPlaneMesh_ok)

lemma LoadPrismMesh_indices:
  "\<forall>ix\<in>set (snd (fst (LoadPrismMesh s))). ix < length (fst (fst (LoadPrismMesh s))) div 8"
  by (rule buffers_ok_indices, rule LoadPrismMesh_ok)

lemma LoadPyramid3Mesh_indices:
  "\<forall>ix\<in>set (snd (fst (LoadPyramid3Mesh s))). ix < length (fst (fst (LoadPyramid3Mesh s))) div 8"
  by (rule buffers_ok_indices, rule LoadPyramid3Mesh_ok)

lemma LoadPyramid4Mesh_indices:
  "\<forall>ix\<in>set (snd (fst (LoadPyramid4Mesh b h s))). ix < length (fst (fst (LoadPyramid4Mesh b h s))) div 8"
  by (rule buffers_ok_indices, rule LoadPyramid4Mesh_ok)

lemma LoadSphereMesh_indices:
  "\<forall>ix\<in>set (snd (fst (LoadSphereMesh M L r s))). ix < length (fst (fst (LoadSphereMesh M L r s))) div 8"
  by (rule buffers_ok_indices, rule LoadSphereMesh_ok)

lemma LoadHemisphereMesh_indices:
  "\<forall>ix\<in>set (snd (fst (LoadHemisphereMesh M L r s))). ix < length (fst (fst (LoadHemisphereMesh M L r s))) div 8"
  by (rule buffers_ok_indices, rule LoadHemisphereMesh_ok)

lemma LoadTaperedCylinderMesh_indices:
  "LoadTaperedCylinderMesh rb rt h n s = Inr ((vertices, indices), s') \<Longrightarrow>
     \<forall>ix\<in>set indices. ix < length vertices div 8"
  using buffers_ok_indices [OF LoadTaperedCylinderMesh_ok, of rb rt h n s "((vertices, indices), s')"]
  by simp

lemma LoadTorusMesh_indices:
  "\<forall>ix\<in>set (snd (fst (LoadTorusMesh R r m n s))). ix < length (fst (fst (LoadTorusMesh R r m n s))) div 8"
  apply (simp only: LoadTorusMesh_clamp [of R r m n s])
  apply (rule buffers_ok_indices [OF LoadTorusMesh_ok])
  apply simp_all
  done

lemma LoadExtraTorusMesh1_indices:
  "\<forall>ix\<in>set (snd (fst (LoadExtraTorusMesh1 t s))). ix < length (fst (fst (LoadExtraTorusMesh1 t s))) div 8"
  by (rule buffers_ok_indices, rule LoadExtraTorusMesh1_ok)

lemma LoadExtraTorusMesh2_indices:
  "\<forall>ix\<in>set (snd (fst (LoadExtraTorusMesh2 t s))). ix < length (fst (fst (LoadExtraTorusMesh2 t s))) div 8"
  by (rule buffers_ok_indices, rule LoadExtraTorusMesh2_ok)

lemma LoadSpringMesh_indices:
  "LoadSpringMesh R r m n len s = Inr ((vertices, indices), s') \<Longrightarrow>
     \<forall>ix\<in>set indices. ix < length vertices div 8"
  using buffers_ok_indices [OF LoadSpringMesh_ok, of R r m n len s "((vertices, indices), s')"]
  by simp

lemma LoadTubeMesh_indices:
  "\<forall>ix\<in>set (snd (fst (LoadTubeMesh ro ri h n s))). ix < length (fst (fst (LoadTubeMesh ro ri h n s))) div 8"
  apply (simp only: LoadTubeMesh_clamp [of ro ri h n s])
  apply (rule buffers_ok_indices [OF LoadTubeMesh_ok])
  apply simp_all
  done

lemma LoadFinMesh_indices:
  "\<forall>ix\<in>set (snd (fst (LoadFinMesh bl tpl h t s))). ix < length (fst (fst (LoadFinMesh bl tpl h t s))) div 8"
  by (rule buffers_ok_indices, rule LoadFinMesh_ok)

lemma DrawPartialConeMesh_indices:
  "\<forall>ix\<in>set (snd (fst (DrawPartialConeMesh r h n arc w s))). ix < length (fst (fst (DrawPartialConeMesh r h n arc w s))) div 8"
  apply (simp only: DrawPartialConeMesh_clamp [of r h n arc w s])
  apply (rule buffers_ok_indices [OF DrawPartialConeMesh_ok])
  apply simp_all
  done

lemma LoadCurvedConeMesh_indices:
  "\<forall>ix\<in>set (snd (fst (LoadCurvedConeMesh n k r h b s))). ix < length (fst (fst (LoadCurvedConeMesh n k r h b s))) div 8"
  apply (simp only: LoadCurvedConeMesh_clamp [of n k r h b s])
  apply (rule buffers_ok_indices [OF LoadCurvedConeMesh_ok])
  apply simp_all
  done

lemma DrawTaperedTorusMesh_indices:
  "\<forall>ix\<in>set (snd (fst (DrawTaperedTorusMesh R r0 r1 m n sweep s))). ix < length (fst (fst (DrawTaperedTorusMesh R r0 r1 m n sweep s))) div 8"
  by (rule buffers_ok_indices, rule DrawTaperedTorusMesh_ok)

lemma DrawSineConeMesh_indices:
  "\<forall>ix\<in>set (snd (fst (DrawSineConeMesh br h ff sa sf sp rs hs s))). ix < length (fst (fst (DrawSineConeMesh br h ff sa sf sp rs hs s))) div 8"
  by (rule buffers_ok_indices, rule DrawSineConeMesh_ok)

lemma DrawSuperellipsoidMesh_indices:
  "DrawSuperellipsoidMesh sx sy sz e1 e2 u v s = Inr ((vertices, indices), s') \<Longrightarrow>
     \<forall>ix\<in>set indices. ix < length vertices div 8"
  using buffers_ok_indices [OF DrawSuperellipsoidMesh_ok, of sx sy sz e1 e2 u v s "((vertices, indices), s')"]
  by simp

lemma DrawSpiralMesh_indices:
  "DrawSpiralMesh F tr ff ls nl ts ss s = Inr ((vertices, indices), s') \<Longrightarrow>
     \<forall>ix\<in>set indices. ix < length vertices div 8"
  using DrawSpiralMesh_ok [of F tr ff ls nl ts ss s "(vertices, indices)" s']
    buffers_ok_indices [of "(vertices, indices)"]
  by auto

section \<open>Vertices by number\<close>

lemma nth_concat_blocks:
  "(\<And>x. length (f x) = n) \<Longrightarrow> i < length xs \<Longrightarrow> c < n \<Longrightarrow>
     concat (map f xs) ! (n * i + c) = f (xs ! i) ! c"
proof (induction xs arbitrary: i)
  case Nil
  then show ?case by simp
next
  case (Cons x xs)
  show ?case
  proof (cases i)
    case 0
    with Cons.prems show ?thesis by (simp add: nth_append)
  next
    case (Suc j)
    with Cons.prems have "concat (map f xs) ! (n * j + c) = f (xs ! j) ! c"
      by (intro Cons.IH) auto
    with Suc Cons.prems show ?thesis by (simp add: nth_append)
  qed
qed

lemma nth_vertex_blocks:
  assumes "\<And>x. length (f x) = 8 * m" "0 < m" "k < m * length xs" "c < 8"
  shows "concat (map f xs) ! (8 * k + c) = f (xs ! (k div m)) ! (8 * (k mod m) + c)"
proof -
  have "k = m * (k div m) + k mod m"
    by simp
  then have "8 * k = 8 * (m * (k div m) + k mod m)"
    by (rule arg_cong)
  then have eq: "8 * k + c = (8 * m) * (k div m) + (8 * (k mod m) + c)"
    by (simp only: distrib_left mult.assoc add.assoc)
  have "k div m < length xs"
    using assms by (simp add: less_mult_imp_div_less mult.commute)
  moreover have "8 * (k mod m) + c < 8 * m"
  proof -
    have "k mod m < m" using assms by simp
    then have "8 * (k mod m) + 8 \<le> 8 * m" by simp
    with assms show ?thesis by linarith
  qed
  ultimately show ?thesis
    unfolding eq using assms(1) by (intro nth_concat_blocks)
qed

text \<open>Vertex \<open>i * (L + 1) + j\<close> of a grid generated row by row.\<close>

lemma nth_vertex_grid:
  assumes len: "\<And>i j. length (f i j) = 8"
    and i: "0 \<le> i" "i \<le> M" and j: "0 \<le> j" "j \<le> L" and c: "c < 8"
  shows "concat (map (\<lambda>i. concat (map (f i) [0..L])) [0..M]) ! (8 * nat (i * (L + 1) + j) + c)
           = f i j ! c"
proof -
  let ?row = "\<lambda>i. concat (map (f i) [0..L])"
  have rowlen: "\<And>i. length (?row i) = 8 * nat (L + 1)"
    using j by (simp add: length_concat_map_const [OF len])
  have "nat (i * (L + 1) + j) = nat i * nat (L + 1) + nat j"
    using i j by (simp add: nat_add_distrib nat_mult_distrib)
  then have eq: "8 * nat (i * (L + 1) + j) + c = (8 * nat (L + 1)) * nat i + (8 * nat j + c)"
    by (simp add: algebra_simps)
  have "8 * nat j + c < 8 * nat (L + 1)"
    using j c by (simp add: nat_add_distrib)
  moreover have "nat i < length [0..M]"
    using i by simp
  ultimately have "concat (map ?row [0..M]) ! ((8 * nat (L + 1)) * nat i + (8 * nat j + c))
      = ?row ([0..M] ! nat i) ! (8 * nat j + c)"
    using rowlen by (intro nth_concat_blocks)
  also have "[0..M] ! nat i = i"
    using i by simp
  also have "?row i ! (8 * nat j + c) = f i ([0..L] ! nat j) ! c"
    using j c len by (intro nth_concat_blocks) simp_all
  also have "[0..L] ! nat j = j"
    using j by simp
  finally show ?thesis
    unfolding eq .
qed

text \<open>A table filled entry by entry.\<close>

lemma fold_tables:
  assumes "\<forall>x\<in>set xs. 0 \<le> x \<and> nat x < length a0 \<and> nat x < length b0" "0 \<le> k"
  shows "length (fst (fold (\<lambda>i p. ((fst p)[nat i := f i], (snd p)[nat i := g i])) xs (a0, b0)))
           = length a0 \<and>
         length (snd (fold (\<lambda>i p. ((fst p)[nat i := f i], (snd p)[nat i := g i])) xs (a0, b0)))
           = length b0 \<and>
         fst (fold (\<lambda>i p. ((fst p)[nat i := f i], (snd p)[nat i := g i])) xs (a0, b0)) ! nat k
           = (if k \<in> set xs then f k else a0 ! nat k) \<and>
         snd (fold (\<lambda>i p. ((fst p)[nat i := f i], (snd p)[nat i := g i])) xs (a0, b0)) ! nat k
           = (if k \<in> set xs then g k else b0 ! nat k)"
  using assms
proof (induction xs rule: rev_induct)
  case Nil
  then show ?case by simp
next
  case (snoc x xs)
  then have "0 \<le> x" by simp
  with \<open>0 \<le> k\<close> have "nat x = nat k \<longleftrightarrow> x = k" by (simp add: eq_nat_nat_iff)
  with snoc show ?case
    by (auto simp: nth_list_update)
qed

lemma for_le_tables:
  assumes "0 \<le> k" "k \<le> hi" "nat hi < length a0" "nat hi < length b0"
  shows "fst (for_le 0 hi (\<lambda>i (a, b). (a[nat i := f i], b[nat i := g i])) (a0, b0)) ! nat k = f k"
    and "snd (for_le 0 hi (\<lambda>i (a, b). (a[nat i := f i], b[nat i := g i])) (a0, b0)) ! nat k = g k"
proof -
  have "\<forall>x\<in>set [0..hi]. 0 \<le> x \<and> nat x < length a0 \<and> nat x < length b0"
  proof
    fix x assume "x \<in> set [0..hi]"
    then have "0 \<le> x" "nat x \<le> nat hi" by (simp_all add: nat_mono)
    with assms show "0 \<le> x \<and> nat x < length a0 \<and> nat x < length b0" by simp
  qed
  from fold_tables [OF this \<open>0 \<le> k\<close>, of f g] assms(1,2)
  show "fst (for_le 0 hi (\<lambda>i (a, b). (a[nat i := f i], b[nat i := g i])) (a0, b0)) ! nat k = f k"
    and "snd (for_le 0 hi (\<lambda>i (a, b). (a[nat i := f i], b[nat i := g i])) (a0, b0)) ! nat k = g k"
    unfolding for_le_def split_def by simp_all
qed

lemma buffers_ok_count: "buffers_ok b N \<Longrightarrow> length (fst b) div 8 = N"
  by (simp add: buffers_ok_def)

lemma superellipsoid_mesh_position:
  assumes u: "3 \<le> u" and v: "3 \<le> v" and i: "0 \<le> i" "i \<le> u" and j: "0 \<le> j" "j \<le> v"
  shows "vertex_position (fst (fst (superellipsoid_mesh sx sy sz e1 e2 u v s)))
           (nat (i * (v + 1) + j)) =
         (let cu = cos (- pi_f * 0.5 + real_of_int i / real_of_int u * pi_f);
              su = sin (- pi_f * 0.5 + real_of_int i / real_of_int u * pi_f);
              cv = cos (- pi_f + real_of_int j / real_of_int v * (2 * pi_f));
              sv = sin (- pi_f + real_of_int j / real_of_int v * (2 * pi_f))
          in Vec3 (sx * (sgn cu * (\<bar>cu\<bar> powr e1)) * (sgn cv * (\<bar>cv\<bar> powr e2)))
                  (sy * (sgn cu * (\<bar>cu\<bar> powr e1)) * (sgn sv * (\<bar>sv\<bar> powr e2)))
                  (sz * (sgn su * (\<bar>su\<bar> powr e1))))"
proof -
  have t: "nat u < length (replicate (nat (u + 1)) (0::real))"
    "nat v < length (replicate (nat (v + 1)) (0::real))"
    using u v by simp_all
  show ?thesis
    unfolding superellipsoid_mesh_def Let_def vertex_position_def
    apply (simp only: closed_form case_prod_beta)
    apply (subst nth_vertex_grid [where c = 0, simplified, OF _ i j], simp)
    apply (subst nth_vertex_grid [where c = 1, OF _ i j], simp, simp)
    apply (subst nth_vertex_grid [where c = 2, OF _ i j], simp, simp)
    apply (simp only: for_le_tables [OF i t(1) t(1)] for_le_tables [OF j t(2) t(2)])
    apply simp
    done
qed

lemma buffers_ok_length: "buffers_ok b N \<Longrightarrow> length (fst b) = 8 * N"
  by (simp add: buffers_ok_def)

lemma upto_small:
  "[0..0::int] = [0]" "[0..1::int] = [0, 1]" "[0..2::int] = [0, 1, 2]"
  "[0..3::int] = [0, 1, 2, 3]"
  by (simp_all add: upto_rec1)

lemma LoadConeMesh_first_ring_vertex:
  "vertex_position (fst (fst (LoadConeMesh radius height 3 s))) 1 = Vec3 radius 0 0"
  unfolding LoadConeMesh_def Let_def vertex_position_def
  apply (simp only: closed_form case_prod_beta)
  apply (simp add: upto_small)
  done

subsection \<open>Vertex counts as functions of the arguments\<close>

lemma LoadConeMesh_count:
  "length (fst (fst (LoadConeMesh r h n s))) div 8 = 3 * nat (max 3 n) + 2"
  apply (simp only: LoadConeMesh_clamp [of r h n s])
  apply (rule buffers_ok_count [OF LoadConeMesh_ok])
  apply simp
  done

lemma LoadCylinderMesh_count:
  "length (fst (fst (LoadCylinderMesh r h n s))) div 8 = 4 * nat (max 3 n) + 6"
  apply (simp only: LoadCylinderMesh_clamp [of r h n s])
  apply (rule buffers_ok_count [OF LoadCylinderMesh_ok])
  apply simp
  done

lemma LoadTubeMesh_count:
  "length (fst (fst (LoadTubeMesh ro ri h n s))) div 8 = 4 * nat (max 3 n + 1)"
  apply (simp only: LoadTubeMesh_clamp [of ro ri h n s])
  apply (rule buffers_ok_count [OF LoadTubeMesh_ok])
  apply simp
  done

lemma LoadTorusMesh_count:
  "length (fst (fst (LoadTorusMesh R r m n s))) div 8 = nat (max 3 m + 1) * nat (max 3 n + 1)"
  apply (simp only: LoadTorusMesh_clamp [of R r m n s])
  apply (rule buffers_ok_count [OF LoadTorusMesh_ok])
   apply simp_all
  done

lemma LoadCurvedConeMesh_count:
  "length (fst (fst (LoadCurvedConeMesh n k r h b s))) div 8
     = nat (max 1 k + 1) * nat (max 3 n + 1)"
  apply (simp only: LoadCurvedConeMesh_clamp [of n k r h b s])
  apply (rule buffers_ok_count [OF LoadCurvedConeMesh_ok])
   apply simp_all
  done

lemma DrawPartialConeMesh_count:
  "length (fst (fst (DrawPartialConeMesh r h n arc w s))) div 8 = 2 * nat (max 3 n + 1)"
  apply (simp only: DrawPartialConeMesh_clamp [of r h n arc w s])
  apply (rule buffers_ok_count [OF DrawPartialConeMesh_ok])
  apply simp
  done

lemma LoadTaperedCylinderMesh_count:
  "LoadTaperedCylinderMesh rb rt h n s = Inr b \<Longrightarrow>
   length (fst (fst b)) div 8 = 4 * nat (max 3 n) + 2"
  by (rule buffers_ok_count [OF LoadTaperedCylinderMesh_ok])

lemma LoadSpringMesh_count:
  "LoadSpringMesh R r m n len s = Inr b \<Longrightarrow>
   length (fst (fst b)) div 8 = nat (max 1 m * max 8 n + 1) * nat (max 8 n + 1)"
  by (rule buffers_ok_count [OF LoadSpringMesh_ok])

lemma DrawSuperellipsoidMesh_count:
  "DrawSuperellipsoidMesh sx sy sz e1 e2 u v s = Inr b \<Longrightarrow>
   length (fst (fst b)) div 8 = nat (max 3 u + 1) * nat (max 3 v + 1)"
  by (rule buffers_ok_count [OF DrawSuperellipsoidMesh_ok])

subsection \<open>Positions that show the clamped radius, arc, scales and exponents\<close>

lemma LoadTorusMesh_position:
  assumes i: "0 \<le> i" "i \<le> max 3 m" and j: "0 \<le> j" "j \<le> max 3 n"
  shows "vertex_position (fst (fst (LoadTorusMesh R r m n s))) (nat (i * (max 3 n + 1) + j)) =
         (let mainAngle = real_of_int i * (2 * Pi / real_of_int (max 3 m));
              tubeAngle = real_of_int j * (2 * Pi / real_of_int (max 3 n))
          in Vec3 ((R + max 0.01 r * cos tubeAngle) * cos mainAngle)
                  ((R + max 0.01 r * cos tubeAngle) * sin mainAngle)
                  (max 0.01 r * sin tubeAngle))"
  unfolding LoadTorusMesh_def Let_def vertex_position_def
  apply (simp only: closed_form case_prod_beta)
  apply (subst nth_vertex_grid [where c = 0, simplified, OF _ i j], simp)
  apply (subst nth_vertex_grid [where c = 1, OF _ i j], simp, simp)
  apply (subst nth_vertex_grid [where c = 2, OF _ i j], simp, simp)
  apply simp
  done

lemma LoadTorusMesh_first_vertex:
  "vertex_position (fst (fst (LoadTorusMesh R r m n s))) 0 = Vec3 (R + max 0.01 r) 0 0"
  using LoadTorusMesh_position [of 0 m 0 n R r s] by simp

lemma DrawPartialConeMesh_rim:
  assumes i: "0 \<le> i" "i \<le> max 3 n"
  shows "vertex_position (fst (fst (DrawPartialConeMesh r h n arc w s))) (2 * nat i) =
         (let arcRadians = radians (clamp arc 0 360);
              angle = - (arcRadians * 0.5) + real_of_int i * (arcRadians / real_of_int (max 3 n))
          in Vec3 (r * cos angle) 0 (r * sin angle))"
proof -
  have len: "2 * nat i < 2 * length [0..max 3 n]" using i by simp
  have m: "(if n < 3 then 3 else n) = max 3 n" by simp
  have ix: "[0..max 3 n] ! nat i = i" using i by simp
  show ?thesis
    unfolding DrawPartialConeMesh_def Let_def vertex_position_def
    apply (simp only: closed_form case_prod_beta m)
    apply (subst nth_vertex_blocks [where m = 2 and c = 0, simplified, OF _ len], simp)
    apply (subst nth_vertex_blocks [where m = 2 and c = 1, OF _ _ len], simp, simp, simp)
    apply (subst nth_vertex_blocks [where m = 2 and c = 2, OF _ _ len], simp, simp, simp)
    apply (simp add: ix)
    done
qed

lemma DrawPartialConeMesh_first_vertex:
  "vertex_position (fst (fst (DrawPartialConeMesh r h n arc w s))) 0 =
     Vec3 (r * cos (- (radians (clamp arc 0 360) * 0.5))) 0
          (r * sin (- (radians (clamp arc 0 360) * 0.5)))"
  using DrawPartialConeMesh_rim [of 0 n r h arc w s] by (simp add: Let_def)

lemma DrawSuperellipsoidMesh_position:
  assumes "DrawSuperellipsoidMesh sx sy sz e1 e2 u v s = Inr b"
    and i: "0 \<le> i" "i \<le> max 3 u" and j: "0 \<le> j" "j \<le> max 3 v"
  shows "vertex_position (fst (fst b)) (nat (i * (max 3 v + 1) + j)) =
         (let scaleX = (if sx \<le> 0 then 0.1 else sx);
              scaleY = (if sy \<le> 0 then 0.1 else sy);
              scaleZ = (if sz \<le> 0 then 0.1 else sz);
              verticalExponent = (if e1 \<le> 0 then 0.1 else e1);
              horizontalExponent = (if e2 \<le> 0 then 0.1 else e2);
              cu = cos (- pi_f * 0.5 + real_of_int i / real_of_int (max 3 u) * pi_f);
              su = sin (- pi_f * 0.5 + real_of_int i / real_of_int (max 3 u) * pi_f);
              cv = cos (- pi_f + real_of_int j / real_of_int (max 3 v) * (2 * pi_f));
              sv = sin (- pi_f + real_of_int j / real_of_int (max 3 v) * (2 * pi_f))
          in Vec3 (scaleX * (sgn cu * (\<bar>cu\<bar> powr verticalExponent))
                          * (sgn cv * (\<bar>cv\<bar> powr horizontalExponent)))
                  (scaleY * (sgn cu * (\<bar>cu\<bar> powr verticalExponent))
                          * (sgn sv * (\<bar>sv\<bar> powr horizontalExponent)))
                  (scaleZ * (sgn su * (\<bar>su\<bar> powr verticalExponent))))"
proof -
  from assms(1) have b: "b = superellipsoid_mesh (if sx \<le> 0 then 0.1 else sx)
      (if sy \<le> 0 then 0.1 else sy) (if sz \<le> 0 then 0.1 else sz) (if e1 \<le> 0 then 0.1 else e1)
      (if e2 \<le> 0 then 0.1 else e2) (max 3 u) (max 3 v)
      (s\<lparr>m_SuperellipsoidMesh := (m_SuperellipsoidMesh s)\<lparr>numSlices := max 3 v\<rparr>\<rparr>)"
    by (simp add: DrawSuperellipsoidMesh_eq split: if_splits)
  show ?thesis
    unfolding b Let_def
    using superellipsoid_mesh_position [OF _ _ i j, of "if sx \<le> 0 then 0.1 else sx"
      "if sy \<le> 0 then 0.1 else sy" "if sz \<le> 0 then 0.1 else sz" "if e1 \<le> 0 then 0.1 else e1"
      "if e2 \<le> 0 then 0.1 else e2"
      "s\<lparr>m_SuperellipsoidMesh := (m_SuperellipsoidMesh s)\<lparr>numSlices := max 3 v\<rparr>\<rparr>"]
    unfolding Let_def by simp
qed

lemma LoadTaperedCylinderMesh_completes_iff:
  "(\<exists>b. LoadTaperedCylinderMesh rb rt h n s = Inr b)
     \<longleftrightarrow> (2 * (max 3 n + 1) + 2 * max 3 n) * 8 \<le> INT_MAX"
proof (cases "INT_MAX < (2 * (max 3 n + 1) + 2 * max 3 n) * 8")
  case True
  then show ?thesis by (simp only: LoadTaperedCylinderMesh_eq) simp
next
  case False
  then have "LoadTaperedCylinderMesh rb rt h n s = Inr (tapered_cylinder_mesh rb rt h (max 3 n)
      (s\<lparr>m_TaperedCylinderMesh := (m_TaperedCylinderMesh s)\<lparr>numSlices := max 3 n\<rparr>\<rparr>))"
    by (simp only: LoadTaperedCylinderMesh_eq if_False)
  with False show ?thesis by (simp only: not_less) blast
qed

lemma LoadSpringMesh_completes_iff:
  "(\<exists>b. LoadSpringMesh R r m n len s = Inr b) \<longleftrightarrow> max 1 m * max 8 n \<le> INT_MAX"
proof (cases "INT_MAX < max 1 m * max 8 n")
  case True
  then show ?thesis by (simp only: LoadSpringMesh_eq) simp
next
  case False
  then have "LoadSpringMesh R r m n len s = Inr (spring_mesh R r (max 1 m) (max 8 n) len s)"
    by (simp only: LoadSpringMesh_eq if_False)
  with False show ?thesis by (simp only: not_less) blast
qed

lemma DrawSuperellipsoidMesh_completes_iff:
  "(\<exists>b. DrawSuperellipsoidMesh sx sy sz e1 e2 u v s = Inr b)
     \<longleftrightarrow> (max 3 u + 1) * (max 3 v + 1) * 8 \<le> INT_MAX"
proof (cases "INT_MAX < (max 3 u + 1) * (max 3 v + 1) * 8")
  case True
  then show ?thesis by (simp only: DrawSuperellipsoidMesh_eq) simp
next
  case False
  then have "\<exists>b. DrawSuperellipsoidMesh sx sy sz e1 e2 u v s = Inr b"
    by (simp only: DrawSuperellipsoidMesh_eq if_False) blast
  with False show ?thesis by simp
qed

lemma exact_arithmetic_simps:
  "f_of_real exact_arithmetic x = x"
  "f_of_int exact_arithmetic k = real_of_int k"
  "f_mul exact_arithmetic x y = x * y"
  "f_div exact_arithmetic x y = x / y"
  "f_gt exact_arithmetic x y \<longleftrightarrow> y < x"
  "f_to_int exact_arithmetic x =
     (if - 2147483649 < x \<and> x < 2147483648 then Some (float_to_int x) else None)"
  "f_val exact_arithmetic x = x"
  by (simp_all add: exact_arithmetic_def)

lemma spiral_centers_one_loop:
  "length (spiral_centers exact_arithmetic 1 (2 * pi_f) (pi_f / 2) pi_f 2 4) = 3"
  unfolding spiral_centers_def for_le_def Let_def exact_arithmetic_simps
  by (simp add: upto_rec1 pi_f_def)

lemma DrawSpiralMesh_one_loop:
  "DrawSpiralMesh exact_arithmetic 1 0 1 1 3 4 s =
     Inr (spiral_buffers (spiral_centers exact_arithmetic 1 (2 * pi_f) (pi_f / 2) pi_f 2 4)
            1 0 3 (2 * pi_f / 3) pi_f, s)"
proof -
  have a: "1 * 2 * pi_f = 2 * pi_f" "2 * pi_f / real_of_int 4 = pi_f / 2"
    "real_of_int 3 = 3"
    by simp_all
  have b: "pi_f / (pi_f / 2) = 2"
    by (simp add: pi_f_def)
  have c: "(if - 2147483649 < (2::real) \<and> (2::real) < 2147483648
            then Some (float_to_int 2) else None) = Some 2"
    by (simp add: float_to_int_def)
  show ?thesis
    unfolding DrawSpiralMesh_def Let_def exact_arithmetic_simps
    by (simp only: a b c option.case spiral_centers_one_loop) simp
qed

lemma buffer_bytes_div: "buffer_bytes verts div (8 * sizeof_GLfloat) = length verts div 8"
  by (simp add: buffer_bytes_def sizeof_GLfloat_def)

lemma mod4_cases: "(k::nat) mod 4 = 0 \<or> k mod 4 = 1 \<or> k mod 4 = 2 \<or> k mod 4 = 3"
  by presburger

lemma LoadTubeMesh_vertex:
  assumes "3 \<le> n" "k < 4 * nat (n + 1)"
  shows "vertex_normal (fst (fst (LoadTubeMesh ro ri h n s))) k
           = (if even k then Vec3 0 (- 1) 0 else Vec3 0 1 0) \<and>
         vy (vertex_position (fst (fst (LoadTubeMesh ro ri h n s))) k) = (if even k then 0 else h)"
proof -
  have len: "k < 4 * length [0..n]" using assms by simp
  have n3: "(n < 3) = False" using assms by simp
  have ev: "even k \<longleftrightarrow> k mod 4 = 0 \<or> k mod 4 = 2" by presburger
  show ?thesis
    unfolding LoadTubeMesh_def Let_def vertex_normal_def vertex_position_def
    apply (simp only: closed_form case_prod_beta n3 if_False)
    apply (subst nth_vertex_blocks [where m = 4 and c = 1, OF _ _ len], simp, simp, simp)
    apply (subst nth_vertex_blocks [where m = 4 and c = 3, OF _ _ len], simp, simp, simp)
    apply (subst nth_vertex_blocks [where m = 4 and c = 4, OF _ _ len], simp, simp, simp)
    apply (subst nth_vertex_blocks [where m = 4 and c = 5, OF _ _ len], simp, simp, simp)
    using mod4_cases [of k] apply (auto simp: ev)
    done
qed

lemma triangles_blocks:
  "triangles (concat (map (\<lambda>i. [a i, b i, c i, d i, e i, f i]) xs))
     = concat (map (\<lambda>i. [(a i, b i, c i), (d i, e i, f i)]) xs)"
  by (induction xs) simp_all

lemma DrawPartialConeMesh_triangles:
  "triangles (snd (fst (DrawPartialConeMesh r h n arc w s)))
     = concat (map (\<lambda>i. [(nat (2 * i), nat (2 * (i + 1) + 1), nat (2 * i + 1)),
                           (nat (2 * i), nat (2 * (i + 1)), nat (2 * (i + 1) + 1))])
                 [0..max 3 n - 1])"
proof -
  have m: "(if n < 3 then 3 else n) = max 3 n" by simp
  show ?thesis
    unfolding DrawPartialConeMesh_def Let_def
    apply (simp only: closed_form case_prod_beta m append_Cons)
    apply (rule triangles_blocks)
    done
qed

lemma DrawPartialConeMesh_column_u:
  assumes "ix < 2 * nat (max 3 n + 1)"
  shows "vertex_u (fst (fst (DrawPartialConeMesh r h n arc w s))) ix
           = real (partial_cone_column ix) / real_of_int (max 3 n)"
proof -
  have len: "ix < 2 * length [0..max 3 n]" using assms by simp
  have m: "(if n < 3 then 3 else n) = max 3 n" by simp
  have "ix mod 2 = 0 \<or> ix mod 2 = 1" by presburger
  then show ?thesis
    unfolding DrawPartialConeMesh_def Let_def vertex_u_def partial_cone_column_def
    apply (simp only: closed_form case_prod_beta m)
    apply (subst nth_vertex_blocks [where m = 2 and c = 6, OF _ _ len], simp, simp, simp)
    using len apply auto
    done
qed

subsection \<open>The tip of the sine cone\<close>

lemma sine_cone_positions_3_1:
  "length (fst (sine_cone_positions br h ff sa sf sp 3 1)) = 8"
  "length (snd (sine_cone_positions br h ff sa sf sp 3 1)) = 8"
  "snd (sine_cone_positions br h ff sa sf sp 3 1) ! 7 = Vec3 0 0 0"
  "fst (sine_cone_positions br h ff sa sf sp 3 1) ! 6 = Vec3 h (sa * sin (sf * 2 * pi_f + sp)) 0"
  "fst (sine_cone_positions br h ff sa sf sp 3 1) ! 7 = Vec3 h (sa * sin (sf * 2 * pi_f + sp)) 0"
  unfolding sine_cone_positions_def Let_def
  by (simp_all only: closed_form case_prod_beta) (simp_all add: upto_small vscale_def)

lemma sine_cone_accumulate_3_1:
  assumes "length N0 = 8"
  shows "for_lt 0 1 (\<lambda>i. for_lt 0 3 (\<lambda>j. sine_cone_accumulate P
            (i * (3 + 1) + j) ((i + 1) * (3 + 1) + j) (i * (3 + 1) + j + 1)
            ((i + 1) * (3 + 1) + j + 1))) N0 ! 7
         = N0 ! 7 + vscale (cross (P ! 7 - P ! 3) (P ! 6 - P ! 3))
                      (vlength (cross (P ! 7 - P ! 3) (P ! 6 - P ! 3)))"
  unfolding for_lt_def
  using assms by (simp add: upto_small sine_cone_accumulate_def Let_def)

lemma sine_cone_pack_normal:
  assumes "k < length P"
  shows "vertex_normal (sine_cone_pack P N rs hs) k = normalize (N ! k)"
proof -
  have len: "k < 1 * length [0..int (length P) - 1]" using assms by simp
  have ix: "[0..int (length P) - 1] ! k = int k" using assms by simp
  show ?thesis
    unfolding sine_cone_pack_def Let_def vertex_normal_def
    apply (simp only: closed_form case_prod_beta)
    apply (subst nth_vertex_blocks [where m = 1 and c = 3, OF _ _ len], simp, simp, simp)
    apply (subst nth_vertex_blocks [where m = 1 and c = 4, OF _ _ len], simp, simp, simp)
    apply (subst nth_vertex_blocks [where m = 1 and c = 5, OF _ _ len], simp, simp, simp)
    apply (simp add: ix)
    done
qed

lemma cross_self: "cross a a = Vec3 0 0 0"
  by (simp add: cross_def)

lemma sine_cone_tip_normal:
  "vertex_normal (fst (fst (DrawSineConeMesh br h ff sa sf sp 3 1 s))) 7 = Vec3 0 0 0"
  unfolding DrawSineConeMesh_def Let_def
  apply (simp only: closed_form for_lt_append_snd case_prod_beta)
  apply (subst sine_cone_pack_normal)
   apply (simp add: sine_cone_positions_3_1)
  apply (simp only: sine_cone_accumulate_3_1 [OF sine_cone_positions_3_1(2)])
  apply (simp add: sine_cone_positions_3_1 cross_self vscale_def plus_vec3_def normalize_def)
  done

lemma sine_cone_count_3_1:
  "length (fst (fst (DrawSineConeMesh br h ff sa sf sp 3 1 s))) div 8 = 8"
  using DrawSineConeMesh_ok [of br h ff sa sf sp 3 1 s] by (simp add: buffers_ok_def)

subsection \<open>The seam of the sphere\<close>













subsection \<open>The first vertex of the extra tori\<close>

text \<open>A loop that only appends to the first component of its state keeps what the first
  iteration put there.\<close>

lemma fold_fst_prefix:
  assumes "\<And>x a. \<exists>ys. fst (f x a) = fst a @ ys"
  shows "\<exists>ys. fst (fold f xs a) = fst a @ ys"
proof (induction xs arbitrary: a)
  case Nil
  show ?case by simp
next
  case (Cons x xs)
  obtain ys where ys: "fst (f x a) = fst a @ ys" using assms by blast
  obtain zs where "fst (fold f xs (f x a)) = fst (f x a) @ zs" using Cons by blast
  with ys show ?case by simp
qed

lemma for_lt_fst_prefix:
  assumes "\<And>x a. \<exists>ys. fst (f x a) = fst a @ ys"
  shows "\<exists>ys. fst (for_lt lo hi f a) = fst a @ ys"
  unfolding for_lt_def using assms by (rule fold_fst_prefix)

lemma for_lt_first:
  assumes "\<And>x a. \<exists>ys. fst (f x a) = fst a @ ys" and "n < length (fst (f lo a))" and "lo < hi"
  shows "fst (for_lt lo hi f a) ! n = fst (f lo a) ! n"
    and "n < length (fst (for_lt lo hi f a))"
proof -
  have "[lo..hi - 1] = lo # [lo + 1..hi - 1]"
    using assms(3) by (simp add: upto_rec1)
  then have eq: "for_lt lo hi f a = fold f [lo + 1..hi - 1] (f lo a)"
    unfolding for_lt_def by simp
  obtain ys where "fst (fold f [lo + 1..hi - 1] (f lo a)) = fst (f lo a) @ ys"
    using fold_fst_prefix [of f "[lo + 1..hi - 1]" "f lo a", OF assms(1)] by blast
  with assms(2) show "fst (for_lt lo hi f a) ! n = fst (f lo a) ! n"
    and "n < length (fst (for_lt lo hi f a))"
    unfolding eq by (simp_all add: nth_append)
qed

lemma ExtraTorus_segments_first: "ExtraTorus_segments r ! 0 ! 0 = Vec3 (1 + r) 0 0"
  unfolding ExtraTorus_segments_def Let_def split_def
  apply (subst for_lt_first(1))
     apply simp
    apply simp
   apply simp
  apply (simp only: fst_conv snd_conv append_Nil nth_Cons_0)
  apply (subst for_lt_first(1))
     apply simp
    apply simp
   apply simp
  apply simp
  done

lemma fst_case4: "fst (case p of (a, b, c, d) \<Rightarrow> (a, F b c d)) = fst p"
  by (cases p) simp

lemma fst_case2: "fst (case p of (a, b) \<Rightarrow> (a, F a b)) = fst p"
  by (cases p) simp

lemma for_lt_fst_prefix':
  assumes "\<And>x a. \<exists>ys. fst (f x a) = fst a @ ys" and "fst a = v"
  shows "\<exists>ys. fst (for_lt lo hi f a) = v @ ys"
  using for_lt_fst_prefix [of f lo hi a, OF assms(1)] assms(2) by simp

lemma ExtraTorus_triangles_first:
  "fst (ExtraTorus_triangles S) ! 0 = S ! 0 ! 0"
  unfolding ExtraTorus_triangles_def Let_def
  apply (simp only: fst_case4)
  apply (subst for_lt_first(1))
     apply (simp only: split_paired_all prod.case fst_conv fst_case4)
     apply (rule for_lt_fst_prefix')
      apply (simp only: split_paired_all prod.case fst_conv fst_case4)
      apply simp
     apply simp
    apply (simp only: prod.case fst_case4)
    apply (rule for_lt_first(2))
      apply (simp only: split_paired_all prod.case fst_conv fst_case4)
      apply simp
     apply simp
    apply simp
   apply simp
  apply (simp only: prod.case fst_case4)
  apply (subst for_lt_first(1))
     apply (simp only: split_paired_all prod.case fst_conv fst_case4)
     apply simp
    apply simp
   apply simp
  apply simp
  done

lemma ExtraTorus_triangles_nonempty: "0 < length (fst (ExtraTorus_triangles S))"
  unfolding ExtraTorus_triangles_def Let_def
  apply (simp only: fst_case4)
  apply (rule for_lt_first(2))
    apply (simp only: split_paired_all prod.case fst_conv fst_case4)
    apply (rule for_lt_fst_prefix')
     apply (simp only: split_paired_all prod.case fst_conv fst_case4)
     apply simp
    apply simp
   apply (simp only: prod.case fst_case4)
   apply (rule for_lt_first(2))
     apply (simp only: split_paired_all prod.case fst_conv fst_case4)
     apply simp
    apply simp
   apply simp
  apply simp
  done

lemma ExtraTorus_values_clamp:
  "ExtraTorus_values t = ExtraTorus_values (if t \<le> 1 then t else 0.1)"
  unfolding ExtraTorus_values_def Let_def by simp

lemma nth_vertex_single:
  assumes "\<And>x. length (f x) = 8" and "k < length xs" and "c < 8"
  shows "concat (map f xs) ! (8 * k + c) = f (xs ! k) ! c"
  using nth_vertex_blocks [where m = 1 and f = f and k = k and xs = xs and c = c] assms
  by simp

lemma ExtraTorus_values_first_vertex:
  "vertex_position (fst (ExtraTorus_values t)) 0 = Vec3 (1 + (if t \<le> 1 then t else 0.1)) 0 0"
proof -
  let ?V = "fst (ExtraTorus_triangles (ExtraTorus_segments (if t \<le> 1 then t else 1 / 10)))"
  have len: "0 < length [0..int (length ?V) - 1]"
    using ExtraTorus_triangles_nonempty [of "ExtraTorus_segments (if t \<le> 1 then t else 1 / 10)"]
    by simp
  have ix: "[0..int (length ?V) - 1] ! 0 = 0"
    using ExtraTorus_triangles_nonempty [of "ExtraTorus_segments (if t \<le> 1 then t else 1 / 10)"]
    by (simp add: upto_rec1)
  show ?thesis
    unfolding ExtraTorus_values_def Let_def vertex_position_def
    apply (simp only: closed_form case_prod_beta)
    apply (subst nth_vertex_single [where c = 0, simplified, OF _ len], simp)
    apply (subst nth_vertex_single [where c = 1, OF _ len], simp, simp)
    apply (subst nth_vertex_single [where c = 2, OF _ len], simp, simp)
    apply (simp add: ix ExtraTorus_triangles_first ExtraTorus_segments_first)
    done
qed

lemma LoadExtraTorusMesh1_clamp:
  "LoadExtraTorusMesh1 t s = LoadExtraTorusMesh1 (if t \<le> 1 then t else 0.1) s"
  unfolding LoadExtraTorusMesh1_def by (subst ExtraTorus_values_clamp) (rule refl)

lemma LoadExtraTorusMesh2_clamp:
  "LoadExtraTorusMesh2 t s = LoadExtraTorusMesh2 (if t \<le> 1 then t else 0.1) s"
  unfolding LoadExtraTorusMesh2_def by (subst ExtraTorus_values_clamp) (rule refl)

lemma LoadExtraTorusMesh1_first_vertex:
  "vertex_position (fst (fst (LoadExtraTorusMesh1 t s))) 0
     = Vec3 (1 + (if t \<le> 1 then t else 0.1)) 0 0"
  using ExtraTorus_values_first_vertex [of t]
  unfolding LoadExtraTorusMesh1_def Let_def by (simp add: split_beta)

lemma LoadExtraTorusMesh2_first_vertex:
  "vertex_position (fst (fst (LoadExtraTorusMesh2 t s))) 0
     = Vec3 (1 + (if t \<le> 1 then t else 0.1)) 0 0"
  using ExtraTorus_values_first_vertex [of t]
  unfolding LoadExtraTorusMesh2_def Let_def by (simp add: split_beta)

section \<open>Claims\<close>

text \<open>
  C1. Whatever generator is called, with whatever arguments, in whatever state of the object
  and whatever the single-precision operations compute, if the call completes without
  undefined behaviour then every value of the index array it emits is strictly less than
  the number of vertices of the vertex array it emits, which is the number of interleaved
  floats divided by 8.
\<close>

theorem C1_indices_below_vertex_count:
  assumes "generate F c s = Inr ((vertices, indices), s')"
  shows "\<forall>ix\<in>set indices. ix < length vertices div 8"
proof (cases c)
  case CallLoadBoxMesh
  with assms LoadBoxMesh_indices [of s] show ?thesis
    by simp
next
  case (CallLoadConeMesh r h n)
  with assms LoadConeMesh_indices [of r h n s] show ?thesis
    by simp
next
  case (CallLoadCylinderMesh r h n)
  with assms LoadCylinderMesh_indices [of r h n s] show ?thesis
    by simp
next
  case (CallLoadPlaneMesh w h)
  with assms LoadPlaneMesh_indices [of w h s] show ?thesis
    by simp
next
  case CallLoadPrismMesh
  with assms LoadPrismMesh_indices [of s] show ?thesis
    by simp
next
  case CallLoadPyramid3Mesh
  with assms LoadPyramid3Mesh_indices [of s] show ?thesis
    by simp
next
  case (CallLoadPyramid4Mesh b h)
  with assms LoadPyramid4Mesh_indices [of b h s] show ?thesis
    by simp
next
  case (CallLoadSphereMesh M L r)
  with assms LoadSphereMesh_indices [of M L r s] show ?thesis
    by simp
next
  case (CallLoadHemisphereMesh M L r)
  with assms LoadHemisphereMesh_indices [of M L r s] show ?thesis
    by simp
next
  case (CallLoadTaperedCylinderMesh rb rt h n)
  with assms show ?thesis
    by (simp add: LoadTaperedCylinderMesh_indices)
next
  case (CallLoadTorusMesh R r m n)
  with assms LoadTorusMesh_indices [of R r m n s] show ?thesis
    by simp
next
  case (CallLoadExtraTorusMesh1 t)
  with assms LoadExtraTorusMesh1_indices [of t s] show ?thesis
    by simp
next
  case (CallLoadExtraTorusMesh2 t)
  with assms LoadExtraTorusMesh2_indices [of t s] show ?thesis
    by simp
next
  case (CallLoadSpringMesh R r m n len)
  with assms show ?thesis
    by (simp add: LoadSpringMesh_indices)
next
  case (CallLoadTubeMesh ro ri h n)
  with assms LoadTubeMesh_indices [of ro ri h n s] show ?thesis
    by simp
next
  case (CallLoadFinMesh bl tpl h t)
  with assms LoadFinMesh_indices [of bl tpl h t s] show ?thesis
    by simp
next
  case (CallDrawPartialConeMesh r h n arc w)
  with assms DrawPartialConeMesh_indices [of r h n arc w s] show ?thesis
    by simp
next
  case (CallLoadCurvedConeMesh n k r h b)
  with assms LoadCurvedConeMesh_indices [of n k r h b s] show ?thesis
    by simp
next
  case (CallDrawTaperedTorusMesh R r0 r1 m n sweep)
  with assms DrawTaperedTorusMesh_indices [of R r0 r1 m n sweep s] show ?thesis
    by simp
next
  case (CallDrawSpiralMesh tr ff ls nl ts ss)
  with assms show ?thesis
    by (simp add: DrawSpiralMesh_indices)
next
  case (CallDrawSineConeMesh br h ff sa sf sp rs hs)
  with assms DrawSineConeMesh_indices [of br h ff sa sf sp rs hs s] show ?thesis
    by simp
next
  case (CallDrawSuperellipsoidMesh sx sy sz e1 e2 u v)
  with assms show ?thesis
    by (simp add: DrawSuperellipsoidMesh_indices)
qed

text \<open>The plane: its last index is 3, and it has 4 vertices.\<close>

theorem C1_plane_witness:
  "snd (fst (LoadPlaneMesh 2 3 ShapeMeshes_init)) ! 5 = 3 \<and>
   length (fst (fst (LoadPlaneMesh 2 3 ShapeMeshes_init))) div 8 = 4 \<and>
   snd (fst (LoadPlaneMesh 2 3 ShapeMeshes_init)) ! 5
     < length (fst (fst (LoadPlaneMesh 2 3 ShapeMeshes_init))) div 8"
  using C1_indices_below_vertex_count [of exact_arithmetic "CallLoadPlaneMesh 2 3"
    ShapeMeshes_init "fst (fst (LoadPlaneMesh 2 3 ShapeMeshes_init))"
    "snd (fst (LoadPlaneMesh 2 3 ShapeMeshes_init))"
    "snd (LoadPlaneMesh 2 3 ShapeMeshes_init)"]
  by (simp add: LoadPlaneMesh_def state_defs)

text \<open>
  C2, as stated, fails. \<open>LoadSphereMesh\<close> adjusts none of its arguments: with 2 by 2 segments
  it emits 9 vertices, not the 16 of the 3 by 3 sphere that clamping to 3 would give.
  \<open>LoadConeMesh\<close> uses its radius as given: with radius \<open>-1\<close> the first vertex of the bottom
  ring is \<open>(-1, 0, 0)\<close>. \<open>LoadSpringMesh\<close> keeps a main segment count of 1 (81 vertices with
  8 tube segments, where 3 main segments give 225), and \<open>LoadCurvedConeMesh\<close> keeps a curve
  step count of 1 (8 vertices with 3 slices, where 3 steps give 16).
\<close>

theorem C2_counterexample:
  "length (fst (fst (LoadSphereMesh 2 2 1 ShapeMeshes_init))) div 8 = 9 \<and>
   length (fst (fst (LoadSphereMesh 3 3 1 ShapeMeshes_init))) div 8 = 16 \<and>
   fst (LoadSphereMesh 2 2 1 ShapeMeshes_init) \<noteq> fst (LoadSphereMesh 3 3 1 ShapeMeshes_init) \<and>
   vertex_position (fst (fst (LoadConeMesh (- 1) 1 3 ShapeMeshes_init))) 1 = Vec3 (- 1) 0 0 \<and>
   LoadSpringMesh 1 1 1 8 1 ShapeMeshes_init = Inr (spring_mesh 1 1 1 8 1 ShapeMeshes_init) \<and>
   length (fst (fst (spring_mesh 1 1 1 8 1 ShapeMeshes_init))) div 8 = 81 \<and>
   LoadSpringMesh 1 1 3 8 1 ShapeMeshes_init = Inr (spring_mesh 1 1 3 8 1 ShapeMeshes_init) \<and>
   length (fst (fst (spring_mesh 1 1 3 8 1 ShapeMeshes_init))) div 8 = 225 \<and>
   length (fst (fst (LoadCurvedConeMesh 3 1 1 1 1 ShapeMeshes_init))) div 8 = 8 \<and>
   length (fst (fst (LoadCurvedConeMesh 3 3 1 1 1 ShapeMeshes_init))) div 8 = 16"
proof -
  have a: "length (fst (fst (LoadSphereMesh 2 2 1 ShapeMeshes_init))) = 72"
    using buffers_ok_length [OF LoadSphereMesh_ok [of 2 2 1 ShapeMeshes_init]] by simp
  have b: "length (fst (fst (LoadSphereMesh 3 3 1 ShapeMeshes_init))) = 128"
    using buffers_ok_length [OF LoadSphereMesh_ok [of 3 3 1 ShapeMeshes_init]] by simp
  from a b have c: "fst (LoadSphereMesh 2 2 1 ShapeMeshes_init) \<noteq> fst (LoadSphereMesh 3 3 1 ShapeMeshes_init)"
    by auto
  have d: "vertex_position (fst (fst (LoadConeMesh (- 1) 1 3 ShapeMeshes_init))) 1 = Vec3 (- 1) 0 0"
    by (rule LoadConeMesh_first_ring_vertex)
  have e: "LoadSpringMesh 1 1 1 8 1 ShapeMeshes_init = Inr (spring_mesh 1 1 1 8 1 ShapeMeshes_init)"
    "LoadSpringMesh 1 1 3 8 1 ShapeMeshes_init = Inr (spring_mesh 1 1 3 8 1 ShapeMeshes_init)"
    by (simp_all add: LoadSpringMesh_eq INT_MAX_def)
  have f: "length (fst (fst (spring_mesh 1 1 1 8 1 ShapeMeshes_init))) div 8 = 81"
    "length (fst (fst (spring_mesh 1 1 3 8 1 ShapeMeshes_init))) div 8 = 225"
    using buffers_ok_count [OF spring_mesh_ok [of 1 8 1 1 1 ShapeMeshes_init]]
      buffers_ok_count [OF spring_mesh_ok [of 3 8 1 1 1 ShapeMeshes_init]]
    by simp_all
  have g: "length (fst (fst (LoadCurvedConeMesh 3 1 1 1 1 ShapeMeshes_init))) div 8 = 8"
    "length (fst (fst (LoadCurvedConeMesh 3 3 1 1 1 ShapeMeshes_init))) div 8 = 16"
    by (simp_all add: LoadCurvedConeMesh_count)
  show ?thesis
    using a b c d e f g by simp
qed

text \<open>
  C2, amended. Where a generator validates a parameter it does so silently, by replacing
  the value, and what it builds depends on the replaced value only:
  \<^item> \<open>LoadConeMesh\<close>, \<open>LoadCylinderMesh\<close>, \<open>LoadTubeMesh\<close>, \<open>LoadTaperedCylinderMesh\<close>: a slice
    count below 3 becomes 3 (the vertex counts are \<open>3n + 2\<close>, \<open>4n + 6\<close>, \<open>4(n + 1)\<close> and
    \<open>4n + 2\<close> for the clamped \<open>n\<close>);
  \<^item> \<open>LoadTorusMesh\<close>: segment counts below 3 become 3 and a tube radius below 0.01 becomes
    0.01 (\<open>(m + 1)(n + 1)\<close> vertices, the first at \<open>(mainRadius + tubeRadius, 0, 0)\<close>);
  \<^item> \<open>LoadExtraTorusMesh1\<close>, \<open>LoadExtraTorusMesh2\<close>: a thickness above 1 becomes 0.1 (the first
    vertex is at \<open>(1 + thickness, 0, 0)\<close>);
  \<^item> \<open>LoadSpringMesh\<close>: a main segment count below 1 becomes 1 and a tube segment count
    below 8 becomes 8 (\<open>(mn + 1)(n + 1)\<close> vertices);
  \<^item> \<open>LoadCurvedConeMesh\<close>: a slice count below 3 becomes 3 and a curve step count below 1
    becomes 1 (\<open>(k + 1)(n + 1)\<close> vertices);
  \<^item> \<open>DrawPartialConeMesh\<close>: a slice count below 3 becomes 3 and the arc in degrees is
    clamped into \<open>[0, 360]\<close> (\<open>2(n + 1)\<close> vertices, the first on the rim at minus half the
    clamped arc);
  \<^item> \<open>DrawSuperellipsoidMesh\<close>: segment counts below 3 become 3 and each non-positive scale
    or exponent becomes 0.1 (\<open>(u + 1)(v + 1)\<close> vertices, at the positions the replaced scales
    and exponents give).

  None of these replacements signals an error: the first, third and fourth group always
  return buffers, and \<open>LoadTaperedCylinderMesh\<close>, \<open>LoadSpringMesh\<close> and
  \<open>DrawSuperellipsoidMesh\<close> return buffers exactly when the \<open>int\<close> expressions they evaluate
  on the clamped counts do not overflow.
\<close>

theorem C2_clamping_where_the_code_validates:
  "LoadConeMesh radius height n s = LoadConeMesh radius height (max 3 n) s \<and>
   length (fst (fst (LoadConeMesh radius height n s))) div 8 = 3 * nat (max 3 n) + 2 \<and>
   LoadCylinderMesh radius height n s = LoadCylinderMesh radius height (max 3 n) s \<and>
   length (fst (fst (LoadCylinderMesh radius height n s))) div 8 = 4 * nat (max 3 n) + 6 \<and>
   LoadTubeMesh ro ri height n s = LoadTubeMesh ro ri height (max 3 n) s \<and>
   length (fst (fst (LoadTubeMesh ro ri height n s))) div 8 = 4 * nat (max 3 n + 1) \<and>
   LoadTaperedCylinderMesh rb rt height n s = LoadTaperedCylinderMesh rb rt height (max 3 n) s \<and>
   (LoadTaperedCylinderMesh rb rt height n s = Inr b1 \<longrightarrow>
      length (fst (fst b1)) div 8 = 4 * nat (max 3 n) + 2) \<and>
   ((\<exists>b. LoadTaperedCylinderMesh rb rt height n s = Inr b)
      \<longleftrightarrow> (2 * (max 3 n + 1) + 2 * max 3 n) * 8 \<le> INT_MAX) \<and>
   LoadTorusMesh mainRadius tubeRadius m n s =
     LoadTorusMesh mainRadius (max 0.01 tubeRadius) (max 3 m) (max 3 n) s \<and>
   length (fst (fst (LoadTorusMesh mainRadius tubeRadius m n s))) div 8
     = nat (max 3 m + 1) * nat (max 3 n + 1) \<and>
   vertex_position (fst (fst (LoadTorusMesh mainRadius tubeRadius m n s))) 0
     = Vec3 (mainRadius + max 0.01 tubeRadius) 0 0 \<and>
   LoadSpringMesh mainRadius tubeRadius m n springLength s =
     LoadSpringMesh mainRadius tubeRadius (max 1 m) (max 8 n) springLength s \<and>
   (LoadSpringMesh mainRadius tubeRadius m n springLength s = Inr b2 \<longrightarrow>
      length (fst (fst b2)) div 8 = nat (max 1 m * max 8 n + 1) * nat (max 8 n + 1)) \<and>
   ((\<exists>b. LoadSpringMesh mainRadius tubeRadius m n springLength s = Inr b)
      \<longleftrightarrow> max 1 m * max 8 n \<le> INT_MAX) \<and>
   LoadCurvedConeMesh n k radius height bendRadius s =
     LoadCurvedConeMesh (max 3 n) (max 1 k) radius height bendRadius s \<and>
   length (fst (fst (LoadCurvedConeMesh n k radius height bendRadius s))) div 8
     = nat (max 1 k + 1) * nat (max 3 n + 1) \<and>
   DrawPartialConeMesh radius height n arcDegrees wireframe s =
     DrawPartialConeMesh radius height (max 3 n) (clamp arcDegrees 0 360) wireframe s \<and>
   clamp arcDegrees 0 360 = (if arcDegrees < 0 then 0 else if 360 < arcDegrees then 360
                             else arcDegrees) \<and>
   length (fst (fst (DrawPartialConeMesh radius height n arcDegrees wireframe s))) div 8
     = 2 * nat (max 3 n + 1) \<and>
   vertex_position (fst (fst (DrawPartialConeMesh radius height n arcDegrees wireframe s))) 0
     = Vec3 (radius * cos (- (radians (clamp arcDegrees 0 360) * 0.5))) 0
            (radius * sin (- (radians (clamp arcDegrees 0 360) * 0.5))) \<and>
   DrawSuperellipsoidMesh sx sy sz e1 e2 u v s =
     DrawSuperellipsoidMesh (if sx \<le> 0 then 0.1 else sx) (if sy \<le> 0 then 0.1 else sy)
       (if sz \<le> 0 then 0.1 else sz) (if e1 \<le> 0 then 0.1 else e1)
       (if e2 \<le> 0 then 0.1 else e2) (max 3 u) (max 3 v) s \<and>
   (DrawSuperellipsoidMesh sx sy sz e1 e2 u v s = Inr b3 \<longrightarrow>
      length (fst (fst b3)) div 8 = nat (max 3 u + 1) * nat (max 3 v + 1)) \<and>
   (DrawSuperellipsoidMesh sx sy sz e1 e2 u v s = Inr b3 \<longrightarrow>
      0 \<le> i \<longrightarrow> i \<le> max 3 u \<longrightarrow> 0 \<le> j \<longrightarrow> j \<le> max 3 v \<longrightarrow>
      vertex_position (fst (fst b3)) (nat (i * (max 3 v + 1) + j)) =
        (let scaleX = (if sx \<le> 0 then 0.1 else sx);
             scaleY = (if sy \<le> 0 then 0.1 else sy);
             scaleZ = (if sz \<le> 0 then 0.1 else sz);
             verticalExponent = (if e1 \<le> 0 then 0.1 else e1);
             horizontalExponent = (if e2 \<le> 0 then 0.1 else e2);
             cu = cos (- pi_f * 0.5 + real_of_int i / real_of_int (max 3 u) * pi_f);
             su = sin (- pi_f * 0.5 + real_of_int i / real_of_int (max 3 u) * pi_f);
             cv = cos (- pi_f + real_of_int j / real_of_int (max 3 v) * (2 * pi_f));
             sv = sin (- pi_f + real_of_int j / real_of_int (max 3 v) * (2 * pi_f))
         in Vec3 (scaleX * (sgn cu * (\<bar>cu\<bar> powr verticalExponent))
                         * (sgn cv * (\<bar>cv\<bar> powr horizontalExponent)))
                 (scaleY * (sgn cu * (\<bar>cu\<bar> powr verticalExponent))
                         * (sgn sv * (\<bar>sv\<bar> powr horizontalExponent)))
                 (scaleZ * (sgn su * (\<bar>su\<bar> powr verticalExponent))))) \<and>
   ((\<exists>b. DrawSuperellipsoidMesh sx sy sz e1 e2 u v s = Inr b)
      \<longleftrightarrow> (max 3 u + 1) * (max 3 v + 1) * 8 \<le> INT_MAX) \<and>
   LoadExtraTorusMesh1 thickness s
     = LoadExtraTorusMesh1 (if thickness \<le> 1 then thickness else 0.1) s \<and>
   vertex_position (fst (fst (LoadExtraTorusMesh1 thickness s))) 0
     = Vec3 (1 + (if thickness \<le> 1 then thickness else 0.1)) 0 0 \<and>
   LoadExtraTorusMesh2 thickness s
     = LoadExtraTorusMesh2 (if thickness \<le> 1 then thickness else 0.1) s \<and>
   vertex_position (fst (fst (LoadExtraTorusMesh2 thickness s))) 0
     = Vec3 (1 + (if thickness \<le> 1 then thickness else 0.1)) 0 0"
  apply (intro conjI impI)
  apply (rule LoadConeMesh_clamp)
  apply (rule LoadConeMesh_count)
  apply (rule LoadCylinderMesh_clamp)
  apply (rule LoadCylinderMesh_count)
  apply (rule LoadTubeMesh_clamp)
  apply (rule LoadTubeMesh_count)
  apply (rule LoadTaperedCylinderMesh_clamp)
  apply (erule LoadTaperedCylinderMesh_count)
  apply (rule LoadTaperedCylinderMesh_completes_iff)
  apply (rule LoadTorusMesh_clamp)
  apply (rule LoadTorusMesh_count)
  apply (rule LoadTorusMesh_first_vertex)
  apply (rule LoadSpringMesh_clamp)
  apply (erule LoadSpringMesh_count)
  apply (rule LoadSpringMesh_completes_iff)
  apply (rule LoadCurvedConeMesh_clamp)
  apply (rule LoadCurvedConeMesh_count)
  apply (rule DrawPartialConeMesh_clamp)
  apply (simp add: clamp_def)
  apply (rule DrawPartialConeMesh_count)
  apply (rule DrawPartialConeMesh_first_vertex)
  apply (rule DrawSuperellipsoidMesh_clamp)
  apply (erule DrawSuperellipsoidMesh_count)
  apply (erule (4) DrawSuperellipsoidMesh_position)
  apply (rule DrawSuperellipsoidMesh_completes_iff)
  apply (rule LoadExtraTorusMesh1_clamp)
  apply (rule LoadExtraTorusMesh1_first_vertex)
  apply (rule LoadExtraTorusMesh2_clamp)
  apply (rule LoadExtraTorusMesh2_first_vertex)
  done

text \<open>All counts below their minimum, a zero tube radius, an arc of 400 degrees, a
  thickness of 2 and a negative scale; the superellipsoid vertex is the one at \<open>u = v = 0\<close>.\<close>

theorem C2_witness:
  "length (fst (fst (LoadConeMesh 1 1 2 ShapeMeshes_init))) div 8 = 11 \<and>
   length (fst (fst (tapered_cylinder_mesh 1 1 1 3
     (ShapeMeshes_init\<lparr>m_TaperedCylinderMesh :=
        (m_TaperedCylinderMesh ShapeMeshes_init)\<lparr>numSlices := 3\<rparr>\<rparr>)))) div 8 = 14 \<and>
   length (fst (fst (spring_mesh 1 0 1 8 1 ShapeMeshes_init))) div 8 = 81 \<and>
   vertex_position (fst (fst (LoadTorusMesh 1 0 0 2 ShapeMeshes_init))) 0 = Vec3 (101 / 100) 0 0 \<and>
   vertex_position (fst (fst (LoadExtraTorusMesh1 2 ShapeMeshes_init))) 0 = Vec3 (11 / 10) 0 0 \<and>
   length (fst (fst (superellipsoid_mesh (1 / 10) 1 1 1 1 4 4
     (ShapeMeshes_init\<lparr>m_SuperellipsoidMesh :=
        (m_SuperellipsoidMesh ShapeMeshes_init)\<lparr>numSlices := 4\<rparr>\<rparr>)))) div 8 = 25 \<and>
   vertex_position (fst (fst (superellipsoid_mesh (1 / 10) 1 1 1 1 4 4
     (ShapeMeshes_init\<lparr>m_SuperellipsoidMesh :=
        (m_SuperellipsoidMesh ShapeMeshes_init)\<lparr>numSlices := 4\<rparr>\<rparr>)))) 12 = Vec3 (1 / 10) 0 0"
  using C2_clamping_where_the_code_validates
    [where radius = 1 and height = 1 and n = 2 and s = ShapeMeshes_init
       and rb = 1 and rt = 1
       and ?b1.0 = "tapered_cylinder_mesh 1 1 1 3
         (ShapeMeshes_init\<lparr>m_TaperedCylinderMesh :=
            (m_TaperedCylinderMesh ShapeMeshes_init)\<lparr>numSlices := 3\<rparr>\<rparr>)"
       and mainRadius = 1 and tubeRadius = 0 and m = 0 and springLength = 1
       and ?b2.0 = "spring_mesh 1 0 1 8 1 ShapeMeshes_init"
       and sx = "- 1" and sy = 1 and sz = 1 and ?e1.0 = 1 and ?e2.0 = 1 and u = 4 and v = 4
       and ?b3.0 = "superellipsoid_mesh (1 / 10) 1 1 1 1 4 4
         (ShapeMeshes_init\<lparr>m_SuperellipsoidMesh :=
            (m_SuperellipsoidMesh ShapeMeshes_init)\<lparr>numSlices := 4\<rparr>\<rparr>)"
       and i = 2 and j = 2 and ro = 2 and ri = 1 and k = 0 and bendRadius = 1
       and arcDegrees = 400 and wireframe = False and thickness = 2]
  by (simp add: LoadTaperedCylinderMesh_eq LoadSpringMesh_eq DrawSuperellipsoidMesh_eq
        INT_MAX_def) (elim conjE, simp)

text \<open>
  C3. \<open>InitializeMesh\<close> tests \<open>m_bMemoryLayoutDone\<close> before it calls
  \<open>SetShaderMemoryLayout\<close>, but nothing assigns the flag: it is \<open>false\<close> in a new object and
  stays so. In a new object \<open>LoadBoxMesh()\<close> followed by \<open>LoadPlaneMesh(1, 1)\<close> runs
  \<open>SetShaderMemoryLayout\<close> twice, once in each call, and the flag is still \<open>false\<close>
  afterwards; the second initialisation does not skip the binding.
\<close>

theorem C3_layout_bound_by_every_initialization:
  "\<not> m_bMemoryLayoutDone ShapeMeshes_init \<and>
   layoutCalls ShapeMeshes_init = 0 \<and>
   layoutCalls (snd (LoadBoxMesh ShapeMeshes_init)) = 1 \<and>
   \<not> m_bMemoryLayoutDone (snd (LoadBoxMesh ShapeMeshes_init)) \<and>
   layoutCalls (snd (LoadPlaneMesh 1 1 (snd (LoadBoxMesh ShapeMeshes_init)))) = 2 \<and>
   \<not> m_bMemoryLayoutDone (snd (LoadPlaneMesh 1 1 (snd (LoadBoxMesh ShapeMeshes_init))))"
  by (simp add: LoadBoxMesh_state LoadPlaneMesh_state) (simp add: ShapeMeshes_init_def)

text \<open>
  C4. \<open>LoadConeMesh\<close> with \<open>numSlices = 3\<close> hands the backend exactly 11 vertices
  (88 interleaved floats: bottom centre, three bottom-ring vertices, apex, and two
  side vertices for each of the three slices) and exactly 18 indices (nine for the
  bottom fan, nine for the sides), and stores these counts in \<open>m_ConeMesh\<close>,
  whatever the radius, the height and the state of the object.
\<close>

theorem C4_cone_three_slices_counts:
  "length (fst (fst (LoadConeMesh radius height 3 s))) = 8 * 11 \<and>
   length (fst (fst (LoadConeMesh radius height 3 s))) div 8 = 1 + 3 + 1 + 2 * 3 \<and>
   length (snd (fst (LoadConeMesh radius height 3 s))) = 3 * 3 + 3 * 3 \<and>
   nVertices (m_ConeMesh (snd (LoadConeMesh radius height 3 s))) = 11 \<and>
   nIndices (m_ConeMesh (snd (LoadConeMesh radius height 3 s))) = 18"
  by (simp add: LoadConeMesh_snd InitializeMesh_simps Let_def LoadConeMesh_lengths)




text \<open>
  C6. \<open>DrawPartialConeMesh\<close> with an arc below 360 degrees (and in fact with any arc): no
  triangle of its index array has a vertex of the first angular column, \<open>i = 0\<close>, together
  with a vertex of the last, \<open>i = numSlices\<close> (the clamped slice count). Every triangle
  joins column \<open>i\<close> to column \<open>i + 1\<close> for some \<open>i < numSlices\<close>, and there are at least three
  slices.
\<close>

theorem C6_partial_cone_open:
  assumes "arcDegrees < 360"
    and "(a, b, c) \<in> set (triangles (snd (fst
           (DrawPartialConeMesh radius height n arcDegrees wireframe s))))"
  shows "\<not> (0 \<in> partial_cone_column ` {a, b, c} \<and>
            nat (max 3 n) \<in> partial_cone_column ` {a, b, c})"
proof -
  from assms(2) obtain i where i: "0 \<le> i" "i \<le> max 3 n - 1"
    and t: "(a, b, c) = (nat (2 * i), nat (2 * (i + 1) + 1), nat (2 * i + 1)) \<or>
            (a, b, c) = (nat (2 * i), nat (2 * (i + 1)), nat (2 * (i + 1) + 1))"
    unfolding DrawPartialConeMesh_triangles by auto
  have c0: "nat (2 * i) div 2 = nat i" "nat (2 * i + 1) div 2 = nat i"
    "nat (2 * (i + 1)) div 2 = nat (i + 1)" "nat (2 * (i + 1) + 1) div 2 = nat (i + 1)"
    using i by (simp_all add: nat_div_distrib nat_add_distrib)
  from t have cols: "partial_cone_column ` {a, b, c} = {nat i, nat (i + 1)}"
    unfolding partial_cone_column_def using c0 by auto
  show ?thesis
    unfolding cols using i by auto
qed

text \<open>A triangle of the third of three slices: vertices 4, 7, 5, of
  columns 2 and 3.\<close>

theorem C6_witness:
  "(15::real) < 360 \<and>
   (4, 7, 5) \<in> set (triangles (snd (fst (DrawPartialConeMesh 1 2 3 15 False ShapeMeshes_init)))) \<and>
   \<not> (0 \<in> partial_cone_column ` {4, 7, 5} \<and>
      nat (max 3 3) \<in> partial_cone_column ` {4, 7, 5})"
proof -
  have t: "(4, 7, 5) \<in> set (triangles (snd (fst (DrawPartialConeMesh 1 2 3 15 False ShapeMeshes_init))))"
    unfolding DrawPartialConeMesh_triangles by (simp add: upto_rec1)
  from C6_partial_cone_open [of 15 4 7 5 1 2 3 False ShapeMeshes_init, OF _ t] t
  show ?thesis by simp
qed

text \<open>C7. Every vertex normal of a generator with analytic or accumulated normals has a length
  between \<open>1 - 1e-3\<close> and \<open>1 + 1e-3\<close>. \<open>DrawSineConeMesh\<close> breaks this at the last vertex of the
  tip row. The taper is \<open>pow(0, 0.65) = 0\<close> there, so the whole tip row is one point. The last
  vertex, the seam duplicate, is a corner of one quad only, as its \<open>i3\<close>, and receives
  \<open>n1 * area1\<close> where \<open>n1 = cross(p3 - p2, p1 - p2)\<close> with \<open>p3 = p1\<close>: the zero vector. The
  normal written to the buffer is \<open>glm::normalize\<close> of the zero vector, whose length is not
  near 1 (each component is NaN in C++, and 0 here). Shown for three radial segments and one
  height segment, whatever the other parameters are.\<close>

theorem C7_sine_cone_tip_normal_not_unit:
  "length (fst (fst (DrawSineConeMesh baseRadius height flattenFactor sineAmplitude
       sineFrequency sinePhase 3 1 s))) div 8 = 8 \<and>
   vertex_normal (fst (fst (DrawSineConeMesh baseRadius height flattenFactor sineAmplitude
       sineFrequency sinePhase 3 1 s))) 7 = normalize (Vec3 0 0 0) \<and>
   vlength (vertex_normal (fst (fst (DrawSineConeMesh baseRadius height flattenFactor
       sineAmplitude sineFrequency sinePhase 3 1 s))) 7) = 0 \<and>
   vlength (vertex_normal (fst (fst (DrawSineConeMesh baseRadius height flattenFactor
       sineAmplitude sineFrequency sinePhase 3 1 s))) 7) < 1 - 1 / 1000"
  by (simp add: sine_cone_count_3_1 sine_cone_tip_normal normalize_def vscale_def vlength_def
        dot_def)



text \<open>
  C9, as stated, fails. The box has 24 vertices and \<open>m_BoxMesh.nVertices\<close> is 24, but its
  vertex array is 768 bytes long, and 768 divided by 8 is 96: the count is the number of
  floats divided by 8. \<open>DrawTaperedTorusMesh\<close> uploads 16 vertices and stores no count
  (\<open>m_TaperedTorusMesh.nVertices\<close> keeps its initial 0), and \<open>LoadFinMesh\<close> uploads 24 vertices
  and stores only the index count.
\<close>

theorem C9_counterexample:
  "nVertices (m_BoxMesh (snd (LoadBoxMesh ShapeMeshes_init))) = 24 \<and>
   buffer_bytes (fst (fst (LoadBoxMesh ShapeMeshes_init))) = 768 \<and>
   buffer_bytes (fst (fst (LoadBoxMesh ShapeMeshes_init))) div 8 = 96 \<and>
   nVertices (m_BoxMesh (snd (LoadBoxMesh ShapeMeshes_init)))
     \<noteq> buffer_bytes (fst (fst (LoadBoxMesh ShapeMeshes_init))) div 8 \<and>
   nVertices (m_TaperedTorusMesh (snd (DrawTaperedTorusMesh 2 1 1 3 3 1 ShapeMeshes_init))) = 0 \<and>
   length (fst (fst (DrawTaperedTorusMesh 2 1 1 3 3 1 ShapeMeshes_init))) div 8 = 16 \<and>
   nVertices (m_FinMesh (snd (LoadFinMesh 1 1 1 1 ShapeMeshes_init))) = 0 \<and>
   length (fst (fst (LoadFinMesh 1 1 1 1 ShapeMeshes_init))) div 8 = 24"
proof -
  have a: "length (fst (fst (LoadBoxMesh ShapeMeshes_init))) = 192"
    using buffers_ok_length [OF LoadBoxMesh_ok [of ShapeMeshes_init]] by simp
  have b: "length (fst (fst (DrawTaperedTorusMesh 2 1 1 3 3 1 ShapeMeshes_init))) = 128"
    using buffers_ok_length [OF DrawTaperedTorusMesh_ok [of 2 1 1 3 3 1 ShapeMeshes_init]] by simp
  have c: "length (fst (fst (LoadFinMesh 1 1 1 1 ShapeMeshes_init))) = 192"
    using buffers_ok_length [OF LoadFinMesh_ok [of 1 1 1 1 ShapeMeshes_init]] by simp
  have d: "nVertices (m_BoxMesh (snd (LoadBoxMesh ShapeMeshes_init))) = 24"
    using LoadBoxMesh_state [of ShapeMeshes_init] a by simp
  have e: "nVertices (m_TaperedTorusMesh (snd (DrawTaperedTorusMesh 2 1 1 3 3 1 ShapeMeshes_init))) = 0"
    by (simp add: DrawTaperedTorusMesh_snd ShapeMeshes_init_def GLMesh_init_def)
  have f: "nVertices (m_FinMesh (snd (LoadFinMesh 1 1 1 1 ShapeMeshes_init))) = 0"
    by (simp add: LoadFinMesh_snd ShapeMeshes_init_def GLMesh_init_def)
  show ?thesis
    by (simp add: a b c d e f buffer_bytes_def sizeof_GLfloat_def)
qed

text \<open>
  C9, amended. The byte length of a vertex array divided by \<open>8 * sizeof(GLfloat)\<close> is its
  number of floats divided by 8, and that is the vertex count that every generator which
  stores a vertex count stores: the \<open>Load\<close> functions that go through \<open>InitializeMesh\<close>, the
  two extra tori, and \<open>DrawSuperellipsoidMesh\<close>. \<open>DrawPartialConeMesh\<close>,
  \<open>DrawTaperedTorusMesh\<close>, \<open>DrawSpiralMesh\<close> and \<open>DrawSineConeMesh\<close> store nothing: they leave
  the object as it was.
\<close>

theorem C9_stored_vertex_count:
  "buffer_bytes verts div (8 * sizeof_GLfloat) = length verts div 8 \<and>
   nVertices (m_BoxMesh (snd (LoadBoxMesh s))) = length (fst (fst (LoadBoxMesh s))) div 8 \<and>
   nVertices (m_ConeMesh (snd (LoadConeMesh radius height n s)))
     = length (fst (fst (LoadConeMesh radius height n s))) div 8 \<and>
   nVertices (m_CylinderMesh (snd (LoadCylinderMesh radius height n s)))
     = length (fst (fst (LoadCylinderMesh radius height n s))) div 8 \<and>
   nVertices (m_PlaneMesh (snd (LoadPlaneMesh width height s)))
     = length (fst (fst (LoadPlaneMesh width height s))) div 8 \<and>
   nVertices (m_PrismMesh (snd (LoadPrismMesh s))) = length (fst (fst (LoadPrismMesh s))) div 8 \<and>
   nVertices (m_Pyramid3Mesh (snd (LoadPyramid3Mesh s)))
     = length (fst (fst (LoadPyramid3Mesh s))) div 8 \<and>
   nVertices (m_Pyramid4Mesh (snd (LoadPyramid4Mesh baseSize height s)))
     = length (fst (fst (LoadPyramid4Mesh baseSize height s))) div 8 \<and>
   nVertices (m_SphereMesh (snd (LoadSphereMesh lat lon radius s)))
     = length (fst (fst (LoadSphereMesh lat lon radius s))) div 8 \<and>
   nVertices (m_HemisphereMesh (snd (LoadHemisphereMesh lat lon radius s)))
     = length (fst (fst (LoadHemisphereMesh lat lon radius s))) div 8 \<and>
   (LoadTaperedCylinderMesh rb rt height n s = Inr b1 \<longrightarrow>
      nVertices (m_TaperedCylinderMesh (snd b1)) = length (fst (fst b1)) div 8) \<and>
   nVertices (m_TorusMesh (snd (LoadTorusMesh mainRadius tubeRadius m n s)))
     = length (fst (fst (LoadTorusMesh mainRadius tubeRadius m n s))) div 8 \<and>
   nVertices (m_ExtraTorusMesh1 (snd (LoadExtraTorusMesh1 thickness s)))
     = length (fst (fst (LoadExtraTorusMesh1 thickness s))) div 8 \<and>
   nVertices (m_ExtraTorusMesh2 (snd (LoadExtraTorusMesh2 thickness s)))
     = length (fst (fst (LoadExtraTorusMesh2 thickness s))) div 8 \<and>
   (LoadSpringMesh mainRadius tubeRadius m n springLength s = Inr b2 \<longrightarrow>
      nVertices (m_SpringMesh (snd b2)) = length (fst (fst b2)) div 8) \<and>
   nVertices (m_TubeMesh (snd (LoadTubeMesh ro ri height n s)))
     = length (fst (fst (LoadTubeMesh ro ri height n s))) div 8 \<and>
   nVertices (m_CurvedConeMesh (snd (LoadCurvedConeMesh n k radius height bendRadius s)))
     = length (fst (fst (LoadCurvedConeMesh n k radius height bendRadius s))) div 8 \<and>
   (DrawSuperellipsoidMesh sx sy sz e1 e2 u v s = Inr b3 \<longrightarrow>
      nVertices (m_SuperellipsoidMesh (snd b3)) = length (fst (fst b3)) div 8) \<and>
   snd (DrawPartialConeMesh radius height n arcDegrees wireframe s) = s \<and>
   snd (DrawTaperedTorusMesh mainRadius r0 r1 m n sweep s) = s \<and>
   (DrawSpiralMesh F tubeRadius flattenFactor loopSpacing numLoops tubeSegments spiralSegments s
      = Inr b4 \<longrightarrow> snd b4 = s) \<and>
   snd (DrawSineConeMesh baseRadius height flattenFactor sineAmplitude sineFrequency sinePhase
          radialSegments heightSegments s) = s"
  apply (intro conjI impI)
                      apply (rule buffer_bytes_div)
                      apply (rule LoadBoxMesh_state [THEN conjunct1])
                      apply (rule LoadConeMesh_state [THEN conjunct1])
                      apply (rule LoadCylinderMesh_state [THEN conjunct1])
                      apply (rule LoadPlaneMesh_state [THEN conjunct1])
                      apply (rule LoadPrismMesh_state [THEN conjunct1])
                      apply (rule LoadPyramid3Mesh_state [THEN conjunct1])
                      apply (rule LoadPyramid4Mesh_state [THEN conjunct1])
                      apply (rule LoadSphereMesh_state [THEN conjunct1])
                      apply (rule LoadHemisphereMesh_state [THEN conjunct1])
                      apply (erule LoadTaperedCylinderMesh_state [THEN conjunct1])
                      apply (rule LoadTorusMesh_state [THEN conjunct1])
                     apply (rule LoadExtraTorusMesh1_state [THEN conjunct1])
                    apply (rule LoadExtraTorusMesh2_state [THEN conjunct1])
                   apply (erule LoadSpringMesh_state)
                  apply (rule LoadTubeMesh_state [THEN conjunct1])
                 apply (rule LoadCurvedConeMesh_state [THEN conjunct1])
                apply (erule DrawSuperellipsoidMesh_state)
               apply (rule DrawPartialConeMesh_snd)
              apply (rule DrawTaperedTorusMesh_snd)
             apply (cases b4, simp add: DrawSpiralMesh_snd)
  apply (rule DrawSineConeMesh_snd)
  done

text \<open>A tapered cylinder, a spring, a superellipsoid and a spiral that complete.\<close>

theorem C9_witness:
  "nVertices (m_TaperedCylinderMesh (snd (tapered_cylinder_mesh 1 1 1 3
     (ShapeMeshes_init\<lparr>m_TaperedCylinderMesh :=
        (m_TaperedCylinderMesh ShapeMeshes_init)\<lparr>numSlices := 3\<rparr>\<rparr>)))) = 14 \<and>
   nVertices (m_SpringMesh (snd (spring_mesh 1 1 1 8 1 ShapeMeshes_init))) = 81 \<and>
   nVertices (m_SuperellipsoidMesh (snd (superellipsoid_mesh 1 1 1 1 1 4 4
     (ShapeMeshes_init\<lparr>m_SuperellipsoidMesh :=
        (m_SuperellipsoidMesh ShapeMeshes_init)\<lparr>numSlices := 4\<rparr>\<rparr>)))) = 25 \<and>
   DrawSpiralMesh exact_arithmetic 1 0 1 1 3 4 ShapeMeshes_init =
     Inr (spiral_buffers (spiral_centers exact_arithmetic 1 (2 * pi_f) (pi_f / 2) pi_f 2 4)
            1 0 3 (2 * pi_f / 3) pi_f, ShapeMeshes_init)"
proof -
  have a: "length (fst (fst (tapered_cylinder_mesh 1 1 1 3
     (ShapeMeshes_init\<lparr>m_TaperedCylinderMesh :=
        (m_TaperedCylinderMesh ShapeMeshes_init)\<lparr>numSlices := 3\<rparr>\<rparr>)))) div 8 = 14"
    using buffers_ok_count [OF tapered_cylinder_mesh_ok [of 3 1 1 1]] by simp
  have b: "length (fst (fst (spring_mesh 1 1 1 8 1 ShapeMeshes_init))) div 8 = 81"
    using buffers_ok_count [OF spring_mesh_ok [of 1 8 1 1 1 ShapeMeshes_init]] by simp
  have c: "length (fst (fst (superellipsoid_mesh 1 1 1 1 1 4 4
     (ShapeMeshes_init\<lparr>m_SuperellipsoidMesh :=
        (m_SuperellipsoidMesh ShapeMeshes_init)\<lparr>numSlices := 4\<rparr>\<rparr>)))) div 8 = 25"
    using buffers_ok_count [OF superellipsoid_mesh_ok [of 4 4 1 1 1 1 1]] by simp
  show ?thesis
    using C9_stored_vertex_count
      [where rb = 1 and rt = 1 and height = 1 and n = 2 and s = ShapeMeshes_init
         and ?b1.0 = "tapered_cylinder_mesh 1 1 1 3
           (ShapeMeshes_init\<lparr>m_TaperedCylinderMesh :=
              (m_TaperedCylinderMesh ShapeMeshes_init)\<lparr>numSlices := 3\<rparr>\<rparr>)"
         and mainRadius = 1 and tubeRadius = 1 and m = 1 and springLength = 1
         and ?b2.0 = "spring_mesh 1 1 1 8 1 ShapeMeshes_init"
         and sx = 1 and sy = 1 and sz = 1 and ?e1.0 = 1 and ?e2.0 = 1 and u = 4 and v = 4
         and ?b3.0 = "superellipsoid_mesh 1 1 1 1 1 4 4
           (ShapeMeshes_init\<lparr>m_SuperellipsoidMesh :=
              (m_SuperellipsoidMesh ShapeMeshes_init)\<lparr>numSlices := 4\<rparr>\<rparr>)"
         and F = exact_arithmetic and flattenFactor = 0 and loopSpacing = 1 and numLoops = 1
         and tubeSegments = 3 and spiralSegments = 4
         and ?b4.0 = "(spiral_buffers (spiral_centers exact_arithmetic 1 (2 * pi_f) (pi_f / 2)
                        pi_f 2 4) 1 0 3 (2 * pi_f / 3) pi_f, ShapeMeshes_init)"]
    by (simp add: LoadTaperedCylinderMesh_eq LoadSpringMesh_eq DrawSuperellipsoidMesh_eq
          INT_MAX_def DrawSpiralMesh_one_loop a b c)
qed

text \<open>
  C10. Every vertex that \<open>LoadTubeMesh\<close> emits has a vertical normal. The vertices come in
  fours, outer bottom, outer top, inner bottom, inner top: the even ones lie on the bottom
  ring (\<open>y = 0\<close>) and have the normal \<open>(0, -1, 0)\<close>, the odd ones lie on the top ring
  (\<open>y = height\<close>) and have the normal \<open>(0, 1, 0)\<close>, on the outer wall and on the inner wall
  alike.
\<close>

theorem C10_tube_normals_vertical:
  assumes "k < length (fst (fst (LoadTubeMesh outerRadius innerRadius height n s))) div 8"
  shows "vertex_normal (fst (fst (LoadTubeMesh outerRadius innerRadius height n s))) k
           = (if even k then Vec3 0 (- 1) 0 else Vec3 0 1 0) \<and>
         vy (vertex_position (fst (fst (LoadTubeMesh outerRadius innerRadius height n s))) k)
           = (if even k then 0 else height)"
proof -
  have "buffers_ok (fst (LoadTubeMesh outerRadius innerRadius height (max 3 n) s))
          (4 * nat (max 3 n + 1))"
    by (rule LoadTubeMesh_ok) simp
  then have "length (fst (fst (LoadTubeMesh outerRadius innerRadius height (max 3 n) s)))
               = 8 * (4 * nat (max 3 n + 1))"
    by (simp add: buffers_ok_def)
  with assms have "k < 4 * nat (max 3 n + 1)"
    by (simp add: LoadTubeMesh_clamp [of outerRadius innerRadius height n s])
  then have "vertex_normal (fst (fst (LoadTubeMesh outerRadius innerRadius height (max 3 n) s))) k
           = (if even k then Vec3 0 (- 1) 0 else Vec3 0 1 0) \<and>
         vy (vertex_position (fst (fst (LoadTubeMesh outerRadius innerRadius height (max 3 n) s))) k)
           = (if even k then 0 else height)"
    by (intro LoadTubeMesh_vertex) simp_all
  then show ?thesis
    by (simp only: LoadTubeMesh_clamp [of outerRadius innerRadius height n s, symmetric])
qed

text \<open>Vertex 5, the outer top vertex of the second slice of a tube of height 3.\<close>

theorem C10_witness:
  "5 < length (fst (fst (LoadTubeMesh 2 1 3 3 ShapeMeshes_init))) div 8 \<and>
   vertex_normal (fst (fst (LoadTubeMesh 2 1 3 3 ShapeMeshes_init))) 5 = Vec3 0 1 0 \<and>
   vy (vertex_position (fst (fst (LoadTubeMesh 2 1 3 3 ShapeMeshes_init))) 5) = 3"
proof -
  have "buffers_ok (fst (LoadTubeMesh 2 1 3 3 ShapeMeshes_init)) (4 * nat (3 + 1))"
    by (rule LoadTubeMesh_ok) simp
  then have len: "length (fst (fst (LoadTubeMesh 2 1 3 3 ShapeMeshes_init))) = 128"
    by (simp add: buffers_ok_def)
  with C10_tube_normals_vertical [of 5 2 1 3 3 ShapeMeshes_init] show ?thesis
    by simp
qed

end
